theory Spec2Isabelle
  imports Complex_Main "HOL-Library.Sublist" "HOL-Library.Word"
begin

section \<open>The language toggle of the App component\<close>

text \<open>
  \<^verbatim>\<open>useState<'en' | 'ta'>('en')\<close>: the language state is a union of two string literals,
  modelled as a datatype with the string each value stands for.
\<close>

datatype language = En | Ta

fun language_code :: "language \<Rightarrow> string" where
  "language_code En = ''en''"
| "language_code Ta = ''ta''"

text \<open>
  \<^verbatim>\<open>LanguageContent\<close> is declared in a types module that the component imports; the
  component reads its sections \<^verbatim>\<open>nav\<close>, \<^verbatim>\<open>hero\<close>, \<^verbatim>\<open>services\<close>, \<^verbatim>\<open>about\<close> and
  \<^verbatim>\<open>contact\<close> and writes the key \<^verbatim>\<open>language\<close> of \<^verbatim>\<open>nav\<close>. The sections and the other keys
  of \<^verbatim>\<open>nav\<close> are type parameters, and the two locale objects are parameters of \<open>content\<close>.
\<close>

record 'n nav_content =
  language :: string
  nav_labels :: 'n

record ('n, 'h, 's, 'a, 'c) language_content =
  nav :: "'n nav_content"
  hero :: 'h
  services :: 's
  about :: 'a
  contact :: 'c

text \<open>
  \<^verbatim>\<open>{ ...(language === 'en' ? en : ta),
       nav: { ...(language === 'en' ? en.nav : ta.nav), language } }\<close>
\<close>

definition content ::
  "('n, 'h, 's, 'a, 'c) language_content \<Rightarrow> ('n, 'h, 's, 'a, 'c) language_content \<Rightarrow>
   language \<Rightarrow> ('n, 'h, 's, 'a, 'c) language_content" where
  "content en ta lang =
     (if lang = En then en else ta)
       \<lparr>nav := (if lang = En then nav en else nav ta)\<lparr>language := language_code lang\<rparr>\<rparr>"

text \<open>\<^verbatim>\<open>setLanguage(prev => prev === 'en' ? 'ta' : 'en')\<close>\<close>

definition toggleLanguage :: "language \<Rightarrow> language" where
  "toggleLanguage prev = (if prev = En then Ta else En)"

text \<open>
  The component imports its two locale objects from the locale modules. Two objects of
  that shape for the examples, with a label for each section: the label of the language
  in the navigation is the name of the language.
\<close>

definition example_en :: "(string, string, string, string, string) language_content" where
  "example_en =
     \<lparr>nav = \<lparr>language = ''English'', nav_labels = ''Home''\<rparr>,
      hero = ''Care at home'', services = ''Services'', about = ''About us'',
      contact = ''Contact''\<rparr>"

definition example_ta :: "(string, string, string, string, string) language_content" where
  "example_ta =
     \<lparr>nav = \<lparr>language = ''Tamil'', nav_labels = ''Mugappu''\<rparr>,
      hero = ''Veettil paramarippu'', services = ''Sevaigal'', about = ''Engalai patri'',
      contact = ''Thodarbu''\<rparr>"

section \<open>The database schema: rows and tables\<close>

text \<open>
  The schema is a migration script of data definitions. Each table is a record of its
  columns: a column declared \<^verbatim>\<open>NOT NULL\<close> or \<^verbatim>\<open>PRIMARY KEY\<close> holds a value, any other
  column holds an option (\<open>None\<close> is SQL's \<^verbatim>\<open>NULL\<close>). A \<^verbatim>\<open>uuid\<close> and a \<^verbatim>\<open>text\<close> are
  strings, a \<^verbatim>\<open>date\<close> counts days, a \<^verbatim>\<open>time\<close> counts the microseconds since midnight
  (the resolution of the engine), a \<^verbatim>\<open>timestamptz\<close> counts microseconds, an
  \<^verbatim>\<open>integer\<close> is a word of 32 bits, read as a signed number: a value out of its range is
  refused before it reaches a table. A row given to an insert has its column defaults
  already filled in.
\<close>

type_synonym uuid = string
type_synonym date = int
type_synonym time = int
type_synonym timestamptz = int

record profiles_row =
  p_id :: uuid
  p_role :: string
  p_name :: string
  p_phone :: "string option"
  p_address :: "string option"
  p_created_at :: "timestamptz option"
  p_updated_at :: "timestamptz option"

record service_areas_row =
  sa_id :: uuid
  sa_pincode :: string
  sa_service_id :: string
  sa_is_available :: "bool option"
  sa_created_at :: "timestamptz option"
  sa_updated_at :: "timestamptz option"

record patient_profiles_row =
  pp_id :: uuid
  pp_date_of_birth :: "date option"
  pp_gender :: "string option"
  pp_blood_group :: "string option"
  pp_emergency_contact_name :: "string option"
  pp_emergency_contact_phone :: "string option"
  pp_medical_conditions :: "string list option"
  pp_allergies :: "string list option"
  pp_current_medications :: "string list option"
  pp_created_at :: "timestamptz option"
  pp_updated_at :: "timestamptz option"

record nurse_profiles_row =
  np_id :: uuid
  np_qualification :: string
  np_years_of_experience :: "32 word"
  np_specializations :: "string list option"
  np_languages_spoken :: "string list option"
  np_created_at :: "timestamptz option"
  np_updated_at :: "timestamptz option"

record nurse_service_areas_row =
  nsa_id :: uuid
  nsa_nurse_id :: "uuid option"
  nsa_pincode :: string
  nsa_is_active :: "bool option"
  nsa_created_at :: "timestamptz option"
  nsa_updated_at :: "timestamptz option"

record nurse_slots_row =
  ns_id :: uuid
  ns_nurse_id :: "uuid option"
  ns_date :: date
  ns_start_time :: time
  ns_end_time :: time
  ns_status :: string
  ns_created_at :: "timestamptz option"
  ns_updated_at :: "timestamptz option"

record bookings_row =
  b_id :: uuid
  b_patient_id :: "uuid option"
  b_nurse_id :: "uuid option"
  b_slot_id :: "uuid option"
  b_service_id :: string
  b_status :: string
  b_notes :: "string option"
  b_created_at :: "timestamptz option"
  b_updated_at :: "timestamptz option"

text \<open>
  The state of the database: the seven tables of the script, and the identifiers of
  \<^verbatim>\<open>auth.users\<close>, the table of the identity provider that \<^verbatim>\<open>profiles.id\<close> references.
\<close>

record database =
  auth_users :: "uuid list"
  profiles :: "profiles_row list"
  service_areas :: "service_areas_row list"
  patient_profiles :: "patient_profiles_row list"
  nurse_profiles :: "nurse_profiles_row list"
  nurse_service_areas :: "nurse_service_areas_row list"
  nurse_slots :: "nurse_slots_row list"
  bookings :: "bookings_row list"

text \<open>
  A statement that violates a constraint fails with the engine's error condition and the
  name of the constraint, and changes nothing.
\<close>

datatype error =
    unique_violation string
  | foreign_key_violation string
  | check_violation string
  | insufficient_privilege string
  | undefined_table string
  | duplicate_object string

subsection \<open>Check constraints\<close>

text \<open>
  A check passes when its expression is true or \<^verbatim>\<open>NULL\<close>: on a nullable column a
  \<^verbatim>\<open>NULL\<close> passes.
\<close>

definition profiles_role_check :: "profiles_row \<Rightarrow> bool" where
  "profiles_role_check r = (p_role r \<in> set [''patient'', ''nurse''])"

definition patient_profiles_gender_check :: "patient_profiles_row \<Rightarrow> bool" where
  "patient_profiles_gender_check r =
     (case pp_gender r of None \<Rightarrow> True | Some g \<Rightarrow> g \<in> set [''male'', ''female'', ''other''])"

definition nurse_slots_status_check :: "nurse_slots_row \<Rightarrow> bool" where
  "nurse_slots_status_check r =
     (ns_status r \<in> set [''available'', ''booked'', ''completed'', ''cancelled''])"

definition valid_slot_time :: "nurse_slots_row \<Rightarrow> bool" where
  "valid_slot_time r = (ns_end_time r > ns_start_time r)"

text \<open>
  \<^verbatim>\<open>EXTRACT(EPOCH FROM i)\<close> of an interval is its length in seconds, a numeric with the
  microseconds as its fraction.
\<close>

definition extract_epoch :: "int \<Rightarrow> rat" where
  "extract_epoch i = of_int i / 1000000"

definition one_hour_slot :: "nurse_slots_row \<Rightarrow> bool" where
  "one_hour_slot r = (extract_epoch (ns_end_time r - ns_start_time r) = 3600)"

definition bookings_status_check :: "bookings_row \<Rightarrow> bool" where
  "bookings_status_check r =
     (b_status r \<in> set [''pending'', ''confirmed'', ''completed'', ''cancelled''])"

subsection \<open>Foreign keys and uniqueness\<close>

text \<open>
  A foreign key on a nullable column is satisfied by \<^verbatim>\<open>NULL\<close>. A \<^verbatim>\<open>UNIQUE\<close> constraint
  compares with \<open>=\<close>, so a row with a \<^verbatim>\<open>NULL\<close> in one of its columns conflicts with no row.
\<close>

definition references :: "uuid option \<Rightarrow> uuid list \<Rightarrow> bool" where
  "references k ids = (case k of None \<Rightarrow> True | Some i \<Rightarrow> i \<in> set ids)"

definition service_areas_conflict :: "service_areas_row \<Rightarrow> service_areas_row list \<Rightarrow> bool" where
  "service_areas_conflict r rows =
     (\<exists>r' \<in> set rows. sa_pincode r' = sa_pincode r \<and> sa_service_id r' = sa_service_id r)"

definition nurse_service_areas_conflict ::
  "nurse_service_areas_row \<Rightarrow> nurse_service_areas_row list \<Rightarrow> bool" where
  "nurse_service_areas_conflict r rows =
     (nsa_nurse_id r \<noteq> None \<and>
      (\<exists>r' \<in> set rows. nsa_nurse_id r' = nsa_nurse_id r \<and> nsa_pincode r' = nsa_pincode r))"

subsection \<open>INSERT\<close>

text \<open>
  One function for each \<^verbatim>\<open>CREATE TABLE\<close>: the row is appended when every constraint of
  the table holds.
\<close>

definition insert_auth_users :: "uuid \<Rightarrow> database \<Rightarrow> error + database" where
  "insert_auth_users u db =
     (if u \<in> set (auth_users db) then Inl (unique_violation ''users_pkey'')
      else Inr (db\<lparr>auth_users := auth_users db @ [u]\<rparr>))"

definition insert_profiles :: "profiles_row \<Rightarrow> database \<Rightarrow> error + database" where
  "insert_profiles r db =
     (if \<not> profiles_role_check r then Inl (check_violation ''profiles_role_check'')
      else if p_id r \<in> set (map p_id (profiles db)) then Inl (unique_violation ''profiles_pkey'')
      else if p_id r \<notin> set (auth_users db) then Inl (foreign_key_violation ''profiles_id_fkey'')
      else Inr (db\<lparr>profiles := profiles db @ [r]\<rparr>))"

definition insert_service_areas :: "service_areas_row \<Rightarrow> database \<Rightarrow> error + database" where
  "insert_service_areas r db =
     (if sa_id r \<in> set (map sa_id (service_areas db))
      then Inl (unique_violation ''service_areas_pkey'')
      else if service_areas_conflict r (service_areas db)
      then Inl (unique_violation ''service_areas_pincode_service_id_key'')
      else Inr (db\<lparr>service_areas := service_areas db @ [r]\<rparr>))"

definition insert_patient_profiles :: "patient_profiles_row \<Rightarrow> database \<Rightarrow> error + database" where
  "insert_patient_profiles r db =
     (if \<not> patient_profiles_gender_check r
      then Inl (check_violation ''patient_profiles_gender_check'')
      else if pp_id r \<in> set (map pp_id (patient_profiles db))
      then Inl (unique_violation ''patient_profiles_pkey'')
      else if pp_id r \<notin> set (map p_id (profiles db))
      then Inl (foreign_key_violation ''patient_profiles_id_fkey'')
      else Inr (db\<lparr>patient_profiles := patient_profiles db @ [r]\<rparr>))"

definition insert_nurse_profiles :: "nurse_profiles_row \<Rightarrow> database \<Rightarrow> error + database" where
  "insert_nurse_profiles r db =
     (if np_id r \<in> set (map np_id (nurse_profiles db))
      then Inl (unique_violation ''nurse_profiles_pkey'')
      else if np_id r \<notin> set (map p_id (profiles db))
      then Inl (foreign_key_violation ''nurse_profiles_id_fkey'')
      else Inr (db\<lparr>nurse_profiles := nurse_profiles db @ [r]\<rparr>))"

definition insert_nurse_service_areas ::
  "nurse_service_areas_row \<Rightarrow> database \<Rightarrow> error + database" where
  "insert_nurse_service_areas r db =
     (if nsa_id r \<in> set (map nsa_id (nurse_service_areas db))
      then Inl (unique_violation ''nurse_service_areas_pkey'')
      else if nurse_service_areas_conflict r (nurse_service_areas db)
      then Inl (unique_violation ''nurse_service_areas_nurse_id_pincode_key'')
      else if \<not> references (nsa_nurse_id r) (map np_id (nurse_profiles db))
      then Inl (foreign_key_violation ''nurse_service_areas_nurse_id_fkey'')
      else Inr (db\<lparr>nurse_service_areas := nurse_service_areas db @ [r]\<rparr>))"

definition insert_nurse_slots :: "nurse_slots_row \<Rightarrow> database \<Rightarrow> error + database" where
  "insert_nurse_slots r db =
     (if \<not> nurse_slots_status_check r then Inl (check_violation ''nurse_slots_status_check'')
      else if \<not> valid_slot_time r then Inl (check_violation ''valid_slot_time'')
      else if \<not> one_hour_slot r then Inl (check_violation ''one_hour_slot'')
      else if ns_id r \<in> set (map ns_id (nurse_slots db))
      then Inl (unique_violation ''nurse_slots_pkey'')
      else if \<not> references (ns_nurse_id r) (map np_id (nurse_profiles db))
      then Inl (foreign_key_violation ''nurse_slots_nurse_id_fkey'')
      else Inr (db\<lparr>nurse_slots := nurse_slots db @ [r]\<rparr>))"

definition insert_bookings :: "bookings_row \<Rightarrow> database \<Rightarrow> error + database" where
  "insert_bookings r db =
     (if \<not> bookings_status_check r then Inl (check_violation ''bookings_status_check'')
      else if b_id r \<in> set (map b_id (bookings db)) then Inl (unique_violation ''bookings_pkey'')
      else if \<not> references (b_patient_id r) (map pp_id (patient_profiles db))
      then Inl (foreign_key_violation ''bookings_patient_id_fkey'')
      else if \<not> references (b_nurse_id r) (map np_id (nurse_profiles db))
      then Inl (foreign_key_violation ''bookings_nurse_id_fkey'')
      else if \<not> references (b_slot_id r) (map ns_id (nurse_slots db))
      then Inl (foreign_key_violation ''bookings_slot_id_fkey'')
      else Inr (db\<lparr>bookings := bookings db @ [r]\<rparr>))"

subsection \<open>DELETE, with the cascades of the foreign keys\<close>

text \<open>
  Every foreign key of the script is \<^verbatim>\<open>ON DELETE CASCADE\<close>: deleting rows of a table
  deletes the rows of the other tables that reference them, and so on down the chain
  \<^verbatim>\<open>auth.users\<close>, \<^verbatim>\<open>profiles\<close>, \<^verbatim>\<open>patient_profiles\<close> and \<^verbatim>\<open>nurse_profiles\<close>,
  \<^verbatim>\<open>nurse_service_areas\<close> and \<^verbatim>\<open>nurse_slots\<close>, \<^verbatim>\<open>bookings\<close>. The rows to delete are those
  that satisfy the \<^verbatim>\<open>WHERE\<close> condition \<open>P\<close>.
\<close>

definition refers :: "uuid option \<Rightarrow> uuid list \<Rightarrow> bool" where
  "refers k gone = (case k of None \<Rightarrow> False | Some i \<Rightarrow> i \<in> set gone)"

definition delete_bookings :: "(bookings_row \<Rightarrow> bool) \<Rightarrow> database \<Rightarrow> database" where
  "delete_bookings P db = db\<lparr>bookings := filter (\<lambda>r. \<not> P r) (bookings db)\<rparr>"

definition delete_nurse_slots :: "(nurse_slots_row \<Rightarrow> bool) \<Rightarrow> database \<Rightarrow> database" where
  "delete_nurse_slots P db =
     (let gone = map ns_id (filter P (nurse_slots db))
      in delete_bookings (\<lambda>b. refers (b_slot_id b) gone)
           (db\<lparr>nurse_slots := filter (\<lambda>r. \<not> P r) (nurse_slots db)\<rparr>))"

definition delete_nurse_service_areas ::
  "(nurse_service_areas_row \<Rightarrow> bool) \<Rightarrow> database \<Rightarrow> database" where
  "delete_nurse_service_areas P db =
     db\<lparr>nurse_service_areas := filter (\<lambda>r. \<not> P r) (nurse_service_areas db)\<rparr>"

definition delete_nurse_profiles :: "(nurse_profiles_row \<Rightarrow> bool) \<Rightarrow> database \<Rightarrow> database" where
  "delete_nurse_profiles P db =
     (let gone = map np_id (filter P (nurse_profiles db))
      in delete_bookings (\<lambda>b. refers (b_nurse_id b) gone)
           (delete_nurse_slots (\<lambda>s. refers (ns_nurse_id s) gone)
             (delete_nurse_service_areas (\<lambda>a. refers (nsa_nurse_id a) gone)
               (db\<lparr>nurse_profiles := filter (\<lambda>r. \<not> P r) (nurse_profiles db)\<rparr>))))"

definition delete_patient_profiles ::
  "(patient_profiles_row \<Rightarrow> bool) \<Rightarrow> database \<Rightarrow> database" where
  "delete_patient_profiles P db =
     (let gone = map pp_id (filter P (patient_profiles db))
      in delete_bookings (\<lambda>b. refers (b_patient_id b) gone)
           (db\<lparr>patient_profiles := filter (\<lambda>r. \<not> P r) (patient_profiles db)\<rparr>))"

definition delete_profiles :: "(profiles_row \<Rightarrow> bool) \<Rightarrow> database \<Rightarrow> database" where
  "delete_profiles P db =
     (let gone = map p_id (filter P (profiles db))
      in delete_nurse_profiles (\<lambda>n. np_id n \<in> set gone)
           (delete_patient_profiles (\<lambda>q. pp_id q \<in> set gone)
             (db\<lparr>profiles := filter (\<lambda>r. \<not> P r) (profiles db)\<rparr>)))"

definition delete_auth_users :: "(uuid \<Rightarrow> bool) \<Rightarrow> database \<Rightarrow> database" where
  "delete_auth_users P db =
     (let gone = filter P (auth_users db)
      in delete_profiles (\<lambda>r. p_id r \<in> set gone)
           (db\<lparr>auth_users := filter (\<lambda>u. \<not> P u) (auth_users db)\<rparr>))"

definition delete_service_areas :: "(service_areas_row \<Rightarrow> bool) \<Rightarrow> database \<Rightarrow> database" where
  "delete_service_areas P db = db\<lparr>service_areas := filter (\<lambda>r. \<not> P r) (service_areas db)\<rparr>"

subsection \<open>UPDATE\<close>

text \<open>
  \<^verbatim>\<open>UPDATE t SET ... WHERE id = k\<close> replaces the row whose primary key is \<open>k\<close> by the row
  \<open>new\<close>; when no row has that key, no row is updated and the statement succeeds. The
  constraints of the table are checked on the new row, uniqueness against the other rows.
  No foreign key of the script has an \<^verbatim>\<open>ON UPDATE\<close> action, so changing a key that a row
  of another table references fails.
\<close>

definition update_auth_users :: "uuid \<Rightarrow> uuid \<Rightarrow> database \<Rightarrow> error + database" where
  "update_auth_users k new db =
     (if k \<notin> set (auth_users db) then Inr db
      else if new \<noteq> k \<and> new \<in> set (auth_users db) then Inl (unique_violation ''users_pkey'')
      else if new \<noteq> k \<and> k \<in> set (map p_id (profiles db))
      then Inl (foreign_key_violation ''profiles_id_fkey'')
      else Inr (db\<lparr>auth_users := map (\<lambda>u. if u = k then new else u) (auth_users db)\<rparr>))"

definition update_profiles :: "uuid \<Rightarrow> profiles_row \<Rightarrow> database \<Rightarrow> error + database" where
  "update_profiles k new db =
     (if k \<notin> set (map p_id (profiles db)) then Inr db
      else if \<not> profiles_role_check new then Inl (check_violation ''profiles_role_check'')
      else if p_id new \<noteq> k \<and> p_id new \<in> set (map p_id (profiles db))
      then Inl (unique_violation ''profiles_pkey'')
      else if p_id new \<notin> set (auth_users db) then Inl (foreign_key_violation ''profiles_id_fkey'')
      else if p_id new \<noteq> k \<and> k \<in> set (map pp_id (patient_profiles db))
      then Inl (foreign_key_violation ''patient_profiles_id_fkey'')
      else if p_id new \<noteq> k \<and> k \<in> set (map np_id (nurse_profiles db))
      then Inl (foreign_key_violation ''nurse_profiles_id_fkey'')
      else Inr (db\<lparr>profiles := map (\<lambda>r. if p_id r = k then new else r) (profiles db)\<rparr>))"

definition update_service_areas ::
  "uuid \<Rightarrow> service_areas_row \<Rightarrow> database \<Rightarrow> error + database" where
  "update_service_areas k new db =
     (if k \<notin> set (map sa_id (service_areas db)) then Inr db
      else if sa_id new \<noteq> k \<and> sa_id new \<in> set (map sa_id (service_areas db))
      then Inl (unique_violation ''service_areas_pkey'')
      else if service_areas_conflict new (filter (\<lambda>r. sa_id r \<noteq> k) (service_areas db))
      then Inl (unique_violation ''service_areas_pincode_service_id_key'')
      else Inr (db\<lparr>service_areas :=
                    map (\<lambda>r. if sa_id r = k then new else r) (service_areas db)\<rparr>))"

definition update_patient_profiles ::
  "uuid \<Rightarrow> patient_profiles_row \<Rightarrow> database \<Rightarrow> error + database" where
  "update_patient_profiles k new db =
     (if k \<notin> set (map pp_id (patient_profiles db)) then Inr db
      else if \<not> patient_profiles_gender_check new
      then Inl (check_violation ''patient_profiles_gender_check'')
      else if pp_id new \<noteq> k \<and> pp_id new \<in> set (map pp_id (patient_profiles db))
      then Inl (unique_violation ''patient_profiles_pkey'')
      else if pp_id new \<notin> set (map p_id (profiles db))
      then Inl (foreign_key_violation ''patient_profiles_id_fkey'')
      else if pp_id new \<noteq> k \<and> (\<exists>b \<in> set (bookings db). b_patient_id b = Some k)
      then Inl (foreign_key_violation ''bookings_patient_id_fkey'')
      else Inr (db\<lparr>patient_profiles :=
                    map (\<lambda>r. if pp_id r = k then new else r) (patient_profiles db)\<rparr>))"

definition update_nurse_profiles ::
  "uuid \<Rightarrow> nurse_profiles_row \<Rightarrow> database \<Rightarrow> error + database" where
  "update_nurse_profiles k new db =
     (if k \<notin> set (map np_id (nurse_profiles db)) then Inr db
      else if np_id new \<noteq> k \<and> np_id new \<in> set (map np_id (nurse_profiles db))
      then Inl (unique_violation ''nurse_profiles_pkey'')
      else if np_id new \<notin> set (map p_id (profiles db))
      then Inl (foreign_key_violation ''nurse_profiles_id_fkey'')
      else if np_id new \<noteq> k \<and> (\<exists>a \<in> set (nurse_service_areas db). nsa_nurse_id a = Some k)
      then Inl (foreign_key_violation ''nurse_service_areas_nurse_id_fkey'')
      else if np_id new \<noteq> k \<and> (\<exists>s \<in> set (nurse_slots db). ns_nurse_id s = Some k)
      then Inl (foreign_key_violation ''nurse_slots_nurse_id_fkey'')
      else if np_id new \<noteq> k \<and> (\<exists>b \<in> set (bookings db). b_nurse_id b = Some k)
      then Inl (foreign_key_violation ''bookings_nurse_id_fkey'')
      else Inr (db\<lparr>nurse_profiles :=
                    map (\<lambda>r. if np_id r = k then new else r) (nurse_profiles db)\<rparr>))"

definition update_nurse_service_areas ::
  "uuid \<Rightarrow> nurse_service_areas_row \<Rightarrow> database \<Rightarrow> error + database" where
  "update_nurse_service_areas k new db =
     (if k \<notin> set (map nsa_id (nurse_service_areas db)) then Inr db
      else if nsa_id new \<noteq> k \<and> nsa_id new \<in> set (map nsa_id (nurse_service_areas db))
      then Inl (unique_violation ''nurse_service_areas_pkey'')
      else if nurse_service_areas_conflict new
                (filter (\<lambda>r. nsa_id r \<noteq> k) (nurse_service_areas db))
      then Inl (unique_violation ''nurse_service_areas_nurse_id_pincode_key'')
      else if \<not> references (nsa_nurse_id new) (map np_id (nurse_profiles db))
      then Inl (foreign_key_violation ''nurse_service_areas_nurse_id_fkey'')
      else Inr (db\<lparr>nurse_service_areas :=
                    map (\<lambda>r. if nsa_id r = k then new else r) (nurse_service_areas db)\<rparr>))"

definition update_nurse_slots :: "uuid \<Rightarrow> nurse_slots_row \<Rightarrow> database \<Rightarrow> error + database" where
  "update_nurse_slots k new db =
     (if k \<notin> set (map ns_id (nurse_slots db)) then Inr db
      else if \<not> nurse_slots_status_check new
      then Inl (check_violation ''nurse_slots_status_check'')
      else if \<not> valid_slot_time new then Inl (check_violation ''valid_slot_time'')
      else if \<not> one_hour_slot new then Inl (check_violation ''one_hour_slot'')
      else if ns_id new \<noteq> k \<and> ns_id new \<in> set (map ns_id (nurse_slots db))
      then Inl (unique_violation ''nurse_slots_pkey'')
      else if \<not> references (ns_nurse_id new) (map np_id (nurse_profiles db))
      then Inl (foreign_key_violation ''nurse_slots_nurse_id_fkey'')
      else if ns_id new \<noteq> k \<and> (\<exists>b \<in> set (bookings db). b_slot_id b = Some k)
      then Inl (foreign_key_violation ''bookings_slot_id_fkey'')
      else Inr (db\<lparr>nurse_slots :=
                    map (\<lambda>r. if ns_id r = k then new else r) (nurse_slots db)\<rparr>))"

definition update_bookings :: "uuid \<Rightarrow> bookings_row \<Rightarrow> database \<Rightarrow> error + database" where
  "update_bookings k new db =
     (if k \<notin> set (map b_id (bookings db)) then Inr db
      else if \<not> bookings_status_check new then Inl (check_violation ''bookings_status_check'')
      else if b_id new \<noteq> k \<and> b_id new \<in> set (map b_id (bookings db))
      then Inl (unique_violation ''bookings_pkey'')
      else if \<not> references (b_patient_id new) (map pp_id (patient_profiles db))
      then Inl (foreign_key_violation ''bookings_patient_id_fkey'')
      else if \<not> references (b_nurse_id new) (map np_id (nurse_profiles db))
      then Inl (foreign_key_violation ''bookings_nurse_id_fkey'')
      else if \<not> references (b_slot_id new) (map ns_id (nurse_slots db))
      then Inl (foreign_key_violation ''bookings_slot_id_fkey'')
      else Inr (db\<lparr>bookings := map (\<lambda>r. if b_id r = k then new else r) (bookings db)\<rparr>))"

subsection \<open>Statements\<close>

text \<open>
  A row of \<^verbatim>\<open>auth.users\<close> (its identifier) or of any of the seven tables, and the three
  data statements on one row: \<^verbatim>\<open>INSERT INTO t VALUES (r)\<close>, \<^verbatim>\<open>UPDATE t SET ... WHERE id = k\<close>
  with the updated row, and \<^verbatim>\<open>DELETE FROM t WHERE id = k\<close>.
\<close>

datatype row =
    In_auth_users uuid
  | In_profiles profiles_row
  | In_service_areas service_areas_row
  | In_patient_profiles patient_profiles_row
  | In_nurse_profiles nurse_profiles_row
  | In_nurse_service_areas nurse_service_areas_row
  | In_nurse_slots nurse_slots_row
  | In_bookings bookings_row

fun table_of :: "row \<Rightarrow> string" where
  "table_of (In_auth_users u) = ''auth.users''"
| "table_of (In_profiles r) = ''profiles''"
| "table_of (In_service_areas r) = ''service_areas''"
| "table_of (In_patient_profiles r) = ''patient_profiles''"
| "table_of (In_nurse_profiles r) = ''nurse_profiles''"
| "table_of (In_nurse_service_areas r) = ''nurse_service_areas''"
| "table_of (In_nurse_slots r) = ''nurse_slots''"
| "table_of (In_bookings r) = ''bookings''"

fun row_id :: "row \<Rightarrow> uuid" where
  "row_id (In_auth_users u) = u"
| "row_id (In_profiles r) = p_id r"
| "row_id (In_service_areas r) = sa_id r"
| "row_id (In_patient_profiles r) = pp_id r"
| "row_id (In_nurse_profiles r) = np_id r"
| "row_id (In_nurse_service_areas r) = nsa_id r"
| "row_id (In_nurse_slots r) = ns_id r"
| "row_id (In_bookings r) = b_id r"

definition table_rows :: "database \<Rightarrow> string \<Rightarrow> row list" where
  "table_rows db t =
     (if t = ''auth.users'' then map In_auth_users (auth_users db)
      else if t = ''profiles'' then map In_profiles (profiles db)
      else if t = ''service_areas'' then map In_service_areas (service_areas db)
      else if t = ''patient_profiles'' then map In_patient_profiles (patient_profiles db)
      else if t = ''nurse_profiles'' then map In_nurse_profiles (nurse_profiles db)
      else if t = ''nurse_service_areas''
      then map In_nurse_service_areas (nurse_service_areas db)
      else if t = ''nurse_slots'' then map In_nurse_slots (nurse_slots db)
      else if t = ''bookings'' then map In_bookings (bookings db)
      else [])"

datatype statement =
    Insert_into row
  | Update_set uuid row
  | Delete_from string uuid

fun insert_row :: "row \<Rightarrow> database \<Rightarrow> error + database" where
  "insert_row (In_auth_users u) db = insert_auth_users u db"
| "insert_row (In_profiles r) db = insert_profiles r db"
| "insert_row (In_service_areas r) db = insert_service_areas r db"
| "insert_row (In_patient_profiles r) db = insert_patient_profiles r db"
| "insert_row (In_nurse_profiles r) db = insert_nurse_profiles r db"
| "insert_row (In_nurse_service_areas r) db = insert_nurse_service_areas r db"
| "insert_row (In_nurse_slots r) db = insert_nurse_slots r db"
| "insert_row (In_bookings r) db = insert_bookings r db"

fun update_row :: "uuid \<Rightarrow> row \<Rightarrow> database \<Rightarrow> error + database" where
  "update_row k (In_auth_users u) db = update_auth_users k u db"
| "update_row k (In_profiles r) db = update_profiles k r db"
| "update_row k (In_service_areas r) db = update_service_areas k r db"
| "update_row k (In_patient_profiles r) db = update_patient_profiles k r db"
| "update_row k (In_nurse_profiles r) db = update_nurse_profiles k r db"
| "update_row k (In_nurse_service_areas r) db = update_nurse_service_areas k r db"
| "update_row k (In_nurse_slots r) db = update_nurse_slots k r db"
| "update_row k (In_bookings r) db = update_bookings k r db"

definition delete_row :: "string \<Rightarrow> uuid \<Rightarrow> database \<Rightarrow> error + database" where
  "delete_row t k db =
     (if t = ''auth.users'' then Inr (delete_auth_users (\<lambda>u. u = k) db)
      else if t = ''profiles'' then Inr (delete_profiles (\<lambda>r. p_id r = k) db)
      else if t = ''service_areas'' then Inr (delete_service_areas (\<lambda>r. sa_id r = k) db)
      else if t = ''patient_profiles''
      then Inr (delete_patient_profiles (\<lambda>r. pp_id r = k) db)
      else if t = ''nurse_profiles'' then Inr (delete_nurse_profiles (\<lambda>r. np_id r = k) db)
      else if t = ''nurse_service_areas''
      then Inr (delete_nurse_service_areas (\<lambda>r. nsa_id r = k) db)
      else if t = ''nurse_slots'' then Inr (delete_nurse_slots (\<lambda>r. ns_id r = k) db)
      else if t = ''bookings'' then Inr (delete_bookings (\<lambda>r. b_id r = k) db)
      else Inl (undefined_table t))"

text \<open>
  A statement run with the constraints alone, as the owner of the tables or a role that
  bypasses row-level security runs it.
\<close>

fun exec :: "statement \<Rightarrow> database \<Rightarrow> error + database" where
  "exec (Insert_into r) db = insert_row r db"
| "exec (Update_set k r) db = update_row k r db"
| "exec (Delete_from t k) db = delete_row t k db"

section \<open>Row-level security\<close>

subsection \<open>Policies\<close>

text \<open>
  A policy as the catalog view \<^verbatim>\<open>pg_policies\<close> lists it: its name, its table, the command
  it is \<^verbatim>\<open>FOR\<close>, the role it is granted \<^verbatim>\<open>TO\<close>, its \<^verbatim>\<open>USING\<close> expression (\<open>qual\<close>) and its
  \<^verbatim>\<open>WITH CHECK\<close> expression. The expressions of the script are built from \<^verbatim>\<open>true\<close>, the
  comparison of a column with \<^verbatim>\<open>auth.uid()\<close>, the comparison of a column with a text
  literal, \<^verbatim>\<open>AND\<close>, \<^verbatim>\<open>OR\<close> and \<^verbatim>\<open>EXISTS (SELECT 1 FROM t WHERE e)\<close>.
\<close>

datatype command = FOR_SELECT | FOR_INSERT | FOR_UPDATE | FOR_DELETE | FOR_ALL

datatype pg_role = TO_authenticated | TO_public

datatype expr =
    Bool_true
  | Auth_uid_eq string
  | Column_eq string string
  | And expr expr
  | Or expr expr
  | Exists_in string expr

record policy =
  policyname :: string
  tablename :: string
  cmd :: command
  roles :: pg_role
  qual :: "expr option"
  with_check :: "expr option"

text \<open>The \<^verbatim>\<open>CREATE POLICY\<close> statements of the script, in its order.\<close>

definition policies :: "policy list" where
  "policies =
    [\<lparr>policyname = ''Users can view their own profile'', tablename = ''profiles'', cmd = FOR_SELECT, roles = TO_authenticated,
      qual = Some (Auth_uid_eq ''id''),
      with_check = None\<rparr>,
     \<lparr>policyname = ''Users can update their own profile'', tablename = ''profiles'', cmd = FOR_UPDATE, roles = TO_authenticated,
      qual = Some (Auth_uid_eq ''id''),
      with_check = Some (Auth_uid_eq ''id'')\<rparr>,
     \<lparr>policyname = ''Users can insert their own profile'', tablename = ''profiles'', cmd = FOR_INSERT, roles = TO_authenticated,
      qual = None,
      with_check = Some (Auth_uid_eq ''id'')\<rparr>,
     \<lparr>policyname = ''Public can view service areas'', tablename = ''service_areas'', cmd = FOR_SELECT, roles = TO_public,
      qual = Some (Bool_true),
      with_check = None\<rparr>,
     \<lparr>policyname = ''Patients can view their own profile'', tablename = ''patient_profiles'', cmd = FOR_SELECT, roles = TO_authenticated,
      qual = Some (Auth_uid_eq ''id''),
      with_check = None\<rparr>,
     \<lparr>policyname = ''Patients can insert their own profile'', tablename = ''patient_profiles'', cmd = FOR_INSERT, roles = TO_authenticated,
      qual = None,
      with_check = Some (Auth_uid_eq ''id'')\<rparr>,
     \<lparr>policyname = ''Patients can update their own profile'', tablename = ''patient_profiles'', cmd = FOR_UPDATE, roles = TO_authenticated,
      qual = Some (Auth_uid_eq ''id''),
      with_check = Some (Auth_uid_eq ''id'')\<rparr>,
     \<lparr>policyname = ''Public can view nurse profiles'', tablename = ''nurse_profiles'', cmd = FOR_SELECT, roles = TO_authenticated,
      qual = Some (Bool_true),
      with_check = None\<rparr>,
     \<lparr>policyname = ''Nurses can insert their own profile'', tablename = ''nurse_profiles'', cmd = FOR_INSERT, roles = TO_authenticated,
      qual = None,
      with_check = Some (Auth_uid_eq ''id'')\<rparr>,
     \<lparr>policyname = ''Nurses can update their own profile'', tablename = ''nurse_profiles'', cmd = FOR_UPDATE, roles = TO_authenticated,
      qual = Some (Auth_uid_eq ''id''),
      with_check = Some (Auth_uid_eq ''id'')\<rparr>,
     \<lparr>policyname = ''Public can view nurse service areas'', tablename = ''nurse_service_areas'', cmd = FOR_SELECT, roles = TO_authenticated,
      qual = Some (Bool_true),
      with_check = None\<rparr>,
     \<lparr>policyname = ''Nurses can manage their service areas'', tablename = ''nurse_service_areas'', cmd = FOR_ALL, roles = TO_authenticated,
      qual = Some (Auth_uid_eq ''nurse_id''),
      with_check = Some (Auth_uid_eq ''nurse_id'')\<rparr>,
     \<lparr>policyname = ''Public can view available slots'', tablename = ''nurse_slots'', cmd = FOR_SELECT, roles = TO_authenticated,
      qual = Some (Bool_true),
      with_check = None\<rparr>,
     \<lparr>policyname = ''Nurses can manage their slots'', tablename = ''nurse_slots'', cmd = FOR_ALL, roles = TO_authenticated,
      qual = Some (Auth_uid_eq ''nurse_id''),
      with_check = Some (Auth_uid_eq ''nurse_id'')\<rparr>,
     \<lparr>policyname = ''Users can view their bookings'', tablename = ''bookings'', cmd = FOR_SELECT, roles = TO_authenticated,
      qual = Some (Or (Auth_uid_eq ''patient_id'') (Auth_uid_eq ''nurse_id'')),
      with_check = None\<rparr>,
     \<lparr>policyname = ''Patients can create bookings'', tablename = ''bookings'', cmd = FOR_INSERT, roles = TO_authenticated,
      qual = None,
      with_check = Some (And (Auth_uid_eq ''patient_id'')
                        (Exists_in ''profiles''
                           (And (Auth_uid_eq ''id'') (Column_eq ''role'' ''patient''))))\<rparr>,
     \<lparr>policyname = ''Users can update their bookings'', tablename = ''bookings'', cmd = FOR_UPDATE, roles = TO_authenticated,
      qual = Some (Or (Auth_uid_eq ''patient_id'') (Auth_uid_eq ''nurse_id'')),
      with_check = Some (Or (Auth_uid_eq ''patient_id'') (Auth_uid_eq ''nurse_id''))\<rparr>]"

subsection \<open>Evaluation of a policy expression\<close>

text \<open>
  The session of a statement: the anonymous role, the role of a signed-in user with the
  identity that \<^verbatim>\<open>auth.uid()\<close> returns, or a role that bypasses row-level security (the
  owner of the tables, the service role of the platform).
\<close>

datatype session = anon | authenticated uuid | service_role

fun auth_uid :: "session \<Rightarrow> uuid option" where
  "auth_uid (authenticated u) = Some u"
| "auth_uid anon = None"
| "auth_uid service_role = None"

fun column_uuid :: "row \<Rightarrow> string \<Rightarrow> uuid option" where
  "column_uuid (In_auth_users u) c = (if c = ''id'' then Some u else None)"
| "column_uuid (In_profiles r) c = (if c = ''id'' then Some (p_id r) else None)"
| "column_uuid (In_service_areas r) c = (if c = ''id'' then Some (sa_id r) else None)"
| "column_uuid (In_patient_profiles r) c = (if c = ''id'' then Some (pp_id r) else None)"
| "column_uuid (In_nurse_profiles r) c = (if c = ''id'' then Some (np_id r) else None)"
| "column_uuid (In_nurse_service_areas r) c =
     (if c = ''id'' then Some (nsa_id r)
      else if c = ''nurse_id'' then nsa_nurse_id r else None)"
| "column_uuid (In_nurse_slots r) c =
     (if c = ''id'' then Some (ns_id r)
      else if c = ''nurse_id'' then ns_nurse_id r else None)"
| "column_uuid (In_bookings r) c =
     (if c = ''id'' then Some (b_id r)
      else if c = ''patient_id'' then b_patient_id r
      else if c = ''nurse_id'' then b_nurse_id r
      else if c = ''slot_id'' then b_slot_id r else None)"

fun column_text :: "row \<Rightarrow> string \<Rightarrow> string option" where
  "column_text (In_auth_users u) c = None"
| "column_text (In_profiles r) c =
     (if c = ''role'' then Some (p_role r)
      else if c = ''name'' then Some (p_name r)
      else if c = ''phone'' then p_phone r
      else if c = ''address'' then p_address r else None)"
| "column_text (In_service_areas r) c =
     (if c = ''pincode'' then Some (sa_pincode r)
      else if c = ''service_id'' then Some (sa_service_id r) else None)"
| "column_text (In_patient_profiles r) c =
     (if c = ''gender'' then pp_gender r
      else if c = ''blood_group'' then pp_blood_group r
      else if c = ''emergency_contact_name'' then pp_emergency_contact_name r
      else if c = ''emergency_contact_phone'' then pp_emergency_contact_phone r else None)"
| "column_text (In_nurse_profiles r) c =
     (if c = ''qualification'' then Some (np_qualification r) else None)"
| "column_text (In_nurse_service_areas r) c =
     (if c = ''pincode'' then Some (nsa_pincode r) else None)"
| "column_text (In_nurse_slots r) c = (if c = ''status'' then Some (ns_status r) else None)"
| "column_text (In_bookings r) c =
     (if c = ''service_id'' then Some (b_service_id r)
      else if c = ''status'' then Some (b_status r)
      else if c = ''notes'' then b_notes r else None)"

text \<open>
  A policy lets a row through when its expression is true, not when it is \<^verbatim>\<open>NULL\<close>. A
  comparison with a \<^verbatim>\<open>NULL\<close> operand is \<^verbatim>\<open>NULL\<close>; without negation, \<^verbatim>\<open>AND\<close> and \<^verbatim>\<open>OR\<close> are
  true exactly when the conjunction and the disjunction of "is true" are. A subquery reads
  the rows \<open>sub t\<close> of its table that the session can see.
\<close>

fun eval :: "(string \<Rightarrow> row list) \<Rightarrow> uuid option \<Rightarrow> row \<Rightarrow> expr \<Rightarrow> bool" where
  "eval sub uid r Bool_true = True"
| "eval sub uid r (Auth_uid_eq c) = (uid \<noteq> None \<and> column_uuid r c = uid)"
| "eval sub uid r (Column_eq c v) = (column_text r c = Some v)"
| "eval sub uid r (And a b) = (eval sub uid r a \<and> eval sub uid r b)"
| "eval sub uid r (Or a b) = (eval sub uid r a \<or> eval sub uid r b)"
| "eval sub uid r (Exists_in t e) = (\<exists>r' \<in> set (sub t). eval sub uid r' e)"

subsection \<open>Which policies apply\<close>

text \<open>
  Row-level security is enabled on every table of the schema, so a session that does not
  bypass it is denied unless a policy of the table lets the row through. A policy applies
  to a command when it is \<^verbatim>\<open>FOR\<close> that command or \<^verbatim>\<open>FOR ALL\<close>, and to a session when it is
  granted \<^verbatim>\<open>TO public\<close> or to the session's role. The policies are permissive: one that
  passes is enough.
\<close>

fun role_applies :: "pg_role \<Rightarrow> session \<Rightarrow> bool" where
  "role_applies TO_public s = True"
| "role_applies TO_authenticated (authenticated u) = True"
| "role_applies TO_authenticated anon = False"
| "role_applies TO_authenticated service_role = False"

definition applies :: "policy \<Rightarrow> session \<Rightarrow> string \<Rightarrow> command \<Rightarrow> bool" where
  "applies p s t c =
     (tablename p = t \<and> (cmd p = c \<or> cmd p = FOR_ALL) \<and> role_applies (roles p) s)"

definition using_expr :: "policy \<Rightarrow> expr" where
  "using_expr p = (case qual p of None \<Rightarrow> Bool_true | Some e \<Rightarrow> e)"

definition check_expr :: "policy \<Rightarrow> expr" where
  "check_expr p = (case with_check p of None \<Rightarrow> using_expr p | Some e \<Rightarrow> e)"

definition passes_using ::
  "(string \<Rightarrow> row list) \<Rightarrow> session \<Rightarrow> string \<Rightarrow> command \<Rightarrow> row \<Rightarrow> bool" where
  "passes_using sub s t c r =
     (\<exists>p \<in> set policies. applies p s t c \<and> eval sub (auth_uid s) r (using_expr p))"

definition passes_check ::
  "(string \<Rightarrow> row list) \<Rightarrow> session \<Rightarrow> string \<Rightarrow> command \<Rightarrow> row \<Rightarrow> bool" where
  "passes_check sub s t c r =
     (\<exists>p \<in> set policies. applies p s t c \<and> eval sub (auth_uid s) r (check_expr p))"

subsection \<open>Statements under row-level security\<close>

text \<open>
  \<^verbatim>\<open>SELECT * FROM t\<close>: the rows of \<open>t\<close> that a \<^verbatim>\<open>SELECT\<close> policy lets through. The subquery
  of a policy is itself a \<^verbatim>\<open>SELECT\<close> under the policies of its table; \<open>n\<close> bounds how deep
  subqueries of policies may nest, and beyond it a subquery sees no row.
\<close>

primrec select_rows :: "nat \<Rightarrow> session \<Rightarrow> database \<Rightarrow> string \<Rightarrow> row list" where
  "select_rows 0 s db t =
     (if s = service_role then table_rows db t
      else filter (passes_using (\<lambda>t'. []) s t FOR_SELECT) (table_rows db t))"
| "select_rows (Suc n) s db t =
     (if s = service_role then table_rows db t
      else filter (passes_using (select_rows n s db) s t FOR_SELECT) (table_rows db t))"

definition table_names :: "string list" where
  "table_names = [''profiles'', ''service_areas'', ''patient_profiles'', ''nurse_profiles'',
                  ''nurse_service_areas'', ''nurse_slots'', ''bookings'']"

text \<open>
  A statement of a session. A role that bypasses row-level security runs it with the
  constraints alone. For any other session:
  \<^item> an inserted row must pass the \<^verbatim>\<open>WITH CHECK\<close> of an \<^verbatim>\<open>INSERT\<close> policy, or the statement
    fails;
  \<^item> an update or a delete touches the row with the given key only when the row passes the
    \<^verbatim>\<open>USING\<close> of a policy for the command and, the statement having a \<^verbatim>\<open>WHERE\<close>, that of a
    \<^verbatim>\<open>SELECT\<close> policy; otherwise no row is affected and the statement succeeds;
  \<^item> the updated row must pass the \<^verbatim>\<open>WITH CHECK\<close> of an \<^verbatim>\<open>UPDATE\<close> policy and stay visible,
    or the statement fails;
  \<^item> \<^verbatim>\<open>auth.users\<close> is not in reach of such a session.
  The checks and cascades of the foreign keys are not subject to the policies.
\<close>

fun rls_exec :: "nat \<Rightarrow> session \<Rightarrow> statement \<Rightarrow> database \<Rightarrow> error + database" where
  "rls_exec n s (Insert_into r) db =
     (if s = service_role then insert_row r db
      else if table_of r = ''auth.users'' then Inl (insufficient_privilege (table_of r))
      else if passes_check (select_rows n s db) s (table_of r) FOR_INSERT r
      then insert_row r db
      else Inl (insufficient_privilege (table_of r)))"
| "rls_exec n s (Update_set k r) db =
     (if s = service_role then update_row k r db
      else if table_of r = ''auth.users'' then Inl (insufficient_privilege (table_of r))
      else (case find (\<lambda>old. row_id old = k) (table_rows db (table_of r)) of
              None \<Rightarrow> Inr db
            | Some old \<Rightarrow>
                if \<not> (passes_using (select_rows n s db) s (table_of r) FOR_UPDATE old
                       \<and> passes_using (select_rows n s db) s (table_of r) FOR_SELECT old)
                then Inr db
                else if \<not> (passes_check (select_rows n s db) s (table_of r) FOR_UPDATE r
                            \<and> passes_using (select_rows n s db) s (table_of r) FOR_SELECT r)
                then Inl (insufficient_privilege (table_of r))
                else update_row k r db))"
| "rls_exec n s (Delete_from t k) db =
     (if s = service_role then delete_row t k db
      else if t = ''auth.users'' then Inl (insufficient_privilege t)
      else if t \<notin> set table_names then Inl (undefined_table t)
      else (case find (\<lambda>old. row_id old = k) (table_rows db t) of
              None \<Rightarrow> Inr db
            | Some old \<Rightarrow>
                if passes_using (select_rows n s db) s t FOR_DELETE old
                   \<and> passes_using (select_rows n s db) s t FOR_SELECT old
                then delete_row t k db
                else Inr db))"

text \<open>
  A statement that fails leaves the database as it was. A history is a sequence of
  statements, each with its session, run from a database.
\<close>

definition step :: "nat \<Rightarrow> session \<times> statement \<Rightarrow> database \<Rightarrow> database" where
  "step n x db = (case rls_exec n (fst x) (snd x) db of Inl e \<Rightarrow> db | Inr db' \<Rightarrow> db')"

definition history :: "nat \<Rightarrow> (session \<times> statement) list \<Rightarrow> database \<Rightarrow> database" where
  "history n xs db = fold (step n) xs db"

text \<open>The database right after the tables are created: every table is empty.\<close>

definition created :: "uuid list \<Rightarrow> database" where
  "created users =
     \<lparr>auth_users = users, profiles = [], service_areas = [], patient_profiles = [],
      nurse_profiles = [], nurse_service_areas = [], nurse_slots = [], bookings = []\<rparr>"

subsection \<open>What the constraints of the schema state about a database\<close>

text \<open>The foreign keys, each under the name the engine gives the constraint.\<close>

definition profiles_id_fkey :: "database \<Rightarrow> bool" where
  "profiles_id_fkey db = (\<forall>r \<in> set (profiles db). p_id r \<in> set (auth_users db))"

definition patient_profiles_id_fkey :: "database \<Rightarrow> bool" where
  "patient_profiles_id_fkey db =
     (\<forall>r \<in> set (patient_profiles db). pp_id r \<in> set (map p_id (profiles db)))"

definition nurse_profiles_id_fkey :: "database \<Rightarrow> bool" where
  "nurse_profiles_id_fkey db =
     (\<forall>r \<in> set (nurse_profiles db). np_id r \<in> set (map p_id (profiles db)))"

definition nurse_service_areas_nurse_id_fkey :: "database \<Rightarrow> bool" where
  "nurse_service_areas_nurse_id_fkey db =
     (\<forall>r \<in> set (nurse_service_areas db).
        references (nsa_nurse_id r) (map np_id (nurse_profiles db)))"

definition nurse_slots_nurse_id_fkey :: "database \<Rightarrow> bool" where
  "nurse_slots_nurse_id_fkey db =
     (\<forall>r \<in> set (nurse_slots db). references (ns_nurse_id r) (map np_id (nurse_profiles db)))"

definition bookings_patient_id_fkey :: "database \<Rightarrow> bool" where
  "bookings_patient_id_fkey db =
     (\<forall>r \<in> set (bookings db). references (b_patient_id r) (map pp_id (patient_profiles db)))"

definition bookings_nurse_id_fkey :: "database \<Rightarrow> bool" where
  "bookings_nurse_id_fkey db =
     (\<forall>r \<in> set (bookings db). references (b_nurse_id r) (map np_id (nurse_profiles db)))"

definition bookings_slot_id_fkey :: "database \<Rightarrow> bool" where
  "bookings_slot_id_fkey db =
     (\<forall>r \<in> set (bookings db). references (b_slot_id r) (map ns_id (nurse_slots db)))"

definition referential_integrity :: "database \<Rightarrow> bool" where
  "referential_integrity db =
     (profiles_id_fkey db \<and> patient_profiles_id_fkey db \<and> nurse_profiles_id_fkey db
      \<and> nurse_service_areas_nurse_id_fkey db \<and> nurse_slots_nurse_id_fkey db
      \<and> bookings_patient_id_fkey db \<and> bookings_nurse_id_fkey db \<and> bookings_slot_id_fkey db)"

text \<open>
  The two \<^verbatim>\<open>UNIQUE\<close> constraints, with the primary key of their table. The pairs of
  \<^verbatim>\<open>nurse_service_areas\<close> that the constraint compares are those of the rows whose
  \<^verbatim>\<open>nurse_id\<close> is not \<^verbatim>\<open>NULL\<close>.
\<close>

definition service_areas_pincode_service_id_key :: "database \<Rightarrow> bool" where
  "service_areas_pincode_service_id_key db =
     (distinct (map sa_id (service_areas db))
      \<and> distinct (map (\<lambda>r. (sa_pincode r, sa_service_id r)) (service_areas db)))"

definition nurse_service_areas_nurse_id_pincode_key :: "database \<Rightarrow> bool" where
  "nurse_service_areas_nurse_id_pincode_key db =
     (distinct (map nsa_id (nurse_service_areas db))
      \<and> distinct (map (\<lambda>r. (nsa_nurse_id r, nsa_pincode r))
                   (filter (\<lambda>r. nsa_nurse_id r \<noteq> None) (nurse_service_areas db))))"

section \<open>The migration as a sequence of statements on the catalog\<close>

text \<open>
  The catalog of the database, as far as the script reads and writes it: the tables, as
  the view \<^verbatim>\<open>pg_tables\<close> lists them, each with its columns, the tables its foreign keys
  reference and whether row-level security is enabled, and the policies, as the view
  \<^verbatim>\<open>pg_policies\<close> lists them. An unqualified name of the script is a name in the schema
  \<^verbatim>\<open>public\<close>.
\<close>

record pg_table =
  table_schema :: string
  table_name :: string
  columns :: "string list"
  foreign_keys :: "(string \<times> string) list"
  rowsecurity :: bool

record pg_policy =
  schemaname :: string
  pol :: policy

record catalog =
  pg_tables :: "pg_table list"
  pg_policies :: "pg_policy list"

fun expr_tables :: "expr \<Rightarrow> string list" where
  "expr_tables Bool_true = []"
| "expr_tables (Auth_uid_eq c) = []"
| "expr_tables (Column_eq c v) = []"
| "expr_tables (And a b) = expr_tables a @ expr_tables b"
| "expr_tables (Or a b) = expr_tables a @ expr_tables b"
| "expr_tables (Exists_in t e) = t # expr_tables e"

definition policy_tables :: "policy \<Rightarrow> string list" where
  "policy_tables p =
     (case qual p of None \<Rightarrow> [] | Some e \<Rightarrow> expr_tables e) @
     (case with_check p of None \<Rightarrow> [] | Some e \<Rightarrow> expr_tables e)"

definition table_exists :: "catalog \<Rightarrow> string \<times> string \<Rightarrow> bool" where
  "table_exists c k = (\<exists>t \<in> set (pg_tables c). (table_schema t, table_name t) = k)"

text \<open>\<^verbatim>\<open>DROP POLICY IF EXISTS name ON table\<close>\<close>

definition drop_policy_if_exists :: "string \<Rightarrow> string \<Rightarrow> catalog \<Rightarrow> catalog" where
  "drop_policy_if_exists name t c =
     c\<lparr>pg_policies :=
          filter (\<lambda>p. \<not> (schemaname p = ''public'' \<and> policyname (pol p) = name
                          \<and> tablename (pol p) = t))
            (pg_policies c)\<rparr>"

text \<open>
  The first block of the script: a loop over the policies that \<^verbatim>\<open>pg_policies\<close> lists in the
  schema \<^verbatim>\<open>public\<close>, dropping each by its name and table.
\<close>

definition drop_all_policies :: "catalog \<Rightarrow> catalog" where
  "drop_all_policies c =
     fold (\<lambda>p. drop_policy_if_exists (policyname (pol p)) (tablename (pol p)))
       (filter (\<lambda>p. schemaname p = ''public'') (pg_policies c)) c"

text \<open>
  \<^verbatim>\<open>DROP TABLE IF EXISTS name CASCADE\<close>: the table goes, and with it what depends on it:
  its policies, the policies whose expressions read it, and the foreign keys of other
  tables that reference it.
\<close>

definition drop_table_if_exists_cascade :: "string \<Rightarrow> catalog \<Rightarrow> catalog" where
  "drop_table_if_exists_cascade name c =
     \<lparr>pg_tables =
        map (\<lambda>t. t\<lparr>foreign_keys := filter (\<lambda>k. k \<noteq> (''public'', name)) (foreign_keys t)\<rparr>)
          (filter (\<lambda>t. \<not> (table_schema t = ''public'' \<and> table_name t = name)) (pg_tables c)),
      pg_policies =
        filter (\<lambda>p. \<not> (schemaname p = ''public'' \<and> tablename (pol p) = name)
                    \<and> name \<notin> set (policy_tables (pol p)))
          (pg_policies c)\<rparr>"

text \<open>
  \<^verbatim>\<open>CREATE TABLE IF NOT EXISTS\<close>: skipped when a table of that name exists; fails when a
  table that a foreign key references does not exist.
\<close>

definition create_table_if_not_exists :: "pg_table \<Rightarrow> catalog \<Rightarrow> error + catalog" where
  "create_table_if_not_exists t c =
     (if table_exists c (table_schema t, table_name t) then Inr c
      else (case find (\<lambda>k. \<not> table_exists c k) (foreign_keys t) of
              Some k \<Rightarrow> Inl (undefined_table (snd k))
            | None \<Rightarrow> Inr (c\<lparr>pg_tables := pg_tables c @ [t]\<rparr>)))"

text \<open>\<^verbatim>\<open>ALTER TABLE name ENABLE ROW LEVEL SECURITY\<close>\<close>

definition enable_row_level_security :: "string \<Rightarrow> catalog \<Rightarrow> catalog" where
  "enable_row_level_security name c =
     c\<lparr>pg_tables :=
          map (\<lambda>t. if table_schema t = ''public'' \<and> table_name t = name
                   then t\<lparr>rowsecurity := True\<rparr> else t)
            (pg_tables c)\<rparr>"

text \<open>
  The second block: a loop over the tables that \<^verbatim>\<open>pg_tables\<close> lists in the schema
  \<^verbatim>\<open>public\<close>, enabling row-level security on each.
\<close>

definition enable_rls_all :: "catalog \<Rightarrow> catalog" where
  "enable_rls_all c =
     fold enable_row_level_security
       (map table_name (filter (\<lambda>t. table_schema t = ''public'') (pg_tables c))) c"

text \<open>
  \<^verbatim>\<open>CREATE POLICY\<close> has no \<^verbatim>\<open>IF NOT EXISTS\<close>: it fails when its table, or a table that its
  expressions read, does not exist, and when the table already has a policy of that name.
\<close>

definition create_policy :: "policy \<Rightarrow> catalog \<Rightarrow> error + catalog" where
  "create_policy p c =
     (if \<not> table_exists c (''public'', tablename p) then Inl (undefined_table (tablename p))
      else if \<exists>q \<in> set (pg_policies c). schemaname q = ''public''
                \<and> tablename (pol q) = tablename p \<and> policyname (pol q) = policyname p
      then Inl (duplicate_object (policyname p))
      else (case find (\<lambda>t. \<not> table_exists c (''public'', t)) (policy_tables p) of
              Some t \<Rightarrow> Inl (undefined_table t)
            | None \<Rightarrow> Inr (c\<lparr>pg_policies := pg_policies c @ [\<lparr>schemaname = ''public'', pol = p\<rparr>]\<rparr>)))"

text \<open>The seven \<^verbatim>\<open>CREATE TABLE\<close> statements.\<close>

definition create_profiles :: pg_table where
  "create_profiles =
     \<lparr>table_schema = ''public'', table_name = ''profiles'',
      columns =
       [''id'', ''role'', ''name'', ''phone'', ''address'', ''created_at'',
        ''updated_at''],
      foreign_keys =
       [(''auth'', ''users'')],
      rowsecurity = False\<rparr>"

definition create_service_areas :: pg_table where
  "create_service_areas =
     \<lparr>table_schema = ''public'', table_name = ''service_areas'',
      columns =
       [''id'', ''pincode'', ''service_id'', ''is_available'', ''created_at'',
        ''updated_at''],
      foreign_keys =
       [],
      rowsecurity = False\<rparr>"

definition create_patient_profiles :: pg_table where
  "create_patient_profiles =
     \<lparr>table_schema = ''public'', table_name = ''patient_profiles'',
      columns =
       [''id'', ''date_of_birth'', ''gender'', ''blood_group'',
        ''emergency_contact_name'', ''emergency_contact_phone'', ''medical_conditions'',
        ''allergies'', ''current_medications'', ''created_at'', ''updated_at''],
      foreign_keys =
       [(''public'', ''profiles'')],
      rowsecurity = False\<rparr>"

definition create_nurse_profiles :: pg_table where
  "create_nurse_profiles =
     \<lparr>table_schema = ''public'', table_name = ''nurse_profiles'',
      columns =
       [''id'', ''qualification'', ''years_of_experience'', ''specializations'',
        ''languages_spoken'', ''created_at'', ''updated_at''],
      foreign_keys =
       [(''public'', ''profiles'')],
      rowsecurity = False\<rparr>"

definition create_nurse_service_areas :: pg_table where
  "create_nurse_service_areas =
     \<lparr>table_schema = ''public'', table_name = ''nurse_service_areas'',
      columns =
       [''id'', ''nurse_id'', ''pincode'', ''is_active'', ''created_at'', ''updated_at''],
      foreign_keys =
       [(''public'', ''nurse_profiles'')],
      rowsecurity = False\<rparr>"

definition create_nurse_slots :: pg_table where
  "create_nurse_slots =
     \<lparr>table_schema = ''public'', table_name = ''nurse_slots'',
      columns =
       [''id'', ''nurse_id'', ''date'', ''start_time'', ''end_time'', ''status'',
        ''created_at'', ''updated_at''],
      foreign_keys =
       [(''public'', ''nurse_profiles'')],
      rowsecurity = False\<rparr>"

definition create_bookings :: pg_table where
  "create_bookings =
     \<lparr>table_schema = ''public'', table_name = ''bookings'',
      columns =
       [''id'', ''patient_id'', ''nurse_id'', ''slot_id'', ''service_id'', ''status'',
        ''notes'', ''created_at'', ''updated_at''],
      foreign_keys =
       [(''public'', ''patient_profiles''), (''public'', ''nurse_profiles''),
        (''public'', ''nurse_slots'')],
      rowsecurity = False\<rparr>"

datatype ddl =
    Drop_all_policies
  | Drop_table_if_exists_cascade string
  | Create_table_if_not_exists pg_table
  | Enable_rls_all
  | Create_policy policy

fun run_ddl :: "ddl \<Rightarrow> catalog \<Rightarrow> error + catalog" where
  "run_ddl Drop_all_policies c = Inr (drop_all_policies c)"
| "run_ddl (Drop_table_if_exists_cascade name) c = Inr (drop_table_if_exists_cascade name c)"
| "run_ddl (Create_table_if_not_exists t) c = create_table_if_not_exists t c"
| "run_ddl Enable_rls_all c = Inr (enable_rls_all c)"
| "run_ddl (Create_policy p) c = create_policy p c"

fun run :: "ddl list \<Rightarrow> catalog \<Rightarrow> error + catalog" where
  "run [] c = Inr c"
| "run (d # ds) c = (case run_ddl d c of Inl e \<Rightarrow> Inl e | Inr c' \<Rightarrow> run ds c')"

text \<open>The data definition statements of the script, in its order.\<close>

definition schema_module :: "ddl list" where
  "schema_module =
     [Drop_all_policies,
      Drop_table_if_exists_cascade ''bookings'',
      Drop_table_if_exists_cascade ''nurse_slots'',
      Drop_table_if_exists_cascade ''nurse_service_areas'',
      Drop_table_if_exists_cascade ''nurse_profiles'',
      Drop_table_if_exists_cascade ''patient_profiles'',
      Drop_table_if_exists_cascade ''profiles'',
      Drop_table_if_exists_cascade ''service_areas'',
      Create_table_if_not_exists create_profiles,
      Create_table_if_not_exists create_service_areas,
      Create_table_if_not_exists create_patient_profiles,
      Create_table_if_not_exists create_nurse_profiles,
      Create_table_if_not_exists create_nurse_service_areas,
      Create_table_if_not_exists create_nurse_slots,
      Create_table_if_not_exists create_bookings,
      Enable_rls_all]
     @ map Create_policy policies"

text \<open>
  The module is applied all or nothing: when a statement fails the catalog stays as it
  was.
\<close>

definition apply_schema_module :: "catalog \<Rightarrow> catalog" where
  "apply_schema_module c = (case run schema_module c of Inl e \<Rightarrow> c | Inr c' \<Rightarrow> c')"

text \<open>
  What a run of the module leaves when no statement fails: the tables of the schema
  \<^verbatim>\<open>public\<close> that the script does not name (row-level security enabled, their foreign
  keys to the dropped tables gone), the seven tables of the script, the policies of the
  other schemas that read none of the dropped tables, and the policies of the script.
\<close>

definition dropped_names :: "string list" where
  "dropped_names = [''bookings'', ''nurse_slots'', ''nurse_service_areas'', ''nurse_profiles'',
                    ''patient_profiles'', ''profiles'', ''service_areas'']"

definition created_tables :: "pg_table list" where
  "created_tables = [create_profiles, create_service_areas, create_patient_profiles,
                     create_nurse_profiles, create_nurse_service_areas, create_nurse_slots,
                     create_bookings]"

definition drop_tables :: "string list \<Rightarrow> catalog \<Rightarrow> catalog" where
  "drop_tables ns c =
     \<lparr>pg_tables =
        map (\<lambda>t. t\<lparr>foreign_keys :=
                     filter (\<lambda>k. \<not> (fst k = ''public'' \<and> snd k \<in> set ns)) (foreign_keys t)\<rparr>)
          (filter (\<lambda>t. \<not> (table_schema t = ''public'' \<and> table_name t \<in> set ns)) (pg_tables c)),
      pg_policies =
        filter (\<lambda>p. \<not> (schemaname p = ''public'' \<and> tablename (pol p) \<in> set ns)
                    \<and> set (policy_tables (pol p)) \<inter> set ns = {})
          (pg_policies c)\<rparr>"

definition recreated :: "catalog \<Rightarrow> catalog" where
  "recreated c =
     (let d = drop_tables dropped_names (drop_all_policies c)
      in \<lparr>pg_tables =
            map (\<lambda>t. if table_schema t = ''public'' then t\<lparr>rowsecurity := True\<rparr> else t)
              (pg_tables d @ created_tables),
          pg_policies =
            pg_policies d @ map (\<lambda>p. \<lparr>schemaname = ''public'', pol = p\<rparr>) policies\<rparr>)"

section \<open>The test data of the script\<close>

text \<open>
  The last block inserts a test patient and a test nurse, each row with
  \<^verbatim>\<open>ON CONFLICT (id) DO NOTHING\<close>: a row whose primary key is taken is skipped. The
  columns the statements do not name take their defaults, \<open>now\<close> being the time of the
  transaction.
\<close>

definition test_patient_id :: uuid where
  "test_patient_id = ''e9dc96f3-6691-4a7c-9d6c-ef3b367ad6f1''"

definition test_nurse_id :: uuid where
  "test_nurse_id = ''f7dc96f3-6691-4a7c-9d6c-ef3b367ad6f2''"

definition test_patient :: "timestamptz \<Rightarrow> profiles_row" where
  "test_patient now =
     \<lparr>p_id = test_patient_id, p_role = ''patient'', p_name = ''Test Patient'',
      p_phone = None, p_address = None, p_created_at = Some now, p_updated_at = Some now\<rparr>"

definition test_nurse :: "timestamptz \<Rightarrow> profiles_row" where
  "test_nurse now =
     \<lparr>p_id = test_nurse_id, p_role = ''nurse'', p_name = ''Test Nurse'',
      p_phone = None, p_address = None, p_created_at = Some now, p_updated_at = Some now\<rparr>"

text \<open>The date \<^verbatim>\<open>1990-01-01\<close> is day 7305 after \<^verbatim>\<open>1970-01-01\<close>.\<close>

definition test_patient_profile :: "timestamptz \<Rightarrow> patient_profiles_row" where
  "test_patient_profile now =
     \<lparr>pp_id = test_patient_id, pp_date_of_birth = Some 7305, pp_gender = Some ''male'',
      pp_blood_group = Some ''O+'', pp_emergency_contact_name = Some ''Emergency Contact'',
      pp_emergency_contact_phone = Some ''+91 98765 43210'',
      pp_medical_conditions = Some [], pp_allergies = Some [],
      pp_current_medications = Some [],
      pp_created_at = Some now, pp_updated_at = Some now\<rparr>"

definition test_nurse_profile :: "timestamptz \<Rightarrow> nurse_profiles_row" where
  "test_nurse_profile now =
     \<lparr>np_id = test_nurse_id, np_qualification = ''BSc Nursing'', np_years_of_experience = 5,
      np_specializations = Some [''General Care'', ''Elder Care'', ''Post-operative Care''],
      np_languages_spoken = Some [''English'', ''Tamil'', ''Hindi''],
      np_created_at = Some now, np_updated_at = Some now\<rparr>"

definition on_conflict_do_nothing :: "row \<Rightarrow> database \<Rightarrow> error + database" where
  "on_conflict_do_nothing r db =
     (if row_id r \<in> set (map row_id (table_rows db (table_of r))) then Inr db
      else insert_row r db)"

fun insert_all :: "row list \<Rightarrow> database \<Rightarrow> error + database" where
  "insert_all [] db = Inr db"
| "insert_all (r # rs) db =
     (case on_conflict_do_nothing r db of Inl e \<Rightarrow> Inl e | Inr db' \<Rightarrow> insert_all rs db')"

definition seed :: "timestamptz \<Rightarrow> database \<Rightarrow> error + database" where
  "seed now db =
     insert_all [In_profiles (test_patient now), In_profiles (test_nurse now),
                 In_patient_profiles (test_patient_profile now),
                 In_nurse_profiles (test_nurse_profile now)] db"

text \<open>The database that the test data leave when the two test users exist.\<close>

definition seeded :: "timestamptz \<Rightarrow> database" where
  "seeded now =
     \<lparr>auth_users = [test_patient_id, test_nurse_id],
      profiles = [test_patient now, test_nurse now],
      service_areas = [],
      patient_profiles = [test_patient_profile now],
      nurse_profiles = [test_nurse_profile now],
      nurse_service_areas = [], nurse_slots = [], bookings = []\<rparr>"

subsection \<open>Example rows\<close>

text \<open>
  Rows for the examples that follow the theorems: a slot of the test nurse from 09:00 to
  10:00, the same slot ending at 10:30, a booking of the slot by the test patient, a
  pincode the test nurse serves, coverage rows without a nurse, a service area, an
  extension row that makes the test patient a nurse, the statements by which the two
  test users sign up (the last one is refused), and a catalog that an earlier version of
  the schema left behind.
\<close>

definition example_slot :: nurse_slots_row where
  "example_slot =
     \<lparr>ns_id = ''slot-1'', ns_nurse_id = Some test_nurse_id, ns_date = 20000,
      ns_start_time = 32400000000, ns_end_time = 36000000000, ns_status = ''available'',
      ns_created_at = None, ns_updated_at = None\<rparr>"

definition example_long_slot :: nurse_slots_row where
  "example_long_slot = example_slot\<lparr>ns_id := ''slot-2'', ns_end_time := 37800000000\<rparr>"

definition example_booking :: bookings_row where
  "example_booking =
     \<lparr>b_id = ''booking-1'', b_patient_id = Some test_patient_id,
      b_nurse_id = Some test_nurse_id, b_slot_id = Some ''slot-1'',
      b_service_id = ''elder-care'', b_status = ''pending'', b_notes = None,
      b_created_at = None, b_updated_at = None\<rparr>"

definition example_coverage :: nurse_service_areas_row where
  "example_coverage =
     \<lparr>nsa_id = ''coverage-1'', nsa_nurse_id = Some test_nurse_id, nsa_pincode = ''600001'',
      nsa_is_active = Some True, nsa_created_at = None, nsa_updated_at = None\<rparr>"

definition example_unowned_coverage :: "uuid \<Rightarrow> nurse_service_areas_row" where
  "example_unowned_coverage k =
     \<lparr>nsa_id = k, nsa_nurse_id = None, nsa_pincode = ''600001'',
      nsa_is_active = Some True, nsa_created_at = None, nsa_updated_at = None\<rparr>"

definition example_service_area :: service_areas_row where
  "example_service_area =
     \<lparr>sa_id = ''area-1'', sa_pincode = ''600001'', sa_service_id = ''elder-care'',
      sa_is_available = Some True, sa_created_at = None, sa_updated_at = None\<rparr>"

definition example_patient_as_nurse :: nurse_profiles_row where
  "example_patient_as_nurse =
     \<lparr>np_id = test_patient_id, np_qualification = ''none'', np_years_of_experience = 0,
      np_specializations = Some [], np_languages_spoken = Some [],
      np_created_at = None, np_updated_at = None\<rparr>"

definition example_booked :: database where
  "example_booked =
     (seeded 0)\<lparr>nurse_service_areas := [example_coverage], nurse_slots := [example_slot],
                bookings := [example_booking]\<rparr>"

definition example_sign_up :: "(session \<times> statement) list" where
  "example_sign_up =
     [(authenticated test_patient_id, Insert_into (In_profiles (test_patient 0))),
      (authenticated test_nurse_id, Insert_into (In_profiles (test_nurse 0))),
      (authenticated test_patient_id,
       Insert_into (In_patient_profiles (test_patient_profile 0))),
      (authenticated test_nurse_id, Insert_into (In_nurse_profiles (test_nurse_profile 0))),
      (authenticated test_nurse_id,
       Insert_into (In_patient_profiles (test_patient_profile 0)))]"

definition example_catalog :: catalog where
  "example_catalog =
     \<lparr>pg_tables =
        [\<lparr>table_schema = ''auth'', table_name = ''users'', columns = [''id''],
          foreign_keys = [], rowsecurity = False\<rparr>,
         \<lparr>table_schema = ''public'', table_name = ''profiles'', columns = [''id'', ''role''],
          foreign_keys = [(''auth'', ''users'')], rowsecurity = True\<rparr>,
         \<lparr>table_schema = ''public'', table_name = ''reviews'', columns = [''id'', ''author''],
          foreign_keys = [(''public'', ''profiles'')], rowsecurity = False\<rparr>],
      pg_policies =
        [\<lparr>schemaname = ''public'',
          pol = \<lparr>policyname = ''Anyone can view profiles'', tablename = ''profiles'',
                 cmd = FOR_SELECT, roles = TO_public, qual = Some Bool_true,
                 with_check = None\<rparr>\<rparr>]\<rparr>"

section \<open>Properties of the language toggle\<close>

text \<open>
  The content object is the selected locale with the key \<open>language\<close> of its \<open>nav\<close>
  written from the state. With a locale whose own \<open>nav.language\<close> is not the code of the
  language, the content is not the locale.
\<close>

theorem content_not_wholly_locale_counterexample:
  "language (nav example_en) = ''English''
   \<and> language (nav (content example_en example_ta En)) = ''en''
   \<and> content example_en example_ta En \<noteq> example_en
   \<and> content example_en example_ta Ta \<noteq> example_ta"
  by (simp add: content_def example_en_def example_ta_def)

text \<open>
  C10, as the component has it. The toggle is an involution on the language state:
  applied twice it gives the language back, applied once it gives the other language.
  The content object derived from the state takes every section, and every key of \<open>nav\<close>
  that the locale defines besides \<open>language\<close>, from the \<open>en\<close> locale when the language is
  \<open>en\<close> and from the \<open>ta\<close> locale when it is \<open>ta\<close>; it never depends on the other locale,
  and its \<open>nav.language\<close> is the code of the state's language, not the locale's value.
\<close>

theorem toggleLanguage_involution_content:
  "toggleLanguage (toggleLanguage lang) = lang
   \<and> toggleLanguage lang \<noteq> lang
   \<and> toggleLanguage En = Ta \<and> toggleLanguage Ta = En
   \<and> content en ta En = en\<lparr>nav := (nav en)\<lparr>language := ''en''\<rparr>\<rparr>
   \<and> content en ta Ta = ta\<lparr>nav := (nav ta)\<lparr>language := ''ta''\<rparr>\<rparr>
   \<and> content en ta En = content en ta' En
   \<and> content en ta Ta = content en' ta Ta"
  by (cases lang) (simp_all add: toggleLanguage_def content_def)

section \<open>Properties of the row-level security policies\<close>

lemma select_policy_patient_profiles:
  "passes_using sub (authenticated u) ''patient_profiles'' FOR_SELECT r
     = (column_uuid r ''id'' = Some u)"
  by (simp add: passes_using_def policies_def applies_def using_expr_def)

lemma select_policy_profiles:
  "passes_using sub (authenticated u) ''profiles'' FOR_SELECT r
     = (column_uuid r ''id'' = Some u)"
  by (simp add: passes_using_def policies_def applies_def using_expr_def)

lemma select_rows_patient_profiles:
  "select_rows n (authenticated u) db ''patient_profiles''
     = map In_patient_profiles (filter (\<lambda>r. pp_id r = u) (patient_profiles db))"
  by (cases n) (simp_all add: select_policy_patient_profiles table_rows_def filter_map o_def)

lemma select_rows_profiles:
  "select_rows n (authenticated u) db ''profiles''
     = map In_profiles (filter (\<lambda>r. p_id r = u) (profiles db))"
  by (cases n) (simp_all add: select_policy_profiles table_rows_def filter_map o_def)

lemma insert_policy_bookings:
  "passes_check sub (authenticated u) ''bookings'' FOR_INSERT r
     = (column_uuid r ''patient_id'' = Some u
        \<and> (\<exists>p \<in> set (sub ''profiles''). column_uuid p ''id'' = Some u \<and> column_text p ''role'' = Some ''patient''))"
  by (simp add: passes_check_def policies_def applies_def check_expr_def using_expr_def)

lemma no_policy_anon:
  "tablename p \<noteq> ''service_areas'' \<Longrightarrow> p \<in> set policies \<Longrightarrow> \<not> applies p anon t c"
  by (auto simp: policies_def applies_def)

lemma bookings_insert_check:
  "passes_check (select_rows n (authenticated u) db) (authenticated u) ''bookings''
      FOR_INSERT (In_bookings b)
    = (b_patient_id b = Some u
       \<and> (\<exists>p \<in> set (profiles db). p_id p = u \<and> p_role p = ''patient''))"
  by (auto simp: insert_policy_bookings select_rows_profiles)

text \<open>
  C3. An insert into \<open>bookings\<close> by an authenticated identity \<open>u\<close> succeeds only if the
  row's \<open>patient_id\<close> is \<open>u\<close> and \<open>profiles\<close> has a row with id \<open>u\<close> and role \<open>patient\<close>.
  So, the primary key of \<open>profiles\<close> being unique, the insert of an identity whose
  profile has the role \<open>nurse\<close> is rejected by the policy.
\<close>

theorem bookings_insert_policy:
  "(rls_exec n (authenticated u) (Insert_into (In_bookings b)) db = Inr db'
      \<longrightarrow> b_patient_id b = Some u
          \<and> (\<exists>p \<in> set (profiles db). p_id p = u \<and> p_role p = ''patient''))
   \<and> (distinct (map p_id (profiles db))
        \<and> (\<exists>p \<in> set (profiles db). p_id p = u \<and> p_role p = ''nurse'')
      \<longrightarrow> rls_exec n (authenticated u) (Insert_into (In_bookings b)) db
            = Inl (insufficient_privilege ''bookings''))"
proof -
  note chk = bookings_insert_check [of n u db b]
  have 1: "rls_exec n (authenticated u) (Insert_into (In_bookings b)) db = Inr db'
      \<longrightarrow> b_patient_id b = Some u
          \<and> (\<exists>p \<in> set (profiles db). p_id p = u \<and> p_role p = ''patient'')"
    by (simp add: chk split: if_splits)
  have 2: "distinct (map p_id (profiles db))
        \<and> (\<exists>p \<in> set (profiles db). p_id p = u \<and> p_role p = ''nurse'')
      \<longrightarrow> rls_exec n (authenticated u) (Insert_into (In_bookings b)) db
            = Inl (insufficient_privilege ''bookings'')"
  proof
    assume a: "distinct (map p_id (profiles db))
        \<and> (\<exists>p \<in> set (profiles db). p_id p = u \<and> p_role p = ''nurse'')"
    then obtain p where p: "p \<in> set (profiles db)" "p_id p = u" "p_role p = ''nurse''" by blast
    have "\<not> (\<exists>q \<in> set (profiles db). p_id q = u \<and> p_role q = ''patient'')"
    proof
      assume "\<exists>q \<in> set (profiles db). p_id q = u \<and> p_role q = ''patient''"
      then obtain q where q: "q \<in> set (profiles db)" "p_id q = u" "p_role q = ''patient''" by blast
      from a have "inj_on p_id (set (profiles db))" by (simp add: distinct_map)
      with p q have "p = q" by (auto dest: inj_onD)
      with p q show False by simp
    qed
    then have "\<not> passes_check (select_rows n (authenticated u) db) (authenticated u)
                  ''bookings'' FOR_INSERT (In_bookings b)"
      unfolding chk by blast
    then show "rls_exec n (authenticated u) (Insert_into (In_bookings b)) db
            = Inl (insufficient_privilege ''bookings'')"
      by simp
  qed
  from 1 2 show ?thesis by blast
qed

text \<open>
  C4. For an authenticated identity \<open>u\<close>, a select on \<open>patient_profiles\<close> returns exactly
  the rows whose id is \<open>u\<close>: the row of another identity is not among them.
\<close>

theorem patient_profiles_select_own:
  "select_rows n (authenticated u) db ''patient_profiles''
     = map In_patient_profiles (filter (\<lambda>r. pp_id r = u) (patient_profiles db))
   \<and> (\<forall>r \<in> set (patient_profiles db). pp_id r \<noteq> u \<longrightarrow>
         In_patient_profiles r \<notin> set (select_rows n (authenticated u) db ''patient_profiles''))"
  by (auto simp: select_rows_patient_profiles)

lemma select_policy_service_areas:
  "passes_using sub s ''service_areas'' FOR_SELECT r"
  by (simp add: passes_using_def policies_def applies_def using_expr_def)

lemma no_write_policy_service_areas:
  "c \<noteq> FOR_SELECT \<Longrightarrow> \<not> passes_using sub s ''service_areas'' c r"
  "c \<noteq> FOR_SELECT \<Longrightarrow> \<not> passes_check sub s ''service_areas'' c r"
  by (simp_all add: passes_using_def passes_check_def policies_def applies_def)

text \<open>
  C8. A select on \<open>service_areas\<close> returns every row to every session. The table has
  no policy for a write, so for a session that does not bypass row-level security an
  insert fails, and an update or a delete affects no row and leaves the database as it
  was.
\<close>

theorem service_areas_read_only:
  "select_rows n s db ''service_areas'' = map In_service_areas (service_areas db)
   \<and> (\<forall>p \<in> set policies. tablename p = ''service_areas'' \<longrightarrow> cmd p = FOR_SELECT)
   \<and> (s \<noteq> service_role \<longrightarrow>
        rls_exec n s (Insert_into (In_service_areas r)) db
          = Inl (insufficient_privilege ''service_areas'')
        \<and> rls_exec n s (Update_set k (In_service_areas r)) db = Inr db
        \<and> rls_exec n s (Delete_from ''service_areas'' k) db = Inr db)"
proof -
  have 1: "select_rows n s db ''service_areas'' = map In_service_areas (service_areas db)"
    by (cases n) (simp_all add: select_policy_service_areas table_rows_def)
  have 2: "\<forall>p \<in> set policies. tablename p = ''service_areas'' \<longrightarrow> cmd p = FOR_SELECT"
    by (simp add: policies_def)
  have 3: "s \<noteq> service_role \<Longrightarrow> rls_exec n s (Insert_into (In_service_areas r)) db
          = Inl (insufficient_privilege ''service_areas'')"
    by (simp add: no_write_policy_service_areas)
  have 4: "s \<noteq> service_role \<Longrightarrow> rls_exec n s (Update_set k (In_service_areas r)) db = Inr db"
    by (simp add: no_write_policy_service_areas split: option.splits)
  have 5: "s \<noteq> service_role \<Longrightarrow> rls_exec n s (Delete_from ''service_areas'' k) db = Inr db"
    by (simp add: no_write_policy_service_areas table_names_def split: option.splits)
  from 1 2 3 4 5 show ?thesis by blast
qed

theorem patient_profiles_select_own_witness:
  "select_rows 0 (authenticated test_patient_id) (seeded 0) ''patient_profiles''
     = [In_patient_profiles (test_patient_profile 0)]
   \<and> test_patient_profile 0 \<in> set (patient_profiles (seeded 0))
   \<and> pp_id (test_patient_profile 0) \<noteq> test_nurse_id
   \<and> In_patient_profiles (test_patient_profile 0)
        \<notin> set (select_rows 0 (authenticated test_nurse_id) (seeded 0) ''patient_profiles'')
   \<and> select_rows 0 (authenticated test_nurse_id) (seeded 0) ''patient_profiles'' = []"
  using patient_profiles_select_own [where n = 0 and u = test_patient_id and db = "seeded 0"]
    patient_profiles_select_own [where n = 0 and u = test_nurse_id and db = "seeded 0"]
  by (simp add: seeded_def test_patient_profile_def test_patient_id_def test_nurse_id_def)

theorem bookings_insert_policy_witness:
  "rls_exec 0 (authenticated test_patient_id) (Insert_into (In_bookings example_booking))
       (example_booked\<lparr>bookings := []\<rparr>) = Inr example_booked
   \<and> b_patient_id example_booking = Some test_patient_id
   \<and> (\<exists>p \<in> set (profiles (example_booked\<lparr>bookings := []\<rparr>)).
         p_id p = test_patient_id \<and> p_role p = ''patient'')
   \<and> distinct (map p_id (profiles (example_booked\<lparr>bookings := []\<rparr>)))
   \<and> (\<exists>p \<in> set (profiles (example_booked\<lparr>bookings := []\<rparr>)).
         p_id p = test_nurse_id \<and> p_role p = ''nurse'')
   \<and> rls_exec 0 (authenticated test_nurse_id)
        (Insert_into (In_bookings (example_booking\<lparr>b_patient_id := Some test_nurse_id\<rparr>)))
        (example_booked\<lparr>bookings := []\<rparr>) = Inl (insufficient_privilege ''bookings'')"
proof -
  let ?db = "example_booked\<lparr>bookings := []\<rparr>"
  have ins: "insert_bookings example_booking ?db = Inr example_booked"
    by (simp add: insert_bookings_def example_booked_def example_booking_def seeded_def
        bookings_status_check_def references_def test_patient_profile_def
        test_nurse_profile_def example_slot_def)
  have pat: "\<exists>p \<in> set (profiles ?db). p_id p = test_patient_id \<and> p_role p = ''patient''"
    by (simp add: example_booked_def seeded_def test_patient_def)
  have nur: "\<exists>p \<in> set (profiles ?db). p_id p = test_nurse_id \<and> p_role p = ''nurse''"
    by (simp add: example_booked_def seeded_def test_nurse_def)
  have dis: "distinct (map p_id (profiles ?db))"
    by (simp add: example_booked_def seeded_def test_patient_def test_nurse_def
        test_patient_id_def test_nurse_id_def)
  have own: "b_patient_id example_booking = Some test_patient_id"
    by (simp add: example_booking_def)
  have ok: "rls_exec 0 (authenticated test_patient_id) (Insert_into (In_bookings example_booking))
       ?db = Inr example_booked"
    using pat own ins by (simp add: bookings_insert_check)
  from bookings_insert_policy [where n = 0 and u = test_patient_id and b = example_booking
      and db = ?db and db' = example_booked]
    bookings_insert_policy [where n = 0 and u = test_nurse_id and db = ?db
      and b = "example_booking\<lparr>b_patient_id := Some test_nurse_id\<rparr>"]
    ok pat nur dis own
  show ?thesis by blast
qed

theorem service_areas_read_only_witness:
  "select_rows 0 anon ((seeded 0)\<lparr>service_areas := [example_service_area]\<rparr>) ''service_areas''
     = [In_service_areas example_service_area]
   \<and> anon \<noteq> service_role
   \<and> rls_exec 0 anon (Insert_into (In_service_areas example_service_area)) (seeded 0)
       = Inl (insufficient_privilege ''service_areas'')
   \<and> rls_exec 0 anon (Update_set ''area-1'' (In_service_areas example_service_area))
        ((seeded 0)\<lparr>service_areas := [example_service_area]\<rparr>)
       = Inr ((seeded 0)\<lparr>service_areas := [example_service_area]\<rparr>)
   \<and> rls_exec 0 anon (Delete_from ''service_areas'' ''area-1'')
        ((seeded 0)\<lparr>service_areas := [example_service_area]\<rparr>)
       = Inr ((seeded 0)\<lparr>service_areas := [example_service_area]\<rparr>)"
  using service_areas_read_only
    [where n = 0 and s = anon and r = example_service_area and k = "''area-1''"
      and db = "(seeded 0)\<lparr>service_areas := [example_service_area]\<rparr>"]
    service_areas_read_only [where n = 0 and s = anon and db = "seeded 0"
      and r = example_service_area and k = "''area-1''"]
  by simp

section \<open>Evaluating the examples\<close>

lemmas example_defs = seeded_def test_patient_def test_nurse_def test_patient_profile_def
  test_nurse_profile_def test_patient_id_def test_nurse_id_def example_slot_def
  example_long_slot_def example_booking_def example_coverage_def
  example_unowned_coverage_def example_service_area_def example_patient_as_nurse_def
  example_booked_def

lemmas check_defs = profiles_role_check_def patient_profiles_gender_check_def
  nurse_slots_status_check_def valid_slot_time_def one_hour_slot_def bookings_status_check_def
  references_def service_areas_conflict_def nurse_service_areas_conflict_def

lemmas insert_defs = insert_auth_users_def insert_profiles_def insert_service_areas_def
  insert_patient_profiles_def insert_nurse_profiles_def insert_nurse_service_areas_def
  insert_nurse_slots_def insert_bookings_def

lemmas policy_defs = passes_check_def passes_using_def policies_def applies_def
  check_expr_def using_expr_def


lemma test_ids_distinct: "test_patient_id \<noteq> test_nurse_id" "test_nurse_id \<noteq> test_patient_id"
  by (simp_all add: test_patient_id_def test_nurse_id_def)

lemma policy_nurse_profiles_insert:
  "passes_check sub (authenticated u) ''nurse_profiles'' FOR_INSERT r
     = (column_uuid r ''id'' = Some u)"
  by (simp add: policy_defs)

lemma policy_nurse_slots:
  "passes_check sub (authenticated u) ''nurse_slots'' FOR_INSERT r
     = (column_uuid r ''nurse_id'' = Some u)"
  "passes_check sub (authenticated u) ''nurse_slots'' FOR_UPDATE r
     = (column_uuid r ''nurse_id'' = Some u)"
  "passes_using sub (authenticated u) ''nurse_slots'' FOR_UPDATE r
     = (column_uuid r ''nurse_id'' = Some u)"
  "passes_using sub (authenticated u) ''nurse_slots'' FOR_SELECT r"
  by (simp_all add: policy_defs)

lemmas row_defs = test_patient_def test_nurse_def test_patient_profile_def
  test_nurse_profile_def example_slot_def example_long_slot_def example_booking_def
  example_coverage_def example_unowned_coverage_def example_service_area_def
  example_patient_as_nurse_def

lemma policy_own_insert:
  "passes_check sub (authenticated u) ''profiles'' FOR_INSERT r = (column_uuid r ''id'' = Some u)"
  "passes_check sub (authenticated u) ''patient_profiles'' FOR_INSERT r
     = (column_uuid r ''id'' = Some u)"
  by (simp_all add: policy_defs)

lemma sign_up_history:
  "history 0 example_sign_up (created [test_patient_id, test_nurse_id]) = seeded 0"
  by (simp add: example_sign_up_def history_def step_def created_def seeded_def insert_defs
      check_defs policy_own_insert policy_nurse_profiles_insert test_ids_distinct row_defs)

lemma seed_created: "seed now (created [test_patient_id, test_nurse_id]) = Inr (seeded now)"
  by (simp add: seed_def on_conflict_do_nothing_def table_rows_def created_def seeded_def
      insert_defs check_defs test_ids_distinct row_defs)


section \<open>Properties of the constraints\<close>

subsection \<open>Deletes and their cascades\<close>

lemma delete_bookings_fields:
  "bookings (delete_bookings P db) = filter (\<lambda>r. \<not> P r) (bookings db)"
  "nurse_slots (delete_bookings P db) = nurse_slots db"
  "nurse_service_areas (delete_bookings P db) = nurse_service_areas db"
  "nurse_profiles (delete_bookings P db) = nurse_profiles db"
  "patient_profiles (delete_bookings P db) = patient_profiles db"
  "service_areas (delete_bookings P db) = service_areas db"
  "profiles (delete_bookings P db) = profiles db"
  "auth_users (delete_bookings P db) = auth_users db"
  by (simp_all add: delete_bookings_def)

lemma delete_nurse_slots_fields:
  "bookings (delete_nurse_slots P db)
     = filter (\<lambda>b. \<not> refers (b_slot_id b) (map ns_id (filter P (nurse_slots db)))) (bookings db)"
  "nurse_slots (delete_nurse_slots P db) = filter (\<lambda>r. \<not> P r) (nurse_slots db)"
  "nurse_service_areas (delete_nurse_slots P db) = nurse_service_areas db"
  "nurse_profiles (delete_nurse_slots P db) = nurse_profiles db"
  "patient_profiles (delete_nurse_slots P db) = patient_profiles db"
  "service_areas (delete_nurse_slots P db) = service_areas db"
  "profiles (delete_nurse_slots P db) = profiles db"
  "auth_users (delete_nurse_slots P db) = auth_users db"
  by (simp_all add: delete_nurse_slots_def Let_def delete_bookings_fields)

lemma delete_nurse_service_areas_fields:
  "bookings (delete_nurse_service_areas P db) = bookings db"
  "nurse_slots (delete_nurse_service_areas P db) = nurse_slots db"
  "nurse_service_areas (delete_nurse_service_areas P db)
     = filter (\<lambda>r. \<not> P r) (nurse_service_areas db)"
  "nurse_profiles (delete_nurse_service_areas P db) = nurse_profiles db"
  "patient_profiles (delete_nurse_service_areas P db) = patient_profiles db"
  "service_areas (delete_nurse_service_areas P db) = service_areas db"
  "profiles (delete_nurse_service_areas P db) = profiles db"
  "auth_users (delete_nurse_service_areas P db) = auth_users db"
  by (simp_all add: delete_nurse_service_areas_def)

lemma delete_service_areas_fields:
  "bookings (delete_service_areas P db) = bookings db"
  "nurse_slots (delete_service_areas P db) = nurse_slots db"
  "nurse_service_areas (delete_service_areas P db) = nurse_service_areas db"
  "nurse_profiles (delete_service_areas P db) = nurse_profiles db"
  "patient_profiles (delete_service_areas P db) = patient_profiles db"
  "service_areas (delete_service_areas P db) = filter (\<lambda>r. \<not> P r) (service_areas db)"
  "profiles (delete_service_areas P db) = profiles db"
  "auth_users (delete_service_areas P db) = auth_users db"
  by (simp_all add: delete_service_areas_def)

lemma delete_patient_profiles_fields:
  "bookings (delete_patient_profiles P db)
     = filter (\<lambda>b. \<not> refers (b_patient_id b) (map pp_id (filter P (patient_profiles db))))
         (bookings db)"
  "nurse_slots (delete_patient_profiles P db) = nurse_slots db"
  "nurse_service_areas (delete_patient_profiles P db) = nurse_service_areas db"
  "nurse_profiles (delete_patient_profiles P db) = nurse_profiles db"
  "patient_profiles (delete_patient_profiles P db) = filter (\<lambda>r. \<not> P r) (patient_profiles db)"
  "service_areas (delete_patient_profiles P db) = service_areas db"
  "profiles (delete_patient_profiles P db) = profiles db"
  "auth_users (delete_patient_profiles P db) = auth_users db"
  by (simp_all add: delete_patient_profiles_def Let_def delete_bookings_fields)

lemma delete_nurse_profiles_fields:
  "bookings (delete_nurse_profiles P db)
     = filter (\<lambda>b. \<not> refers (b_nurse_id b) (map np_id (filter P (nurse_profiles db))))
         (filter (\<lambda>b. \<not> refers (b_slot_id b)
                    (map ns_id (filter (\<lambda>s. refers (ns_nurse_id s)
                       (map np_id (filter P (nurse_profiles db)))) (nurse_slots db))))
            (bookings db))"
  "nurse_slots (delete_nurse_profiles P db)
     = filter (\<lambda>s. \<not> refers (ns_nurse_id s) (map np_id (filter P (nurse_profiles db))))
         (nurse_slots db)"
  "nurse_service_areas (delete_nurse_profiles P db)
     = filter (\<lambda>a. \<not> refers (nsa_nurse_id a) (map np_id (filter P (nurse_profiles db))))
         (nurse_service_areas db)"
  "nurse_profiles (delete_nurse_profiles P db) = filter (\<lambda>r. \<not> P r) (nurse_profiles db)"
  "patient_profiles (delete_nurse_profiles P db) = patient_profiles db"
  "service_areas (delete_nurse_profiles P db) = service_areas db"
  "profiles (delete_nurse_profiles P db) = profiles db"
  "auth_users (delete_nurse_profiles P db) = auth_users db"
  by (simp_all add: delete_nurse_profiles_def Let_def delete_bookings_fields
      delete_nurse_slots_fields delete_nurse_service_areas_fields del: filter_filter)

lemma delete_profiles_fields:
  "profiles (delete_profiles P db) = filter (\<lambda>r. \<not> P r) (profiles db)"
  "patient_profiles (delete_profiles P db)
     = filter (\<lambda>q. pp_id q \<notin> set (map p_id (filter P (profiles db)))) (patient_profiles db)"
  "nurse_profiles (delete_profiles P db)
     = filter (\<lambda>n. np_id n \<notin> set (map p_id (filter P (profiles db)))) (nurse_profiles db)"
  "service_areas (delete_profiles P db) = service_areas db"
  "auth_users (delete_profiles P db) = auth_users db"
  by (simp_all add: delete_profiles_def Let_def delete_nurse_profiles_fields
      delete_patient_profiles_fields)

lemma delete_auth_users_fields:
  "auth_users (delete_auth_users P db) = filter (\<lambda>u. \<not> P u) (auth_users db)"
  "profiles (delete_auth_users P db)
     = filter (\<lambda>r. p_id r \<notin> set (filter P (auth_users db))) (profiles db)"
  "service_areas (delete_auth_users P db) = service_areas db"
  by (simp_all add: delete_auth_users_def Let_def delete_profiles_fields)

lemmas fkey_defs = profiles_id_fkey_def patient_profiles_id_fkey_def nurse_profiles_id_fkey_def
  nurse_service_areas_nurse_id_fkey_def nurse_slots_nurse_id_fkey_def
  bookings_patient_id_fkey_def bookings_nurse_id_fkey_def bookings_slot_id_fkey_def

lemma references_filter:
  "references k (map f xs) \<Longrightarrow> \<not> refers k (map f (filter P xs))
     \<Longrightarrow> references k (map f (filter (\<lambda>r. \<not> P r) xs))"
  by (cases k) (auto simp: references_def refers_def)

lemma delete_bookings_fkeys:
  "profiles_id_fkey db \<Longrightarrow> profiles_id_fkey (delete_bookings P db)"
  "patient_profiles_id_fkey db \<Longrightarrow> patient_profiles_id_fkey (delete_bookings P db)"
  "nurse_profiles_id_fkey db \<Longrightarrow> nurse_profiles_id_fkey (delete_bookings P db)"
  "nurse_service_areas_nurse_id_fkey db \<Longrightarrow> nurse_service_areas_nurse_id_fkey (delete_bookings P db)"
  "nurse_slots_nurse_id_fkey db \<Longrightarrow> nurse_slots_nurse_id_fkey (delete_bookings P db)"
  "bookings_patient_id_fkey db \<Longrightarrow> bookings_patient_id_fkey (delete_bookings P db)"
  "bookings_nurse_id_fkey db \<Longrightarrow> bookings_nurse_id_fkey (delete_bookings P db)"
  "bookings_slot_id_fkey db \<Longrightarrow> bookings_slot_id_fkey (delete_bookings P db)"
  by (simp_all add: fkey_defs delete_bookings_fields)

lemma delete_nurse_slots_fkeys:
  "profiles_id_fkey db \<Longrightarrow> profiles_id_fkey (delete_nurse_slots P db)"
  "patient_profiles_id_fkey db \<Longrightarrow> patient_profiles_id_fkey (delete_nurse_slots P db)"
  "nurse_profiles_id_fkey db \<Longrightarrow> nurse_profiles_id_fkey (delete_nurse_slots P db)"
  "nurse_service_areas_nurse_id_fkey db \<Longrightarrow> nurse_service_areas_nurse_id_fkey (delete_nurse_slots P db)"
  "nurse_slots_nurse_id_fkey db \<Longrightarrow> nurse_slots_nurse_id_fkey (delete_nurse_slots P db)"
  "bookings_patient_id_fkey db \<Longrightarrow> bookings_patient_id_fkey (delete_nurse_slots P db)"
  "bookings_nurse_id_fkey db \<Longrightarrow> bookings_nurse_id_fkey (delete_nurse_slots P db)"
  "bookings_slot_id_fkey db \<Longrightarrow> bookings_slot_id_fkey (delete_nurse_slots P db)"
  by (simp_all add: fkey_defs delete_nurse_slots_fields references_filter)

lemma delete_nurse_service_areas_fkeys:
  "profiles_id_fkey db \<Longrightarrow> profiles_id_fkey (delete_nurse_service_areas P db)"
  "patient_profiles_id_fkey db \<Longrightarrow> patient_profiles_id_fkey (delete_nurse_service_areas P db)"
  "nurse_profiles_id_fkey db \<Longrightarrow> nurse_profiles_id_fkey (delete_nurse_service_areas P db)"
  "nurse_service_areas_nurse_id_fkey db \<Longrightarrow> nurse_service_areas_nurse_id_fkey (delete_nurse_service_areas P db)"
  "nurse_slots_nurse_id_fkey db \<Longrightarrow> nurse_slots_nurse_id_fkey (delete_nurse_service_areas P db)"
  "bookings_patient_id_fkey db \<Longrightarrow> bookings_patient_id_fkey (delete_nurse_service_areas P db)"
  "bookings_nurse_id_fkey db \<Longrightarrow> bookings_nurse_id_fkey (delete_nurse_service_areas P db)"
  "bookings_slot_id_fkey db \<Longrightarrow> bookings_slot_id_fkey (delete_nurse_service_areas P db)"
  by (simp_all add: fkey_defs delete_nurse_service_areas_fields)

lemma delete_service_areas_fkeys:
  "profiles_id_fkey db \<Longrightarrow> profiles_id_fkey (delete_service_areas P db)"
  "patient_profiles_id_fkey db \<Longrightarrow> patient_profiles_id_fkey (delete_service_areas P db)"
  "nurse_profiles_id_fkey db \<Longrightarrow> nurse_profiles_id_fkey (delete_service_areas P db)"
  "nurse_service_areas_nurse_id_fkey db \<Longrightarrow> nurse_service_areas_nurse_id_fkey (delete_service_areas P db)"
  "nurse_slots_nurse_id_fkey db \<Longrightarrow> nurse_slots_nurse_id_fkey (delete_service_areas P db)"
  "bookings_patient_id_fkey db \<Longrightarrow> bookings_patient_id_fkey (delete_service_areas P db)"
  "bookings_nurse_id_fkey db \<Longrightarrow> bookings_nurse_id_fkey (delete_service_areas P db)"
  "bookings_slot_id_fkey db \<Longrightarrow> bookings_slot_id_fkey (delete_service_areas P db)"
  by (simp_all add: fkey_defs delete_service_areas_fields)

lemma delete_patient_profiles_fkeys:
  "profiles_id_fkey db \<Longrightarrow> profiles_id_fkey (delete_patient_profiles P db)"
  "patient_profiles_id_fkey db \<Longrightarrow> patient_profiles_id_fkey (delete_patient_profiles P db)"
  "nurse_profiles_id_fkey db \<Longrightarrow> nurse_profiles_id_fkey (delete_patient_profiles P db)"
  "nurse_service_areas_nurse_id_fkey db \<Longrightarrow> nurse_service_areas_nurse_id_fkey (delete_patient_profiles P db)"
  "nurse_slots_nurse_id_fkey db \<Longrightarrow> nurse_slots_nurse_id_fkey (delete_patient_profiles P db)"
  "bookings_patient_id_fkey db \<Longrightarrow> bookings_patient_id_fkey (delete_patient_profiles P db)"
  "bookings_nurse_id_fkey db \<Longrightarrow> bookings_nurse_id_fkey (delete_patient_profiles P db)"
  "bookings_slot_id_fkey db \<Longrightarrow> bookings_slot_id_fkey (delete_patient_profiles P db)"
  by (simp_all add: fkey_defs delete_patient_profiles_fields references_filter)

lemma references_mono:
  "references k (map f xs) \<Longrightarrow> (\<And>r. r \<in> set xs \<Longrightarrow> k = Some (f r) \<Longrightarrow> r \<in> set ys)
     \<Longrightarrow> references k (map f ys)"
  by (cases k) (auto simp: references_def)

lemma delete_nurse_profiles_fkeys:
  "profiles_id_fkey db \<Longrightarrow> profiles_id_fkey (delete_nurse_profiles P db)"
  "patient_profiles_id_fkey db \<Longrightarrow> patient_profiles_id_fkey (delete_nurse_profiles P db)"
  "nurse_profiles_id_fkey db \<Longrightarrow> nurse_profiles_id_fkey (delete_nurse_profiles P db)"
  "nurse_service_areas_nurse_id_fkey db \<Longrightarrow> nurse_service_areas_nurse_id_fkey (delete_nurse_profiles P db)"
  "nurse_slots_nurse_id_fkey db \<Longrightarrow> nurse_slots_nurse_id_fkey (delete_nurse_profiles P db)"
  "bookings_patient_id_fkey db \<Longrightarrow> bookings_patient_id_fkey (delete_nurse_profiles P db)"
  "bookings_nurse_id_fkey db \<Longrightarrow> bookings_nurse_id_fkey (delete_nurse_profiles P db)"
  "bookings_slot_id_fkey db \<Longrightarrow> bookings_slot_id_fkey (delete_nurse_profiles P db)"
  by (simp_all add: fkey_defs delete_nurse_profiles_fields references_filter del: filter_filter)

lemma fkeys_profiles_update:
  "nurse_service_areas_nurse_id_fkey (db\<lparr>profiles := ps\<rparr>) = nurse_service_areas_nurse_id_fkey db"
  "nurse_slots_nurse_id_fkey (db\<lparr>profiles := ps\<rparr>) = nurse_slots_nurse_id_fkey db"
  "bookings_patient_id_fkey (db\<lparr>profiles := ps\<rparr>) = bookings_patient_id_fkey db"
  "bookings_nurse_id_fkey (db\<lparr>profiles := ps\<rparr>) = bookings_nurse_id_fkey db"
  "bookings_slot_id_fkey (db\<lparr>profiles := ps\<rparr>) = bookings_slot_id_fkey db"
  by (simp_all add: fkey_defs)

lemma delete_profiles_fkeys:
  "profiles_id_fkey db \<Longrightarrow> profiles_id_fkey (delete_profiles P db)"
  "patient_profiles_id_fkey db \<Longrightarrow> patient_profiles_id_fkey (delete_profiles P db)"
  "nurse_profiles_id_fkey db \<Longrightarrow> nurse_profiles_id_fkey (delete_profiles P db)"
  "nurse_service_areas_nurse_id_fkey db \<Longrightarrow> nurse_service_areas_nurse_id_fkey (delete_profiles P db)"
  "nurse_slots_nurse_id_fkey db \<Longrightarrow> nurse_slots_nurse_id_fkey (delete_profiles P db)"
  "bookings_patient_id_fkey db \<Longrightarrow> bookings_patient_id_fkey (delete_profiles P db)"
  "bookings_nurse_id_fkey db \<Longrightarrow> bookings_nurse_id_fkey (delete_profiles P db)"
  "bookings_slot_id_fkey db \<Longrightarrow> bookings_slot_id_fkey (delete_profiles P db)"
proof -
  show "profiles_id_fkey db \<Longrightarrow> profiles_id_fkey (delete_profiles P db)"
    by (simp add: profiles_id_fkey_def delete_profiles_fields)
  show "patient_profiles_id_fkey db \<Longrightarrow> patient_profiles_id_fkey (delete_profiles P db)"
    by (auto simp: patient_profiles_id_fkey_def delete_profiles_fields)
  show "nurse_profiles_id_fkey db \<Longrightarrow> nurse_profiles_id_fkey (delete_profiles P db)"
    by (auto simp: nurse_profiles_id_fkey_def delete_profiles_fields)
  show "nurse_service_areas_nurse_id_fkey db \<Longrightarrow> nurse_service_areas_nurse_id_fkey (delete_profiles P db)"
    unfolding delete_profiles_def Let_def
    by (intro delete_nurse_profiles_fkeys delete_patient_profiles_fkeys)
       (simp add: fkeys_profiles_update)
  show "nurse_slots_nurse_id_fkey db \<Longrightarrow> nurse_slots_nurse_id_fkey (delete_profiles P db)"
    unfolding delete_profiles_def Let_def
    by (intro delete_nurse_profiles_fkeys delete_patient_profiles_fkeys)
       (simp add: fkeys_profiles_update)
  show "bookings_patient_id_fkey db \<Longrightarrow> bookings_patient_id_fkey (delete_profiles P db)"
    unfolding delete_profiles_def Let_def
    by (intro delete_nurse_profiles_fkeys delete_patient_profiles_fkeys)
       (simp add: fkeys_profiles_update)
  show "bookings_nurse_id_fkey db \<Longrightarrow> bookings_nurse_id_fkey (delete_profiles P db)"
    unfolding delete_profiles_def Let_def
    by (intro delete_nurse_profiles_fkeys delete_patient_profiles_fkeys)
       (simp add: fkeys_profiles_update)
  show "bookings_slot_id_fkey db \<Longrightarrow> bookings_slot_id_fkey (delete_profiles P db)"
    unfolding delete_profiles_def Let_def
    by (intro delete_nurse_profiles_fkeys delete_patient_profiles_fkeys)
       (simp add: fkeys_profiles_update)
qed

lemma fkeys_auth_users_update:
  "patient_profiles_id_fkey (db\<lparr>auth_users := us\<rparr>) = patient_profiles_id_fkey db"
  "nurse_profiles_id_fkey (db\<lparr>auth_users := us\<rparr>) = nurse_profiles_id_fkey db"
  "nurse_service_areas_nurse_id_fkey (db\<lparr>auth_users := us\<rparr>) = nurse_service_areas_nurse_id_fkey db"
  "nurse_slots_nurse_id_fkey (db\<lparr>auth_users := us\<rparr>) = nurse_slots_nurse_id_fkey db"
  "bookings_patient_id_fkey (db\<lparr>auth_users := us\<rparr>) = bookings_patient_id_fkey db"
  "bookings_nurse_id_fkey (db\<lparr>auth_users := us\<rparr>) = bookings_nurse_id_fkey db"
  "bookings_slot_id_fkey (db\<lparr>auth_users := us\<rparr>) = bookings_slot_id_fkey db"
  by (simp_all add: fkey_defs)

lemma delete_auth_users_fkeys:
  "profiles_id_fkey db \<Longrightarrow> profiles_id_fkey (delete_auth_users P db)"
  "patient_profiles_id_fkey db \<Longrightarrow> patient_profiles_id_fkey (delete_auth_users P db)"
  "nurse_profiles_id_fkey db \<Longrightarrow> nurse_profiles_id_fkey (delete_auth_users P db)"
  "nurse_service_areas_nurse_id_fkey db \<Longrightarrow> nurse_service_areas_nurse_id_fkey (delete_auth_users P db)"
  "nurse_slots_nurse_id_fkey db \<Longrightarrow> nurse_slots_nurse_id_fkey (delete_auth_users P db)"
  "bookings_patient_id_fkey db \<Longrightarrow> bookings_patient_id_fkey (delete_auth_users P db)"
  "bookings_nurse_id_fkey db \<Longrightarrow> bookings_nurse_id_fkey (delete_auth_users P db)"
  "bookings_slot_id_fkey db \<Longrightarrow> bookings_slot_id_fkey (delete_auth_users P db)"
proof -
  show "profiles_id_fkey db \<Longrightarrow> profiles_id_fkey (delete_auth_users P db)"
    by (auto simp: profiles_id_fkey_def delete_auth_users_fields)
qed (unfold delete_auth_users_def Let_def,
     (intro delete_profiles_fkeys, simp add: fkeys_auth_users_update)+)

lemma delete_row_fkeys:
  assumes "delete_row t k db = Inr db'"
  shows "profiles_id_fkey db \<Longrightarrow> profiles_id_fkey db'"
  "patient_profiles_id_fkey db \<Longrightarrow> patient_profiles_id_fkey db'"
  "nurse_profiles_id_fkey db \<Longrightarrow> nurse_profiles_id_fkey db'"
  "nurse_service_areas_nurse_id_fkey db \<Longrightarrow> nurse_service_areas_nurse_id_fkey db'"
  "nurse_slots_nurse_id_fkey db \<Longrightarrow> nurse_slots_nurse_id_fkey db'"
  "bookings_patient_id_fkey db \<Longrightarrow> bookings_patient_id_fkey db'"
  "bookings_nurse_id_fkey db \<Longrightarrow> bookings_nurse_id_fkey db'"
  "bookings_slot_id_fkey db \<Longrightarrow> bookings_slot_id_fkey db'"
  using assms
  by (auto simp: delete_row_def delete_auth_users_fkeys delete_profiles_fkeys
      delete_service_areas_fkeys delete_patient_profiles_fkeys delete_nurse_profiles_fkeys
      delete_nurse_service_areas_fkeys delete_nurse_slots_fkeys delete_bookings_fkeys
      split: if_splits)

subsection \<open>Inserts and updates\<close>

lemma references_append: "references k ids \<Longrightarrow> references k (ids @ ys)"
  by (cases k) (simp_all add: references_def)

lemma member_update:
  "i \<in> set (map f xs) \<Longrightarrow> f new = k \<or> i \<noteq> k
     \<Longrightarrow> i \<in> set (map f (map (\<lambda>r. if f r = k then new else r) xs))"
  by (induction xs) auto

lemma references_update:
  "references c (map f xs) \<Longrightarrow> f new = k \<or> c \<noteq> Some k
     \<Longrightarrow> references c (map f (map (\<lambda>r. if f r = k then new else r) xs))"
  by (cases c) (auto simp: references_def intro: member_update [unfolded set_map])

lemma member_update_id:
  "i \<in> set xs \<Longrightarrow> new = k \<or> i \<noteq> k \<Longrightarrow> i \<in> set (map (\<lambda>u. if u = k then new else u) xs)"
  by (induction xs) auto

lemma insert_auth_users_fkeys:
  assumes "insert_auth_users r db = Inr db'"
    shows "profiles_id_fkey db \<Longrightarrow> profiles_id_fkey db'"
      and "patient_profiles_id_fkey db \<Longrightarrow> patient_profiles_id_fkey db'"
      and "nurse_profiles_id_fkey db \<Longrightarrow> nurse_profiles_id_fkey db'"
      and "nurse_service_areas_nurse_id_fkey db \<Longrightarrow> nurse_service_areas_nurse_id_fkey db'"
      and "nurse_slots_nurse_id_fkey db \<Longrightarrow> nurse_slots_nurse_id_fkey db'"
      and "bookings_patient_id_fkey db \<Longrightarrow> bookings_patient_id_fkey db'"
      and "bookings_nurse_id_fkey db \<Longrightarrow> bookings_nurse_id_fkey db'"
      and "bookings_slot_id_fkey db \<Longrightarrow> bookings_slot_id_fkey db'"
  using assms
  by (auto simp: insert_auth_users_def fkey_defs references_append split: if_splits)

lemma insert_profiles_fkeys:
  assumes "insert_profiles r db = Inr db'"
    shows "profiles_id_fkey db \<Longrightarrow> profiles_id_fkey db'"
      and "patient_profiles_id_fkey db \<Longrightarrow> patient_profiles_id_fkey db'"
      and "nurse_profiles_id_fkey db \<Longrightarrow> nurse_profiles_id_fkey db'"
      and "nurse_service_areas_nurse_id_fkey db \<Longrightarrow> nurse_service_areas_nurse_id_fkey db'"
      and "nurse_slots_nurse_id_fkey db \<Longrightarrow> nurse_slots_nurse_id_fkey db'"
      and "bookings_patient_id_fkey db \<Longrightarrow> bookings_patient_id_fkey db'"
      and "bookings_nurse_id_fkey db \<Longrightarrow> bookings_nurse_id_fkey db'"
      and "bookings_slot_id_fkey db \<Longrightarrow> bookings_slot_id_fkey db'"
  using assms
  by (auto simp: insert_profiles_def fkey_defs references_append split: if_splits)

lemma insert_service_areas_fkeys:
  assumes "insert_service_areas r db = Inr db'"
    shows "profiles_id_fkey db \<Longrightarrow> profiles_id_fkey db'"
      and "patient_profiles_id_fkey db \<Longrightarrow> patient_profiles_id_fkey db'"
      and "nurse_profiles_id_fkey db \<Longrightarrow> nurse_profiles_id_fkey db'"
      and "nurse_service_areas_nurse_id_fkey db \<Longrightarrow> nurse_service_areas_nurse_id_fkey db'"
      and "nurse_slots_nurse_id_fkey db \<Longrightarrow> nurse_slots_nurse_id_fkey db'"
      and "bookings_patient_id_fkey db \<Longrightarrow> bookings_patient_id_fkey db'"
      and "bookings_nurse_id_fkey db \<Longrightarrow> bookings_nurse_id_fkey db'"
      and "bookings_slot_id_fkey db \<Longrightarrow> bookings_slot_id_fkey db'"
  using assms
  by (auto simp: insert_service_areas_def fkey_defs references_append split: if_splits)

lemma insert_patient_profiles_fkeys:
  assumes "insert_patient_profiles r db = Inr db'"
    shows "profiles_id_fkey db \<Longrightarrow> profiles_id_fkey db'"
      and "patient_profiles_id_fkey db \<Longrightarrow> patient_profiles_id_fkey db'"
      and "nurse_profiles_id_fkey db \<Longrightarrow> nurse_profiles_id_fkey db'"
      and "nurse_service_areas_nurse_id_fkey db \<Longrightarrow> nurse_service_areas_nurse_id_fkey db'"
      and "nurse_slots_nurse_id_fkey db \<Longrightarrow> nurse_slots_nurse_id_fkey db'"
      and "bookings_patient_id_fkey db \<Longrightarrow> bookings_patient_id_fkey db'"
      and "bookings_nurse_id_fkey db \<Longrightarrow> bookings_nurse_id_fkey db'"
      and "bookings_slot_id_fkey db \<Longrightarrow> bookings_slot_id_fkey db'"
  using assms
  by (auto simp: insert_patient_profiles_def fkey_defs references_append split: if_splits)

lemma insert_nurse_profiles_fkeys:
  assumes "insert_nurse_profiles r db = Inr db'"
    shows "profiles_id_fkey db \<Longrightarrow> profiles_id_fkey db'"
      and "patient_profiles_id_fkey db \<Longrightarrow> patient_profiles_id_fkey db'"
      and "nurse_profiles_id_fkey db \<Longrightarrow> nurse_profiles_id_fkey db'"
      and "nurse_service_areas_nurse_id_fkey db \<Longrightarrow> nurse_service_areas_nurse_id_fkey db'"
      and "nurse_slots_nurse_id_fkey db \<Longrightarrow> nurse_slots_nurse_id_fkey db'"
      and "bookings_patient_id_fkey db \<Longrightarrow> bookings_patient_id_fkey db'"
      and "bookings_nurse_id_fkey db \<Longrightarrow> bookings_nurse_id_fkey db'"
      and "bookings_slot_id_fkey db \<Longrightarrow> bookings_slot_id_fkey db'"
  using assms
  by (auto simp: insert_nurse_profiles_def fkey_defs references_append split: if_splits)

lemma insert_nurse_service_areas_fkeys:
  assumes "insert_nurse_service_areas r db = Inr db'"
    shows "profiles_id_fkey db \<Longrightarrow> profiles_id_fkey db'"
      and "patient_profiles_id_fkey db \<Longrightarrow> patient_profiles_id_fkey db'"
      and "nurse_profiles_id_fkey db \<Longrightarrow> nurse_profiles_id_fkey db'"
      and "nurse_service_areas_nurse_id_fkey db \<Longrightarrow> nurse_service_areas_nurse_id_fkey db'"
      and "nurse_slots_nurse_id_fkey db \<Longrightarrow> nurse_slots_nurse_id_fkey db'"
      and "bookings_patient_id_fkey db \<Longrightarrow> bookings_patient_id_fkey db'"
      and "bookings_nurse_id_fkey db \<Longrightarrow> bookings_nurse_id_fkey db'"
      and "bookings_slot_id_fkey db \<Longrightarrow> bookings_slot_id_fkey db'"
  using assms
  by (auto simp: insert_nurse_service_areas_def fkey_defs references_append split: if_splits)

lemma insert_nurse_slots_fkeys:
  assumes "insert_nurse_slots r db = Inr db'"
    shows "profiles_id_fkey db \<Longrightarrow> profiles_id_fkey db'"
      and "patient_profiles_id_fkey db \<Longrightarrow> patient_profiles_id_fkey db'"
      and "nurse_profiles_id_fkey db \<Longrightarrow> nurse_profiles_id_fkey db'"
      and "nurse_service_areas_nurse_id_fkey db \<Longrightarrow> nurse_service_areas_nurse_id_fkey db'"
      and "nurse_slots_nurse_id_fkey db \<Longrightarrow> nurse_slots_nurse_id_fkey db'"
      and "bookings_patient_id_fkey db \<Longrightarrow> bookings_patient_id_fkey db'"
      and "bookings_nurse_id_fkey db \<Longrightarrow> bookings_nurse_id_fkey db'"
      and "bookings_slot_id_fkey db \<Longrightarrow> bookings_slot_id_fkey db'"
  using assms
  by (auto simp: insert_nurse_slots_def fkey_defs references_append split: if_splits)

lemma insert_bookings_fkeys:
  assumes "insert_bookings r db = Inr db'"
    shows "profiles_id_fkey db \<Longrightarrow> profiles_id_fkey db'"
      and "patient_profiles_id_fkey db \<Longrightarrow> patient_profiles_id_fkey db'"
      and "nurse_profiles_id_fkey db \<Longrightarrow> nurse_profiles_id_fkey db'"
      and "nurse_service_areas_nurse_id_fkey db \<Longrightarrow> nurse_service_areas_nurse_id_fkey db'"
      and "nurse_slots_nurse_id_fkey db \<Longrightarrow> nurse_slots_nurse_id_fkey db'"
      and "bookings_patient_id_fkey db \<Longrightarrow> bookings_patient_id_fkey db'"
      and "bookings_nurse_id_fkey db \<Longrightarrow> bookings_nurse_id_fkey db'"
      and "bookings_slot_id_fkey db \<Longrightarrow> bookings_slot_id_fkey db'"
  using assms
  by (auto simp: insert_bookings_def fkey_defs references_append split: if_splits)

lemma update_auth_users_cases:
  assumes "update_auth_users k new db = Inr db'"
  obtains "db' = db"
  | "db' = db\<lparr>auth_users := map (\<lambda>u. if u = k then new else u) (auth_users db)\<rparr>"
    "new = k \<or> new \<notin> set (auth_users db)"
    "new = k \<or> k \<notin> set (map p_id (profiles db))"
  using assms by (auto simp: update_auth_users_def split: if_splits)

lemma update_profiles_cases:
  assumes "update_profiles k new db = Inr db'"
  obtains "db' = db"
  | "db' = db\<lparr>profiles := map (\<lambda>r. if p_id r = k then new else r) (profiles db)\<rparr>"
    "profiles_role_check new"
    "p_id new = k \<or> p_id new \<notin> set (map p_id (profiles db))"
    "p_id new \<in> set (auth_users db)"
    "p_id new = k \<or> k \<notin> set (map pp_id (patient_profiles db))"
    "p_id new = k \<or> k \<notin> set (map np_id (nurse_profiles db))"
  using assms by (auto simp: update_profiles_def split: if_splits)

lemma update_service_areas_cases:
  assumes "update_service_areas k new db = Inr db'"
  obtains "db' = db"
  | "db' = db\<lparr>service_areas := map (\<lambda>r. if sa_id r = k then new else r) (service_areas db)\<rparr>"
    "sa_id new = k \<or> sa_id new \<notin> set (map sa_id (service_areas db))"
    "\<not> service_areas_conflict new (filter (\<lambda>r. sa_id r \<noteq> k) (service_areas db))"
  using assms by (auto simp: update_service_areas_def split: if_splits)

lemma update_patient_profiles_cases:
  assumes "update_patient_profiles k new db = Inr db'"
  obtains "db' = db"
  | "db' = db\<lparr>patient_profiles :=
               map (\<lambda>r. if pp_id r = k then new else r) (patient_profiles db)\<rparr>"
    "patient_profiles_gender_check new"
    "pp_id new = k \<or> pp_id new \<notin> set (map pp_id (patient_profiles db))"
    "pp_id new \<in> set (map p_id (profiles db))"
    "pp_id new = k \<or> (\<forall>b \<in> set (bookings db). b_patient_id b \<noteq> Some k)"
  using assms by (auto simp: update_patient_profiles_def split: if_splits)

lemma update_nurse_profiles_cases:
  assumes "update_nurse_profiles k new db = Inr db'"
  obtains "db' = db"
  | "db' = db\<lparr>nurse_profiles := map (\<lambda>r. if np_id r = k then new else r) (nurse_profiles db)\<rparr>"
    "np_id new = k \<or> np_id new \<notin> set (map np_id (nurse_profiles db))"
    "np_id new \<in> set (map p_id (profiles db))"
    "np_id new = k \<or> (\<forall>a \<in> set (nurse_service_areas db). nsa_nurse_id a \<noteq> Some k)"
    "np_id new = k \<or> (\<forall>s \<in> set (nurse_slots db). ns_nurse_id s \<noteq> Some k)"
    "np_id new = k \<or> (\<forall>b \<in> set (bookings db). b_nurse_id b \<noteq> Some k)"
  using assms by (auto simp: update_nurse_profiles_def split: if_splits)

lemma update_nurse_service_areas_cases:
  assumes "update_nurse_service_areas k new db = Inr db'"
  obtains "db' = db"
  | "db' = db\<lparr>nurse_service_areas :=
               map (\<lambda>r. if nsa_id r = k then new else r) (nurse_service_areas db)\<rparr>"
    "nsa_id new = k \<or> nsa_id new \<notin> set (map nsa_id (nurse_service_areas db))"
    "\<not> nurse_service_areas_conflict new (filter (\<lambda>r. nsa_id r \<noteq> k) (nurse_service_areas db))"
    "references (nsa_nurse_id new) (map np_id (nurse_profiles db))"
  using assms by (auto simp: update_nurse_service_areas_def split: if_splits)

lemma update_nurse_slots_cases:
  assumes "update_nurse_slots k new db = Inr db'"
  obtains "db' = db"
  | "db' = db\<lparr>nurse_slots := map (\<lambda>r. if ns_id r = k then new else r) (nurse_slots db)\<rparr>"
    "nurse_slots_status_check new" "valid_slot_time new" "one_hour_slot new"
    "ns_id new = k \<or> ns_id new \<notin> set (map ns_id (nurse_slots db))"
    "references (ns_nurse_id new) (map np_id (nurse_profiles db))"
    "ns_id new = k \<or> (\<forall>b \<in> set (bookings db). b_slot_id b \<noteq> Some k)"
  using assms by (auto simp: update_nurse_slots_def split: if_splits)

lemma update_bookings_cases:
  assumes "update_bookings k new db = Inr db'"
  obtains "db' = db"
  | "db' = db\<lparr>bookings := map (\<lambda>r. if b_id r = k then new else r) (bookings db)\<rparr>"
    "bookings_status_check new"
    "b_id new = k \<or> b_id new \<notin> set (map b_id (bookings db))"
    "references (b_patient_id new) (map pp_id (patient_profiles db))"
    "references (b_nurse_id new) (map np_id (nurse_profiles db))"
    "references (b_slot_id new) (map ns_id (nurse_slots db))"
  using assms by (auto simp: update_bookings_def split: if_splits)

lemma parent_member_update:
  assumes "\<forall>r \<in> set cs. g r \<in> set (map f xs)"
    and "f new = k \<or> k \<notin> set (map g cs)"
  shows "\<forall>r \<in> set cs. g r \<in> set (map f (map (\<lambda>r. if f r = k then new else r) xs))"
proof
  fix r assume r: "r \<in> set cs"
  with assms(2) have "f new = k \<or> g r \<noteq> k" by auto
  with assms(1) r show "g r \<in> set (map f (map (\<lambda>r. if f r = k then new else r) xs))"
    by (intro member_update) auto
qed

lemma parent_references_update:
  assumes "\<forall>r \<in> set cs. references (g r) (map f xs)"
    and "f new = k \<or> (\<forall>r \<in> set cs. g r \<noteq> Some k)"
  shows "\<forall>r \<in> set cs. references (g r) (map f (map (\<lambda>r. if f r = k then new else r) xs))"
proof
  fix r assume r: "r \<in> set cs"
  with assms(2) have "f new = k \<or> g r \<noteq> Some k" by auto
  with assms(1) r show "references (g r) (map f (map (\<lambda>r. if f r = k then new else r) xs))"
    by (intro references_update) auto
qed

lemma child_update:
  "\<forall>r \<in> set xs. Q r \<Longrightarrow> Q new \<Longrightarrow> \<forall>r \<in> set (map (\<lambda>r. if f r = k then new else r) xs). Q r"
  by auto

lemma update_auth_users_ri:
  assumes "update_auth_users k new db = Inr db'" and ri: "referential_integrity db"
  shows "referential_integrity db'"
  using assms(1)
proof (cases rule: update_auth_users_cases)
  case 1
  with ri show ?thesis by simp
next
  case 2
  from ri have "\<forall>r \<in> set (profiles db). p_id r \<in> set (map (\<lambda>u. u) (auth_users db))"
    by (simp add: referential_integrity_def profiles_id_fkey_def)
  from parent_member_update [OF this, of new k] 2(3)
  have "profiles_id_fkey db'" by (simp add: profiles_id_fkey_def 2(1))
  with ri show ?thesis by (simp add: referential_integrity_def fkeys_auth_users_update 2(1))
qed

lemma update_profiles_ri:
  assumes "update_profiles k new db = Inr db'" and ri: "referential_integrity db"
  shows "referential_integrity db'"
  using assms(1)
proof (cases rule: update_profiles_cases)
  case 1
  with ri show ?thesis by simp
next
  case 2
  from ri have a: "profiles_id_fkey db'"
    using 2(4) by (auto simp: referential_integrity_def profiles_id_fkey_def 2(1))
  from ri have "\<forall>r \<in> set (patient_profiles db). pp_id r \<in> set (map p_id (profiles db))"
    by (simp add: referential_integrity_def patient_profiles_id_fkey_def)
  from parent_member_update [OF this, of new k] 2(5)
  have b: "patient_profiles_id_fkey db'" by (simp add: patient_profiles_id_fkey_def 2(1))
  from ri have "\<forall>r \<in> set (nurse_profiles db). np_id r \<in> set (map p_id (profiles db))"
    by (simp add: referential_integrity_def nurse_profiles_id_fkey_def)
  from parent_member_update [OF this, of new k] 2(6)
  have c: "nurse_profiles_id_fkey db'" by (simp add: nurse_profiles_id_fkey_def 2(1))
  from a b c ri show ?thesis by (simp add: referential_integrity_def fkeys_profiles_update 2(1))
qed

lemma update_service_areas_ri:
  assumes "update_service_areas k new db = Inr db'" and ri: "referential_integrity db"
  shows "referential_integrity db'"
  using assms(1)
proof (cases rule: update_service_areas_cases)
  case 1
  with ri show ?thesis by simp
next
  case 2
  with ri show ?thesis by (auto simp: referential_integrity_def fkey_defs)
qed

lemma update_patient_profiles_ri:
  assumes "update_patient_profiles k new db = Inr db'" and ri: "referential_integrity db"
  shows "referential_integrity db'"
  using assms(1)
proof (cases rule: update_patient_profiles_cases)
  case 1
  with ri show ?thesis by simp
next
  case 2
  from ri have a: "patient_profiles_id_fkey db'"
    using 2(4) by (auto simp: referential_integrity_def patient_profiles_id_fkey_def 2(1))
  from ri have "\<forall>r \<in> set (bookings db). references (b_patient_id r) (map pp_id (patient_profiles db))"
    by (simp add: referential_integrity_def bookings_patient_id_fkey_def)
  from parent_references_update [OF this, of new k] 2(5)
  have b: "bookings_patient_id_fkey db'" by (simp add: bookings_patient_id_fkey_def 2(1))
  from a b ri show ?thesis by (simp add: referential_integrity_def fkey_defs 2(1))
qed

lemma update_nurse_profiles_ri:
  assumes "update_nurse_profiles k new db = Inr db'" and ri: "referential_integrity db"
  shows "referential_integrity db'"
  using assms(1)
proof (cases rule: update_nurse_profiles_cases)
  case 1
  with ri show ?thesis by simp
next
  case 2
  from ri have a: "nurse_profiles_id_fkey db'"
    using 2(3) by (auto simp: referential_integrity_def nurse_profiles_id_fkey_def 2(1))
  from ri have "\<forall>r \<in> set (nurse_service_areas db). references (nsa_nurse_id r) (map np_id (nurse_profiles db))"
    by (simp add: referential_integrity_def nurse_service_areas_nurse_id_fkey_def)
  from parent_references_update [OF this, of new k] 2(4)
  have b: "nurse_service_areas_nurse_id_fkey db'"
    by (simp add: nurse_service_areas_nurse_id_fkey_def 2(1))
  from ri have "\<forall>r \<in> set (nurse_slots db). references (ns_nurse_id r) (map np_id (nurse_profiles db))"
    by (simp add: referential_integrity_def nurse_slots_nurse_id_fkey_def)
  from parent_references_update [OF this, of new k] 2(5)
  have c: "nurse_slots_nurse_id_fkey db'" by (simp add: nurse_slots_nurse_id_fkey_def 2(1))
  from ri have "\<forall>r \<in> set (bookings db). references (b_nurse_id r) (map np_id (nurse_profiles db))"
    by (simp add: referential_integrity_def bookings_nurse_id_fkey_def)
  from parent_references_update [OF this, of new k] 2(6)
  have d: "bookings_nurse_id_fkey db'" by (simp add: bookings_nurse_id_fkey_def 2(1))
  from ri have e: "profiles_id_fkey db'" "patient_profiles_id_fkey db'"
    "bookings_patient_id_fkey db'" "bookings_slot_id_fkey db'"
    by (simp_all add: referential_integrity_def fkey_defs 2(1))
  from a b c d e show ?thesis by (simp add: referential_integrity_def)
qed

lemma update_nurse_service_areas_ri:
  assumes "update_nurse_service_areas k new db = Inr db'" and ri: "referential_integrity db"
  shows "referential_integrity db'"
  using assms(1)
proof (cases rule: update_nurse_service_areas_cases)
  case 1
  with ri show ?thesis by simp
next
  case 2
  with ri show ?thesis by (auto simp: referential_integrity_def fkey_defs)
qed

lemma update_nurse_slots_ri:
  assumes "update_nurse_slots k new db = Inr db'" and ri: "referential_integrity db"
  shows "referential_integrity db'"
  using assms(1)
proof (cases rule: update_nurse_slots_cases)
  case 1
  with ri show ?thesis by simp
next
  case 2
  from ri have a: "nurse_slots_nurse_id_fkey db'"
    using 2(6) by (auto simp: referential_integrity_def nurse_slots_nurse_id_fkey_def 2(1))
  from ri have "\<forall>r \<in> set (bookings db). references (b_slot_id r) (map ns_id (nurse_slots db))"
    by (simp add: referential_integrity_def bookings_slot_id_fkey_def)
  from parent_references_update [OF this, of new k] 2(7)
  have b: "bookings_slot_id_fkey db'" by (simp add: bookings_slot_id_fkey_def 2(1))
  from ri have e: "profiles_id_fkey db'" "patient_profiles_id_fkey db'"
    "nurse_profiles_id_fkey db'" "nurse_service_areas_nurse_id_fkey db'"
    "bookings_patient_id_fkey db'" "bookings_nurse_id_fkey db'"
    by (simp_all add: referential_integrity_def fkey_defs 2(1))
  from a b e show ?thesis by (simp add: referential_integrity_def)
qed

lemma update_bookings_ri:
  assumes "update_bookings k new db = Inr db'" and ri: "referential_integrity db"
  shows "referential_integrity db'"
  using assms(1)
proof (cases rule: update_bookings_cases)
  case 1
  with ri show ?thesis by simp
next
  case 2
  with ri show ?thesis by (auto simp: referential_integrity_def fkey_defs)
qed

lemma insert_row_ri:
  assumes "insert_row r db = Inr db'" and ri: "referential_integrity db"
  shows "referential_integrity db'"
  using assms
  by (cases r)
    (simp_all add: referential_integrity_def insert_auth_users_fkeys insert_profiles_fkeys
      insert_service_areas_fkeys insert_patient_profiles_fkeys insert_nurse_profiles_fkeys
      insert_nurse_service_areas_fkeys insert_nurse_slots_fkeys insert_bookings_fkeys)

lemma update_row_ri:
  assumes "update_row k r db = Inr db'" and ri: "referential_integrity db"
  shows "referential_integrity db'"
  using assms
  by (cases r)
    (simp_all add: update_auth_users_ri update_profiles_ri
      update_service_areas_ri update_patient_profiles_ri update_nurse_profiles_ri
      update_nurse_service_areas_ri update_nurse_slots_ri update_bookings_ri)

lemma delete_row_ri:
  assumes "delete_row t k db = Inr db'" and ri: "referential_integrity db"
  shows "referential_integrity db'"
  using ri delete_row_fkeys [OF assms(1)] by (simp add: referential_integrity_def)

lemma exec_ri:
  assumes "exec st db = Inr db'" and ri: "referential_integrity db"
  shows "referential_integrity db'"
  using assms by (cases st) (auto intro: insert_row_ri update_row_ri delete_row_ri)

subsection \<open>Statements and histories\<close>

lemma rls_exec_cases:
  assumes "rls_exec n s st db = Inr db'"
  shows "db' = db \<or> exec st db = Inr db'"
  using assms by (cases st) (auto split: if_splits option.splits)

lemma step_cases: "step n x db = db \<or> exec (snd x) db = Inr (step n x db)"
  using rls_exec_cases [of n "fst x" "snd x" db]
  by (auto simp: step_def split: sum.splits)

lemma history_invariant:
  assumes "P db" and "\<And>st d d'. P d \<Longrightarrow> exec st d = Inr d' \<Longrightarrow> P d'"
  shows "P (history n xs db)"
  using assms(1) unfolding history_def
proof (induction xs arbitrary: db)
  case Nil
  then show ?case by simp
next
  case (Cons x xs)
  have "P (step n x db)" using step_cases [of n x db] Cons.prems assms(2) by metis
  then show ?case by (simp add: Cons.IH)
qed

subsection \<open>Primary keys, checks and unique constraints\<close>

lemma subseq_distinct: "subseq xs ys \<Longrightarrow> distinct ys \<Longrightarrow> distinct xs"
proof (induction rule: list_emb.induct)
  case (list_emb_Nil ys)
  show ?case by simp
next
  case (list_emb_Cons xs ys y)
  then show ?case by simp
next
  case (list_emb_Cons2 x y xs ys)
  then show ?case using list_emb_set [of "(=)" xs ys] by auto
qed

lemma subseq_subset: "subseq xs ys \<Longrightarrow> set xs \<subseteq> set ys"
  using list_emb_set [of "(=)" xs ys] by auto

lemma delete_bookings_subseq:
  "subseq (auth_users (delete_bookings P db)) (auth_users db)"
  "subseq (profiles (delete_bookings P db)) (profiles db)"
  "subseq (service_areas (delete_bookings P db)) (service_areas db)"
  "subseq (patient_profiles (delete_bookings P db)) (patient_profiles db)"
  "subseq (nurse_profiles (delete_bookings P db)) (nurse_profiles db)"
  "subseq (nurse_service_areas (delete_bookings P db)) (nurse_service_areas db)"
  "subseq (nurse_slots (delete_bookings P db)) (nurse_slots db)"
  "subseq (bookings (delete_bookings P db)) (bookings db)"
  by (simp_all add: delete_bookings_fields)

lemma delete_nurse_slots_subseq:
  "subseq (auth_users (delete_nurse_slots P db)) (auth_users db)"
  "subseq (profiles (delete_nurse_slots P db)) (profiles db)"
  "subseq (service_areas (delete_nurse_slots P db)) (service_areas db)"
  "subseq (patient_profiles (delete_nurse_slots P db)) (patient_profiles db)"
  "subseq (nurse_profiles (delete_nurse_slots P db)) (nurse_profiles db)"
  "subseq (nurse_service_areas (delete_nurse_slots P db)) (nurse_service_areas db)"
  "subseq (nurse_slots (delete_nurse_slots P db)) (nurse_slots db)"
  "subseq (bookings (delete_nurse_slots P db)) (bookings db)"
  by (simp_all add: delete_nurse_slots_fields)

lemma delete_nurse_service_areas_subseq:
  "subseq (auth_users (delete_nurse_service_areas P db)) (auth_users db)"
  "subseq (profiles (delete_nurse_service_areas P db)) (profiles db)"
  "subseq (service_areas (delete_nurse_service_areas P db)) (service_areas db)"
  "subseq (patient_profiles (delete_nurse_service_areas P db)) (patient_profiles db)"
  "subseq (nurse_profiles (delete_nurse_service_areas P db)) (nurse_profiles db)"
  "subseq (nurse_service_areas (delete_nurse_service_areas P db)) (nurse_service_areas db)"
  "subseq (nurse_slots (delete_nurse_service_areas P db)) (nurse_slots db)"
  "subseq (bookings (delete_nurse_service_areas P db)) (bookings db)"
  by (simp_all add: delete_nurse_service_areas_fields)

lemma delete_service_areas_subseq:
  "subseq (auth_users (delete_service_areas P db)) (auth_users db)"
  "subseq (profiles (delete_service_areas P db)) (profiles db)"
  "subseq (service_areas (delete_service_areas P db)) (service_areas db)"
  "subseq (patient_profiles (delete_service_areas P db)) (patient_profiles db)"
  "subseq (nurse_profiles (delete_service_areas P db)) (nurse_profiles db)"
  "subseq (nurse_service_areas (delete_service_areas P db)) (nurse_service_areas db)"
  "subseq (nurse_slots (delete_service_areas P db)) (nurse_slots db)"
  "subseq (bookings (delete_service_areas P db)) (bookings db)"
  by (simp_all add: delete_service_areas_fields)

lemma delete_patient_profiles_subseq:
  "subseq (auth_users (delete_patient_profiles P db)) (auth_users db)"
  "subseq (profiles (delete_patient_profiles P db)) (profiles db)"
  "subseq (service_areas (delete_patient_profiles P db)) (service_areas db)"
  "subseq (patient_profiles (delete_patient_profiles P db)) (patient_profiles db)"
  "subseq (nurse_profiles (delete_patient_profiles P db)) (nurse_profiles db)"
  "subseq (nurse_service_areas (delete_patient_profiles P db)) (nurse_service_areas db)"
  "subseq (nurse_slots (delete_patient_profiles P db)) (nurse_slots db)"
  "subseq (bookings (delete_patient_profiles P db)) (bookings db)"
  by (simp_all add: delete_patient_profiles_fields)

lemma delete_nurse_profiles_subseq:
  "subseq (auth_users (delete_nurse_profiles P db)) (auth_users db)"
  "subseq (profiles (delete_nurse_profiles P db)) (profiles db)"
  "subseq (service_areas (delete_nurse_profiles P db)) (service_areas db)"
  "subseq (patient_profiles (delete_nurse_profiles P db)) (patient_profiles db)"
  "subseq (nurse_profiles (delete_nurse_profiles P db)) (nurse_profiles db)"
  "subseq (nurse_service_areas (delete_nurse_profiles P db)) (nurse_service_areas db)"
  "subseq (nurse_slots (delete_nurse_profiles P db)) (nurse_slots db)"
  "subseq (bookings (delete_nurse_profiles P db)) (bookings db)"
  by (simp_all add: delete_nurse_profiles_fields subseq_order.trans [OF subseq_filter_left subseq_filter_left] del: filter_filter)

lemma delete_profiles_subseq:
  "subseq (auth_users (delete_profiles P db)) (auth_users db)"
  "subseq (profiles (delete_profiles P db)) (profiles db)"
  "subseq (service_areas (delete_profiles P db)) (service_areas db)"
  "subseq (patient_profiles (delete_profiles P db)) (patient_profiles db)"
  "subseq (nurse_profiles (delete_profiles P db)) (nurse_profiles db)"
  "subseq (nurse_service_areas (delete_profiles P db)) (nurse_service_areas db)"
  "subseq (nurse_slots (delete_profiles P db)) (nurse_slots db)"
  "subseq (bookings (delete_profiles P db)) (bookings db)"
proof -
  let ?db0 = "db\<lparr>profiles := filter (\<lambda>r. \<not> P r) (profiles db)\<rparr>"
  let ?g = "map p_id (filter P (profiles db))"
  let ?db1 = "delete_patient_profiles (\<lambda>q. pp_id q \<in> set ?g) ?db0"
  have d: "delete_profiles P db = delete_nurse_profiles (\<lambda>n. np_id n \<in> set ?g) ?db1"
    by (simp add: delete_profiles_def Let_def)
  show "subseq (auth_users (delete_profiles P db)) (auth_users db)"
    "subseq (profiles (delete_profiles P db)) (profiles db)"
    "subseq (service_areas (delete_profiles P db)) (service_areas db)"
    "subseq (patient_profiles (delete_profiles P db)) (patient_profiles db)"
    "subseq (nurse_profiles (delete_profiles P db)) (nurse_profiles db)"
    by (simp_all add: delete_profiles_fields)
  have "subseq (nurse_service_areas (delete_profiles P db)) (nurse_service_areas ?db1)"
    unfolding d by (rule delete_nurse_profiles_subseq)
  then show "subseq (nurse_service_areas (delete_profiles P db)) (nurse_service_areas db)"
    by (simp add: delete_patient_profiles_fields)
  have "subseq (nurse_slots (delete_profiles P db)) (nurse_slots ?db1)"
    unfolding d by (rule delete_nurse_profiles_subseq)
  then show "subseq (nurse_slots (delete_profiles P db)) (nurse_slots db)"
    by (simp add: delete_patient_profiles_fields)
  have "subseq (bookings (delete_profiles P db)) (bookings ?db1)"
    unfolding d by (rule delete_nurse_profiles_subseq)
  moreover have "subseq (bookings ?db1) (bookings db)"
    using delete_patient_profiles_subseq(8) [of "\<lambda>q. pp_id q \<in> set ?g" ?db0] by simp
  ultimately show "subseq (bookings (delete_profiles P db)) (bookings db)"
    by (rule subseq_order.trans)
qed

lemma delete_auth_users_subseq:
  "subseq (auth_users (delete_auth_users P db)) (auth_users db)"
  "subseq (profiles (delete_auth_users P db)) (profiles db)"
  "subseq (service_areas (delete_auth_users P db)) (service_areas db)"
  "subseq (patient_profiles (delete_auth_users P db)) (patient_profiles db)"
  "subseq (nurse_profiles (delete_auth_users P db)) (nurse_profiles db)"
  "subseq (nurse_service_areas (delete_auth_users P db)) (nurse_service_areas db)"
  "subseq (nurse_slots (delete_auth_users P db)) (nurse_slots db)"
  "subseq (bookings (delete_auth_users P db)) (bookings db)"
proof -
  let ?db0 = "db\<lparr>auth_users := filter (\<lambda>u. \<not> P u) (auth_users db)\<rparr>"
  let ?Q = "\<lambda>r. p_id r \<in> set (filter P (auth_users db))"
  have d: "delete_auth_users P db = delete_profiles ?Q ?db0"
    by (simp add: delete_auth_users_def Let_def)
  show "subseq (auth_users (delete_auth_users P db)) (auth_users db)"
    by (simp add: delete_auth_users_fields)
  show "subseq (profiles (delete_auth_users P db)) (profiles db)"
    using delete_profiles_subseq(2) [of ?Q ?db0] by (simp add: d)
  show "subseq (service_areas (delete_auth_users P db)) (service_areas db)"
    using delete_profiles_subseq(3) [of ?Q ?db0] by (simp add: d)
  show "subseq (patient_profiles (delete_auth_users P db)) (patient_profiles db)"
    using delete_profiles_subseq(4) [of ?Q ?db0] by (simp add: d)
  show "subseq (nurse_profiles (delete_auth_users P db)) (nurse_profiles db)"
    using delete_profiles_subseq(5) [of ?Q ?db0] by (simp add: d)
  show "subseq (nurse_service_areas (delete_auth_users P db)) (nurse_service_areas db)"
    using delete_profiles_subseq(6) [of ?Q ?db0] by (simp add: d)
  show "subseq (nurse_slots (delete_auth_users P db)) (nurse_slots db)"
    using delete_profiles_subseq(7) [of ?Q ?db0] by (simp add: d)
  show "subseq (bookings (delete_auth_users P db)) (bookings db)"
    using delete_profiles_subseq(8) [of ?Q ?db0] by (simp add: d)
qed

lemma delete_row_subseq:
  assumes "delete_row t k db = Inr db'"
  shows "subseq (auth_users db') (auth_users db)"
    and "subseq (profiles db') (profiles db)"
    and "subseq (service_areas db') (service_areas db)"
    and "subseq (patient_profiles db') (patient_profiles db)"
    and "subseq (nurse_profiles db') (nurse_profiles db)"
    and "subseq (nurse_service_areas db') (nurse_service_areas db)"
    and "subseq (nurse_slots db') (nurse_slots db)"
    and "subseq (bookings db') (bookings db)"
  using assms
  by (auto simp: delete_row_def delete_auth_users_subseq delete_profiles_subseq
      delete_service_areas_subseq delete_patient_profiles_subseq delete_nurse_profiles_subseq
      delete_nurse_service_areas_subseq delete_nurse_slots_subseq delete_bookings_subseq
      split: if_splits)

lemma distinct_update:
  assumes "distinct (map f xs)" and "f new = k \<or> f new \<notin> f ` set xs"
  shows "distinct (map (f \<circ> (\<lambda>r. if f r = k then new else r)) xs)"
proof -
  from assms(1) have dx: "distinct xs" and inj: "inj_on f (set xs)"
    by (simp_all add: distinct_map)
  have "inj_on (f \<circ> (\<lambda>r. if f r = k then new else r)) (set xs)"
    unfolding inj_on_def
  proof (intro ballI impI)
    fix a b
    assume a: "a \<in> set xs" and b: "b \<in> set xs"
      and e: "(f \<circ> (\<lambda>r. if f r = k then new else r)) a
                = (f \<circ> (\<lambda>r. if f r = k then new else r)) b"
    from a b have "f a \<in> f ` set xs" "f b \<in> f ` set xs" by simp_all
    with e assms(2) have "f a = f b" by (auto split: if_splits)
    with inj a b show "a = b" by (auto dest: inj_onD)
  qed
  with dx show ?thesis unfolding distinct_map by (intro conjI)
qed

lemma distinct_update_key:
  assumes "distinct (map f xs)" and "distinct (map g (filter Q xs))"
    and "Q new \<longrightarrow> (\<forall>r \<in> set xs. f r \<noteq> k \<and> Q r \<longrightarrow> g r \<noteq> g new)"
  shows "distinct (map g (filter Q (map (\<lambda>r. if f r = k then new else r) xs)))"
proof -
  let ?upd = "\<lambda>r. if f r = k then new else r"
  from assms(1) have dx: "distinct xs" and injf: "inj_on f (set xs)"
    by (simp_all add: distinct_map)
  from assms(2) have injg: "inj_on g (set (filter Q xs))"
    by (simp add: distinct_map)
  have inj: "inj_on (\<lambda>r. g (?upd r)) (set (filter (\<lambda>r. Q (?upd r)) xs))"
    unfolding inj_on_def
  proof (intro ballI impI)
    fix a b
    assume a: "a \<in> set (filter (\<lambda>r. Q (?upd r)) xs)"
      and b: "b \<in> set (filter (\<lambda>r. Q (?upd r)) xs)"
      and e: "g (?upd a) = g (?upd b)"
    show "a = b"
    proof (cases "f a = k")
      case ak: True
      show ?thesis
      proof (cases "f b = k")
        case True
        with ak a b injf show ?thesis by (auto dest: inj_onD)
      next
        case False
        with ak a b e assms(3) show ?thesis by auto
      qed
    next
      case ak: False
      show ?thesis
      proof (cases "f b = k")
        case True
        with ak a b e assms(3) show ?thesis by auto
      next
        case False
        with ak a b e have "a \<in> set (filter Q xs)" "b \<in> set (filter Q xs)" "g a = g b"
          by auto
        with injg show ?thesis by (auto dest: inj_onD)
      qed
    qed
  qed
  have "map g (filter Q (map ?upd xs))
          = map (\<lambda>r. g (?upd r)) (filter (\<lambda>r. Q (?upd r)) xs)"
    by (simp add: filter_map o_def)
  moreover have "distinct (map (\<lambda>r. g (?upd r)) (filter (\<lambda>r. Q (?upd r)) xs))"
    unfolding distinct_map using dx inj by (intro conjI) simp
  ultimately show ?thesis by simp
qed

lemma exec_distinct_patient_profiles:
  assumes "exec st db = Inr db'" and "distinct (map pp_id (patient_profiles db))"
  shows "distinct (map pp_id (patient_profiles db'))"
proof (cases st)
  case (Insert_into r)
  with assms show ?thesis
    by (cases r)
      (auto simp: insert_auth_users_def insert_profiles_def insert_service_areas_def
        insert_patient_profiles_def insert_nurse_profiles_def insert_nurse_service_areas_def
        insert_nurse_slots_def insert_bookings_def split: if_splits)
next
  case (Update_set k r)
  with assms show ?thesis
    by (cases r)
      (auto elim!: update_auth_users_cases update_profiles_cases update_service_areas_cases
        update_patient_profiles_cases update_nurse_profiles_cases
        update_nurse_service_areas_cases update_nurse_slots_cases update_bookings_cases
        intro: distinct_update)
next
  case (Delete_from t k)
  with assms have "subseq (patient_profiles db') (patient_profiles db)"
    by (simp add: delete_row_subseq)
  then have "subseq (map pp_id (patient_profiles db')) (map pp_id (patient_profiles db))"
    by (rule subseq_map)
  then show ?thesis using assms(2) by (rule subseq_distinct)
qed

lemma exec_distinct_nurse_profiles:
  assumes "exec st db = Inr db'" and "distinct (map np_id (nurse_profiles db))"
  shows "distinct (map np_id (nurse_profiles db'))"
proof (cases st)
  case (Insert_into r)
  with assms show ?thesis
    by (cases r)
      (auto simp: insert_auth_users_def insert_profiles_def insert_service_areas_def
        insert_patient_profiles_def insert_nurse_profiles_def insert_nurse_service_areas_def
        insert_nurse_slots_def insert_bookings_def split: if_splits)
next
  case (Update_set k r)
  with assms show ?thesis
    by (cases r)
      (auto elim!: update_auth_users_cases update_profiles_cases update_service_areas_cases
        update_patient_profiles_cases update_nurse_profiles_cases
        update_nurse_service_areas_cases update_nurse_slots_cases update_bookings_cases
        intro: distinct_update)
next
  case (Delete_from t k)
  with assms have "subseq (nurse_profiles db') (nurse_profiles db)"
    by (simp add: delete_row_subseq)
  then have "subseq (map np_id (nurse_profiles db')) (map np_id (nurse_profiles db))"
    by (rule subseq_map)
  then show ?thesis using assms(2) by (rule subseq_distinct)
qed

lemma exec_nurse_slots:
  assumes "exec st db = Inr db'"
    and "\<forall>r \<in> set (nurse_slots db). valid_slot_time r \<and> one_hour_slot r"
  shows "\<forall>r \<in> set (nurse_slots db'). valid_slot_time r \<and> one_hour_slot r"
proof (cases st)
  case (Insert_into r)
  with assms show ?thesis
    by (cases r)
      (auto simp: insert_auth_users_def insert_profiles_def insert_service_areas_def
        insert_patient_profiles_def insert_nurse_profiles_def insert_nurse_service_areas_def
        insert_nurse_slots_def insert_bookings_def split: if_splits)
next
  case (Update_set k r)
  with assms show ?thesis
    by (cases r)
      (auto elim!: update_auth_users_cases update_profiles_cases update_service_areas_cases
        update_patient_profiles_cases update_nurse_profiles_cases
        update_nurse_service_areas_cases update_nurse_slots_cases update_bookings_cases)
next
  case (Delete_from t k)
  with assms have "subseq (nurse_slots db') (nurse_slots db)"
    by (simp add: delete_row_subseq)
  then have "set (nurse_slots db') \<subseteq> set (nurse_slots db)" by (rule subseq_subset)
  with assms(2) show ?thesis by blast
qed

lemma exec_service_areas_key:
  assumes "exec st db = Inr db'" and "service_areas_pincode_service_id_key db"
  shows "service_areas_pincode_service_id_key db'"
proof (cases st)
  case (Insert_into r)
  show ?thesis
  proof (cases r)
    case (In_service_areas new)
    with Insert_into assms(1) have i: "insert_service_areas new db = Inr db'" by simp
    then have f: "sa_id new \<notin> sa_id ` set (service_areas db)"
      and c: "\<not> service_areas_conflict new (service_areas db)"
      and e: "db' = db\<lparr>service_areas := service_areas db @ [new]\<rparr>"
      by (auto simp: insert_service_areas_def split: if_splits)
    from c have "(sa_pincode new, sa_service_id new)
        \<notin> (\<lambda>r. (sa_pincode r, sa_service_id r)) ` set (service_areas db)"
      by (force simp: service_areas_conflict_def)
    with f assms(2) show ?thesis
      by (simp add: service_areas_pincode_service_id_key_def e)
  qed (use Insert_into assms in \<open>auto simp: service_areas_pincode_service_id_key_def
        insert_auth_users_def insert_profiles_def insert_service_areas_def
        insert_patient_profiles_def insert_nurse_profiles_def insert_nurse_service_areas_def
        insert_nurse_slots_def insert_bookings_def split: if_splits\<close>)
next
  case (Update_set k r)
  show ?thesis
  proof (cases r)
    case (In_service_areas new)
    with Update_set assms(1) have "update_service_areas k new db = Inr db'" by simp
    then show ?thesis
    proof (cases rule: update_service_areas_cases)
      case 1
      with assms(2) show ?thesis by simp
    next
      case 2
      from assms(2) have d: "distinct (map sa_id (service_areas db))"
        and u: "distinct (map (\<lambda>r. (sa_pincode r, sa_service_id r))
                   (filter (\<lambda>r. True) (service_areas db)))"
        by (simp_all add: service_areas_pincode_service_id_key_def)
      from 2(3) have c: "True \<longrightarrow> (\<forall>r \<in> set (service_areas db). sa_id r \<noteq> k \<and> True \<longrightarrow>
              (sa_pincode r, sa_service_id r) \<noteq> (sa_pincode new, sa_service_id new))"
        by (auto simp: service_areas_conflict_def)
      from 2(2) have "sa_id new = k \<or> sa_id new \<notin> sa_id ` set (service_areas db)" by simp
      from distinct_update [OF d this] distinct_update_key [OF d u c]
      show ?thesis by (simp add: service_areas_pincode_service_id_key_def 2(1))
    qed
  qed (use Update_set assms in \<open>auto simp: service_areas_pincode_service_id_key_def
        elim!: update_auth_users_cases update_profiles_cases update_service_areas_cases
        update_patient_profiles_cases update_nurse_profiles_cases
        update_nurse_service_areas_cases update_nurse_slots_cases update_bookings_cases\<close>)
next
  case (Delete_from t k)
  with assms have s: "subseq (service_areas db') (service_areas db)"
    by (simp add: delete_row_subseq)
  from assms(2) have "distinct (map sa_id (service_areas db'))"
    "distinct (map (\<lambda>r. (sa_pincode r, sa_service_id r)) (service_areas db'))"
    by (auto simp: service_areas_pincode_service_id_key_def
        intro: subseq_distinct [OF subseq_map [OF s]])
  then show ?thesis by (simp add: service_areas_pincode_service_id_key_def)
qed

lemma exec_nurse_service_areas_key:
  assumes "exec st db = Inr db'" and "nurse_service_areas_nurse_id_pincode_key db"
  shows "nurse_service_areas_nurse_id_pincode_key db'"
proof (cases st)
  case (Insert_into r)
  show ?thesis
  proof (cases r)
    case (In_nurse_service_areas new)
    with Insert_into assms(1) have i: "insert_nurse_service_areas new db = Inr db'" by simp
    then have f: "nsa_id new \<notin> nsa_id ` set (nurse_service_areas db)"
      and c: "\<not> nurse_service_areas_conflict new (nurse_service_areas db)"
      and e: "db' = db\<lparr>nurse_service_areas := nurse_service_areas db @ [new]\<rparr>"
      by (auto simp: insert_nurse_service_areas_def split: if_splits)
    from c have "nsa_nurse_id new \<noteq> None \<longrightarrow> (nsa_nurse_id new, nsa_pincode new)
        \<notin> (\<lambda>r. (nsa_nurse_id r, nsa_pincode r))
             ` set (filter (\<lambda>r. nsa_nurse_id r \<noteq> None) (nurse_service_areas db))"
      by (force simp: nurse_service_areas_conflict_def)
    with f assms(2) show ?thesis
      by (simp add: nurse_service_areas_nurse_id_pincode_key_def e)
  qed (use Insert_into assms in \<open>auto simp: nurse_service_areas_nurse_id_pincode_key_def
        insert_auth_users_def insert_profiles_def insert_service_areas_def
        insert_patient_profiles_def insert_nurse_profiles_def insert_nurse_service_areas_def
        insert_nurse_slots_def insert_bookings_def split: if_splits\<close>)
next
  case (Update_set k r)
  show ?thesis
  proof (cases r)
    case (In_nurse_service_areas new)
    with Update_set assms(1) have "update_nurse_service_areas k new db = Inr db'" by simp
    then show ?thesis
    proof (cases rule: update_nurse_service_areas_cases)
      case 1
      with assms(2) show ?thesis by simp
    next
      case 2
      from assms(2) have d: "distinct (map nsa_id (nurse_service_areas db))"
        and u: "distinct (map (\<lambda>r. (nsa_nurse_id r, nsa_pincode r))
                   (filter (\<lambda>r. nsa_nurse_id r \<noteq> None) (nurse_service_areas db)))"
        by (simp_all add: nurse_service_areas_nurse_id_pincode_key_def)
      from 2(3) have c: "nsa_nurse_id new \<noteq> None \<longrightarrow>
            (\<forall>r \<in> set (nurse_service_areas db). nsa_id r \<noteq> k \<and> nsa_nurse_id r \<noteq> None \<longrightarrow>
              (nsa_nurse_id r, nsa_pincode r) \<noteq> (nsa_nurse_id new, nsa_pincode new))"
        by (auto simp: nurse_service_areas_conflict_def)
      from 2(2) have "nsa_id new = k \<or> nsa_id new \<notin> nsa_id ` set (nurse_service_areas db)"
        by simp
      from distinct_update [OF d this] distinct_update_key [OF d u c]
      show ?thesis by (simp add: nurse_service_areas_nurse_id_pincode_key_def 2(1))
    qed
  qed (use Update_set assms in \<open>auto simp: nurse_service_areas_nurse_id_pincode_key_def
        elim!: update_auth_users_cases update_profiles_cases update_service_areas_cases
        update_patient_profiles_cases update_nurse_profiles_cases
        update_nurse_service_areas_cases update_nurse_slots_cases update_bookings_cases\<close>)
next
  case (Delete_from t k)
  with assms have s: "subseq (nurse_service_areas db') (nurse_service_areas db)"
    by (simp add: delete_row_subseq)
  from assms(2) have "distinct (map nsa_id (nurse_service_areas db'))"
    by (auto simp: nurse_service_areas_nurse_id_pincode_key_def
        intro: subseq_distinct [OF subseq_map [OF s]])
  moreover from assms(2) have "distinct (map (\<lambda>r. (nsa_nurse_id r, nsa_pincode r))
                   (filter (\<lambda>r. nsa_nurse_id r \<noteq> None) (nurse_service_areas db')))"
    unfolding nurse_service_areas_nurse_id_pincode_key_def
    by (intro subseq_distinct [OF subseq_map [OF subseq_filter [OF s]]]) simp
  ultimately show ?thesis unfolding nurse_service_areas_nurse_id_pincode_key_def by simp
qed

subsection \<open>Slots last one hour\<close>

lemma extract_epoch_hour: "(extract_epoch d = 3600) = (d = 3600 * 1000000)"
proof -
  have "((of_int d :: rat) / 1000000 = 3600) = ((of_int d :: rat) = of_int (3600 * 1000000))"
    by (simp add: divide_eq_eq)
  also have "\<dots> = (d = 3600 * 1000000)"
    by (simp only: of_int_eq_iff)
  finally show ?thesis by (simp only: extract_epoch_def)
qed

lemma step_unchanged:
  assumes "isl (exec st db)"
  shows "step n (s, st) db = db"
  using rls_exec_cases [of n s st db] assms
  by (cases "rls_exec n s st db") (auto simp: step_def)

lemma nurse_slots_history:
  assumes "\<forall>r \<in> set (nurse_slots db). valid_slot_time r \<and> one_hour_slot r"
  shows "\<forall>r \<in> set (nurse_slots (history n xs db)). valid_slot_time r \<and> one_hour_slot r"
  using assms
  by (rule history_invariant
      [where P = "\<lambda>d. \<forall>r \<in> set (nurse_slots d). valid_slot_time r \<and> one_hour_slot r"])
    (rule exec_nurse_slots)

text \<open>
  C2. Every row of \<open>nurse_slots\<close> ends after it starts and lasts exactly 3600 seconds:
  in any database that any sequence of statements of any sessions leaves, from the empty
  tables or from a database whose slots all last one hour. An insert of a slot of any
  other duration fails, and an insert or an update to such a slot leaves the database
  as it was.
\<close>

theorem nurse_slots_one_hour:
  "((\<forall>r \<in> set (nurse_slots db).
        ns_start_time r < ns_end_time r \<and> ns_end_time r - ns_start_time r = 3600 * 1000000)
     \<longrightarrow> (\<forall>r \<in> set (nurse_slots (history n xs db)).
        ns_start_time r < ns_end_time r \<and> ns_end_time r - ns_start_time r = 3600 * 1000000))
   \<and> (\<forall>r \<in> set (nurse_slots (history n xs (created users))).
        ns_start_time r < ns_end_time r \<and> ns_end_time r - ns_start_time r = 3600 * 1000000)
   \<and> (ns_end_time new - ns_start_time new \<noteq> 3600 * 1000000
        \<longrightarrow> isl (exec (Insert_into (In_nurse_slots new)) db)
          \<and> isl (rls_exec n s (Insert_into (In_nurse_slots new)) db)
          \<and> step n (s, Insert_into (In_nurse_slots new)) db = db
          \<and> step n (s, Update_set k (In_nurse_slots new)) db = db)"
proof -
  have ok: "\<And>r. (valid_slot_time r \<and> one_hour_slot r)
              = (ns_start_time r < ns_end_time r
                 \<and> ns_end_time r - ns_start_time r = 3600 * 1000000)"
    by (simp add: valid_slot_time_def one_hour_slot_def extract_epoch_hour)
  have 1: "(\<forall>r \<in> set (nurse_slots db).
        ns_start_time r < ns_end_time r \<and> ns_end_time r - ns_start_time r = 3600 * 1000000)
     \<longrightarrow> (\<forall>r \<in> set (nurse_slots (history n xs db)).
        ns_start_time r < ns_end_time r \<and> ns_end_time r - ns_start_time r = 3600 * 1000000)"
    using nurse_slots_history [of db n xs] unfolding ok by blast
  have 2: "\<forall>r \<in> set (nurse_slots (history n xs (created users))).
        ns_start_time r < ns_end_time r \<and> ns_end_time r - ns_start_time r = 3600 * 1000000"
    using nurse_slots_history [of "created users" n xs] unfolding ok
    by (simp add: created_def)
  have 3: "isl (exec (Insert_into (In_nurse_slots new)) db)
          \<and> isl (rls_exec n s (Insert_into (In_nurse_slots new)) db)
          \<and> step n (s, Insert_into (In_nurse_slots new)) db = db
          \<and> step n (s, Update_set k (In_nurse_slots new)) db = db"
    if d: "ns_end_time new - ns_start_time new \<noteq> 3600 * 1000000"
  proof -
    from d have n: "\<not> one_hour_slot new" by (simp add: one_hour_slot_def extract_epoch_hour)
    then have i: "isl (exec (Insert_into (In_nurse_slots new)) db)"
      by (simp add: insert_nurse_slots_def)
    then have "isl (rls_exec n s (Insert_into (In_nurse_slots new)) db)" by simp
    moreover from i have "step n (s, Insert_into (In_nurse_slots new)) db = db"
      by (rule step_unchanged)
    moreover have "step n (s, Update_set k (In_nurse_slots new)) db = db"
    proof (cases "exec (Update_set k (In_nurse_slots new)) db")
      case (Inl e)
      then show ?thesis by (intro step_unchanged) simp
    next
      case (Inr db')
      then have "update_nurse_slots k new db = Inr db'" by simp
      then have "db' = db" using n by (cases rule: update_nurse_slots_cases) simp_all
      with Inr show ?thesis
        using step_cases [of n "(s, Update_set k (In_nurse_slots new))" db] by auto
    qed
    ultimately show ?thesis using i by blast
  qed
  from 1 2 3 show ?thesis by blast
qed

theorem nurse_slots_one_hour_witness:
  "nurse_slots ((seeded 0)\<lparr>nurse_slots := [example_slot]\<rparr>) = [example_slot]
   \<and> ns_start_time example_slot < ns_end_time example_slot
   \<and> ns_end_time example_slot - ns_start_time example_slot = 3600 * 1000000
   \<and> nurse_slots (history 0
         [(authenticated test_nurse_id,
           Update_set ''slot-1'' (In_nurse_slots (example_slot\<lparr>ns_status := ''booked''\<rparr>)))]
         ((seeded 0)\<lparr>nurse_slots := [example_slot]\<rparr>))
       = [example_slot\<lparr>ns_status := ''booked''\<rparr>]
   \<and> ns_start_time (example_slot\<lparr>ns_status := ''booked''\<rparr>)
        < ns_end_time (example_slot\<lparr>ns_status := ''booked''\<rparr>)
   \<and> ns_end_time (example_slot\<lparr>ns_status := ''booked''\<rparr>)
        - ns_start_time (example_slot\<lparr>ns_status := ''booked''\<rparr>) = 3600 * 1000000
   \<and> ns_end_time example_long_slot - ns_start_time example_long_slot \<noteq> 3600 * 1000000
   \<and> exec (Insert_into (In_nurse_slots example_long_slot)) (seeded 0)
       = Inl (check_violation ''one_hour_slot'')
   \<and> step 0 (authenticated test_nurse_id, Insert_into (In_nurse_slots example_long_slot))
        (seeded 0) = seeded 0"
proof -
  let ?db = "(seeded 0)\<lparr>nurse_slots := [example_slot]\<rparr>"
  let ?xs = "[(authenticated test_nurse_id,
           Update_set ''slot-1'' (In_nurse_slots (example_slot\<lparr>ns_status := ''booked''\<rparr>)))]"
  have h: "history 0 ?xs ?db
       = (seeded 0)\<lparr>nurse_slots := [example_slot\<lparr>ns_status := ''booked''\<rparr>]\<rparr>"
    by (simp add: history_def step_def table_rows_def update_nurse_slots_def check_defs
        policy_nurse_slots extract_epoch_hour seeded_def row_defs)
  then have h': "nurse_slots (history 0 ?xs ?db) = [example_slot\<lparr>ns_status := ''booked''\<rparr>]"
    by simp
  have e: "exec (Insert_into (In_nurse_slots example_long_slot)) (seeded 0)
       = Inl (check_violation ''one_hour_slot'')"
    by (simp add: insert_nurse_slots_def check_defs extract_epoch_hour row_defs)
  have d: "ns_end_time example_long_slot - ns_start_time example_long_slot \<noteq> 3600 * 1000000"
    by (simp add: row_defs)
  have a: "\<forall>r \<in> set (nurse_slots ?db).
      ns_start_time r < ns_end_time r \<and> ns_end_time r - ns_start_time r = 3600 * 1000000"
    by (simp add: row_defs)
  note t = nurse_slots_one_hour [where db = ?db and n = 0 and xs = ?xs]
  note u = nurse_slots_one_hour [where db = "seeded 0" and n = 0 and new = example_long_slot
      and s = "authenticated test_nurse_id"]
  from t a have c: "\<forall>r \<in> set (nurse_slots (history 0 ?xs ?db)).
      ns_start_time r < ns_end_time r \<and> ns_end_time r - ns_start_time r = 3600 * 1000000"
    by blast
  from u d have f: "step 0 (authenticated test_nurse_id,
      Insert_into (In_nurse_slots example_long_slot)) (seeded 0) = seeded 0"
    by blast
  have g: "nurse_slots ?db = [example_slot]" by simp
  have i: "example_slot \<in> set (nurse_slots ?db)" by simp
  have j: "example_slot\<lparr>ns_status := ''booked''\<rparr> \<in> set (nurse_slots (history 0 ?xs ?db))"
    by (simp only: h' list.set insertI1)
  from a i have k: "ns_start_time example_slot < ns_end_time example_slot"
    "ns_end_time example_slot - ns_start_time example_slot = 3600 * 1000000"
    by blast+
  from c j have l: "ns_start_time (example_slot\<lparr>ns_status := ''booked''\<rparr>)
        < ns_end_time (example_slot\<lparr>ns_status := ''booked''\<rparr>)"
    "ns_end_time (example_slot\<lparr>ns_status := ''booked''\<rparr>)
        - ns_start_time (example_slot\<lparr>ns_status := ''booked''\<rparr>) = 3600 * 1000000"
    by blast+
  from g h' k l d e f show ?thesis by blast
qed

subsection \<open>Profile extensions share the key of their profile\<close>

lemma referential_integrity_created: "referential_integrity (created users)"
  by (simp add: referential_integrity_def fkey_defs created_def)

lemma referential_integrity_history:
  "referential_integrity db \<Longrightarrow> referential_integrity (history n xs db)"
  by (rule history_invariant [where P = referential_integrity]) (auto intro: exec_ri)

lemma distinct_at_most_one:
  "distinct (map f xs) \<Longrightarrow> length (filter (\<lambda>r. f r = v) xs) \<le> 1"
proof (induction xs)
  case Nil
  show ?case by simp
next
  case (Cons x xs)
  show ?case
  proof (cases "f x = v")
    case True
    with Cons.prems have "v \<notin> f ` set xs" by simp
    then have "\<forall>r \<in> set xs. f r \<noteq> v" by blast
    then have "filter (\<lambda>r. f r = v) xs = []" by (simp add: filter_empty_conv)
    with True show ?thesis by simp
  next
    case False
    with Cons show ?thesis by simp
  qed
qed

text \<open>
  C7. The primary key of a \<open>patient_profiles\<close> or \<open>nurse_profiles\<close> row is the foreign
  key to \<open>profiles.id\<close>: in any database that any sequence of statements leaves from the
  empty tables, no two rows of either table have the same id, so a \<open>profiles\<close> row has at
  most one row in each, and the id of every such row is the id of a \<open>profiles\<close> row. An
  insert with an id that the table already has fails.
\<close>

theorem shared_primary_key:
  "distinct (map pp_id (patient_profiles (history n xs (created users))))
   \<and> distinct (map np_id (nurse_profiles (history n xs (created users))))
   \<and> (\<forall>p \<in> set (profiles (history n xs (created users))).
        length (filter (\<lambda>r. pp_id r = p_id p)
                  (patient_profiles (history n xs (created users)))) \<le> 1
        \<and> length (filter (\<lambda>r. np_id r = p_id p)
                    (nurse_profiles (history n xs (created users)))) \<le> 1)
   \<and> (\<forall>r \<in> set (patient_profiles (history n xs (created users))).
        pp_id r \<in> p_id ` set (profiles (history n xs (created users))))
   \<and> (\<forall>r \<in> set (nurse_profiles (history n xs (created users))).
        np_id r \<in> p_id ` set (profiles (history n xs (created users))))
   \<and> (pp_id q \<in> pp_id ` set (patient_profiles db)
        \<longrightarrow> exec (Insert_into (In_patient_profiles q)) db
              = (if patient_profiles_gender_check q
                 then Inl (unique_violation ''patient_profiles_pkey'')
                 else Inl (check_violation ''patient_profiles_gender_check'')))
   \<and> (np_id m \<in> np_id ` set (nurse_profiles db)
        \<longrightarrow> exec (Insert_into (In_nurse_profiles m)) db
              = Inl (unique_violation ''nurse_profiles_pkey''))"
proof -
  let ?db = "history n xs (created users)"
  have dp: "distinct (map pp_id (patient_profiles ?db))"
    by (rule history_invariant [where P = "\<lambda>d. distinct (map pp_id (patient_profiles d))"])
      (simp_all add: created_def exec_distinct_patient_profiles)
  have dn: "distinct (map np_id (nurse_profiles ?db))"
    by (rule history_invariant [where P = "\<lambda>d. distinct (map np_id (nurse_profiles d))"])
      (simp_all add: created_def exec_distinct_nurse_profiles)
  have ri: "referential_integrity ?db"
    by (rule referential_integrity_history) (rule referential_integrity_created)
  then have fp: "\<forall>r \<in> set (patient_profiles ?db). pp_id r \<in> p_id ` set (profiles ?db)"
    and fn: "\<forall>r \<in> set (nurse_profiles ?db). np_id r \<in> p_id ` set (profiles ?db)"
    by (simp_all add: referential_integrity_def patient_profiles_id_fkey_def
        nurse_profiles_id_fkey_def)
  have one: "\<forall>p \<in> set (profiles ?db).
        length (filter (\<lambda>r. pp_id r = p_id p) (patient_profiles ?db)) \<le> 1
        \<and> length (filter (\<lambda>r. np_id r = p_id p) (nurse_profiles ?db)) \<le> 1"
    using distinct_at_most_one [OF dp] distinct_at_most_one [OF dn] by blast
  have ip: "pp_id q \<in> pp_id ` set (patient_profiles db)
        \<longrightarrow> exec (Insert_into (In_patient_profiles q)) db
              = (if patient_profiles_gender_check q
                 then Inl (unique_violation ''patient_profiles_pkey'')
                 else Inl (check_violation ''patient_profiles_gender_check''))"
    by (simp add: insert_patient_profiles_def)
  have "np_id m \<in> np_id ` set (nurse_profiles db)
        \<longrightarrow> exec (Insert_into (In_nurse_profiles m)) db
              = Inl (unique_violation ''nurse_profiles_pkey'')"
    by (simp add: insert_nurse_profiles_def)
  with dp dn one fp fn ip show ?thesis by blast
qed

theorem shared_primary_key_witness:
  "distinct (map pp_id (patient_profiles (seeded 0)))
   \<and> distinct (map np_id (nurse_profiles (seeded 0)))
   \<and> patient_profiles (seeded 0) = [test_patient_profile 0]
   \<and> nurse_profiles (seeded 0) = [test_nurse_profile 0]
   \<and> pp_id (test_patient_profile 0) \<in> p_id ` set (profiles (seeded 0))
   \<and> np_id (test_nurse_profile 0) \<in> p_id ` set (profiles (seeded 0))
   \<and> test_patient 0 \<in> set (profiles (seeded 0))
   \<and> length (filter (\<lambda>r. pp_id r = p_id (test_patient 0)) (patient_profiles (seeded 0))) \<le> 1
   \<and> length (filter (\<lambda>r. np_id r = p_id (test_patient 0)) (nurse_profiles (seeded 0))) \<le> 1
   \<and> pp_id (test_patient_profile 0) \<in> pp_id ` set (patient_profiles (seeded 0))
   \<and> patient_profiles_gender_check (test_patient_profile 0)
   \<and> exec (Insert_into (In_patient_profiles (test_patient_profile 0))) (seeded 0)
        = Inl (unique_violation ''patient_profiles_pkey'')
   \<and> np_id (test_nurse_profile 0) \<in> np_id ` set (nurse_profiles (seeded 0))
   \<and> exec (Insert_into (In_nurse_profiles (test_nurse_profile 0))) (seeded 0)
        = Inl (unique_violation ''nurse_profiles_pkey'')"
proof -
  note t = shared_primary_key [where n = 0 and xs = example_sign_up
      and users = "[test_patient_id, test_nurse_id]" and db = "seeded 0"
      and q = "test_patient_profile 0" and m = "test_nurse_profile 0", unfolded sign_up_history]
  have a: "patient_profiles (seeded 0) = [test_patient_profile 0]"
    "nurse_profiles (seeded 0) = [test_nurse_profile 0]"
    by (simp_all add: seeded_def)
  have b: "pp_id (test_patient_profile 0) \<in> pp_id ` set (patient_profiles (seeded 0))"
    "np_id (test_nurse_profile 0) \<in> np_id ` set (nurse_profiles (seeded 0))"
    by (simp_all add: seeded_def)
  have c: "patient_profiles_gender_check (test_patient_profile 0)"
    by (simp add: patient_profiles_gender_check_def test_patient_profile_def)
  from t b c have d: "exec (Insert_into (In_patient_profiles (test_patient_profile 0))) (seeded 0)
        = Inl (unique_violation ''patient_profiles_pkey'')"
    "exec (Insert_into (In_nurse_profiles (test_nurse_profile 0))) (seeded 0)
        = Inl (unique_violation ''nurse_profiles_pkey'')"
    by (simp_all only: if_True simp_thms)
  have e: "test_patient_profile 0 \<in> set (patient_profiles (seeded 0))"
    "test_nurse_profile 0 \<in> set (nurse_profiles (seeded 0))"
    "test_patient 0 \<in> set (profiles (seeded 0))"
    by (simp_all add: seeded_def)
  from t e have f: "pp_id (test_patient_profile 0) \<in> p_id ` set (profiles (seeded 0))"
    "np_id (test_nurse_profile 0) \<in> p_id ` set (profiles (seeded 0))"
    "length (filter (\<lambda>r. pp_id r = p_id (test_patient 0)) (patient_profiles (seeded 0))) \<le> 1"
    "length (filter (\<lambda>r. np_id r = p_id (test_patient 0)) (nurse_profiles (seeded 0))) \<le> 1"
    by blast+
  from t a b c d e f show ?thesis by blast
qed

subsection \<open>Profile extensions reference a profile\<close>

lemma step_unchanged_if:
  assumes "\<And>db'. exec st db = Inr db' \<Longrightarrow> db' = db"
  shows "step n (s, st) db = db"
  using step_cases [of n "(s, st)" db] assms by auto

text \<open>
  The foreign key of \<open>nurse_profiles\<close> looks for the id in \<open>profiles\<close> and the insert
  policy compares the id with the session's identity; neither reads the role. The test
  patient, whose profile has the role \<open>patient\<close>, inserts a \<open>nurse_profiles\<close> row for
  itself.
\<close>

theorem nurse_profile_role_counterexample:
  "test_patient 0 \<in> set (profiles (seeded 0))
   \<and> p_role (test_patient 0) = ''patient''
   \<and> p_id (test_patient 0) = np_id example_patient_as_nurse
   \<and> rls_exec 0 (authenticated test_patient_id)
        (Insert_into (In_nurse_profiles example_patient_as_nurse)) (seeded 0)
       = Inr ((seeded 0)\<lparr>nurse_profiles := [test_nurse_profile 0, example_patient_as_nurse]\<rparr>)"
  by (simp add: seeded_def insert_defs policy_nurse_profiles_insert test_ids_distinct row_defs)

lemma policy_anon_profile_extensions:
  "\<not> passes_check sub anon ''patient_profiles'' FOR_INSERT r"
  "\<not> passes_check sub anon ''nurse_profiles'' FOR_INSERT r"
  by (simp_all add: policy_defs)

lemma insert_nurse_profiles_roles:
  "insert_nurse_profiles m (db\<lparr>profiles := map (\<lambda>p. p\<lparr>p_role := g p\<rparr>) (profiles db)\<rparr>)
     = (case insert_nurse_profiles m db of
          Inl e \<Rightarrow> Inl e
        | Inr d \<Rightarrow> Inr (d\<lparr>profiles := map (\<lambda>p. p\<lparr>p_role := g p\<rparr>) (profiles d)\<rparr>))"
  by (simp add: insert_nurse_profiles_def o_def)

lemma insert_patient_profiles_roles:
  "insert_patient_profiles q (db\<lparr>profiles := map (\<lambda>p. p\<lparr>p_role := g p\<rparr>) (profiles db)\<rparr>)
     = (case insert_patient_profiles q db of
          Inl e \<Rightarrow> Inl e
        | Inr d \<Rightarrow> Inr (d\<lparr>profiles := map (\<lambda>p. p\<lparr>p_role := g p\<rparr>) (profiles d)\<rparr>))"
  by (simp add: insert_patient_profiles_def o_def)

text \<open>
  C1, as the schema has it. In any database that any sequence of statements leaves from
  the empty tables, the id of every row of \<open>patient_profiles\<close> and of \<open>nurse_profiles\<close> is
  the id of a \<open>profiles\<close> row. An insert of such a row whose id is the id of no \<open>profiles\<close>
  row fails and leaves the database as it was. The role of the profile is not looked at:
  for every session, what an insert into \<open>patient_profiles\<close> or \<open>nurse_profiles\<close> does
  is the same whatever roles the \<open>profiles\<close> rows have, so no insert is refused on account
  of a role.
\<close>

theorem profile_rows_reference_profiles:
  "(\<forall>r \<in> set (patient_profiles (history n xs (created users))).
        pp_id r \<in> p_id ` set (profiles (history n xs (created users))))
   \<and> (\<forall>r \<in> set (nurse_profiles (history n xs (created users))).
        np_id r \<in> p_id ` set (profiles (history n xs (created users))))
   \<and> (pp_id q \<notin> p_id ` set (profiles db)
        \<longrightarrow> isl (exec (Insert_into (In_patient_profiles q)) db)
            \<and> isl (rls_exec n s (Insert_into (In_patient_profiles q)) db)
            \<and> step n (s, Insert_into (In_patient_profiles q)) db = db)
   \<and> (np_id m \<notin> p_id ` set (profiles db)
        \<longrightarrow> isl (exec (Insert_into (In_nurse_profiles m)) db)
            \<and> isl (rls_exec n s (Insert_into (In_nurse_profiles m)) db)
            \<and> step n (s, Insert_into (In_nurse_profiles m)) db = db)
   \<and> rls_exec n s (Insert_into (In_patient_profiles q))
         (db\<lparr>profiles := map (\<lambda>p. p\<lparr>p_role := g p\<rparr>) (profiles db)\<rparr>)
       = (case rls_exec n s (Insert_into (In_patient_profiles q)) db of
            Inl e \<Rightarrow> Inl e
          | Inr d \<Rightarrow> Inr (d\<lparr>profiles := map (\<lambda>p. p\<lparr>p_role := g p\<rparr>) (profiles d)\<rparr>))
   \<and> rls_exec n s (Insert_into (In_nurse_profiles m))
         (db\<lparr>profiles := map (\<lambda>p. p\<lparr>p_role := g p\<rparr>) (profiles db)\<rparr>)
       = (case rls_exec n s (Insert_into (In_nurse_profiles m)) db of
            Inl e \<Rightarrow> Inl e
          | Inr d \<Rightarrow> Inr (d\<lparr>profiles := map (\<lambda>p. p\<lparr>p_role := g p\<rparr>) (profiles d)\<rparr>))"
proof -
  let ?db = "history n xs (created users)"
  let ?roles = "\<lambda>d. d\<lparr>profiles := map (\<lambda>p. p\<lparr>p_role := g p\<rparr>) (profiles d)\<rparr>"
  have ri: "referential_integrity ?db"
    by (rule referential_integrity_history) (rule referential_integrity_created)
  then have fp: "\<forall>r \<in> set (patient_profiles ?db). pp_id r \<in> p_id ` set (profiles ?db)"
    and fn: "\<forall>r \<in> set (nurse_profiles ?db). np_id r \<in> p_id ` set (profiles ?db)"
    by (simp_all add: referential_integrity_def patient_profiles_id_fkey_def
        nurse_profiles_id_fkey_def)
  have ip: "isl (exec (Insert_into (In_patient_profiles q)) db)
            \<and> isl (rls_exec n s (Insert_into (In_patient_profiles q)) db)
            \<and> step n (s, Insert_into (In_patient_profiles q)) db = db"
    if "pp_id q \<notin> p_id ` set (profiles db)"
  proof -
    from that have "isl (exec (Insert_into (In_patient_profiles q)) db)"
      by (simp add: insert_patient_profiles_def)
    then show ?thesis by (simp add: step_unchanged)
  qed
  have "in": "isl (exec (Insert_into (In_nurse_profiles m)) db)
            \<and> isl (rls_exec n s (Insert_into (In_nurse_profiles m)) db)
            \<and> step n (s, Insert_into (In_nurse_profiles m)) db = db"
    if "np_id m \<notin> p_id ` set (profiles db)"
  proof -
    from that have "isl (exec (Insert_into (In_nurse_profiles m)) db)"
      by (simp add: insert_nurse_profiles_def)
    then show ?thesis by (simp add: step_unchanged)
  qed
  have rp: "rls_exec n s (Insert_into (In_patient_profiles q)) (?roles db)
       = (case rls_exec n s (Insert_into (In_patient_profiles q)) db of
            Inl e \<Rightarrow> Inl e | Inr d \<Rightarrow> Inr (?roles d))"
  proof (cases s)
    case anon
    then show ?thesis by (simp add: policy_anon_profile_extensions)
  next
    case (authenticated u)
    then show ?thesis
      by (simp add: policy_own_insert insert_patient_profiles_roles)
  next
    case service_role
    then show ?thesis by (simp add: insert_patient_profiles_roles)
  qed
  have rn: "rls_exec n s (Insert_into (In_nurse_profiles m)) (?roles db)
       = (case rls_exec n s (Insert_into (In_nurse_profiles m)) db of
            Inl e \<Rightarrow> Inl e | Inr d \<Rightarrow> Inr (?roles d))"
  proof (cases s)
    case anon
    then show ?thesis by (simp add: policy_anon_profile_extensions)
  next
    case (authenticated u)
    then show ?thesis
      by (simp add: policy_nurse_profiles_insert insert_nurse_profiles_roles)
  next
    case service_role
    then show ?thesis by (simp add: insert_nurse_profiles_roles)
  qed
  from fp fn ip "in" rp rn show ?thesis by blast
qed

theorem profile_rows_reference_profiles_witness:
  "patient_profiles (seeded 0) = [test_patient_profile 0]
   \<and> nurse_profiles (seeded 0) = [test_nurse_profile 0]
   \<and> pp_id (test_patient_profile 0) \<in> p_id ` set (profiles (seeded 0))
   \<and> np_id (test_nurse_profile 0) \<in> p_id ` set (profiles (seeded 0))
   \<and> pp_id (test_patient_profile 0) \<notin> p_id ` set (profiles (created [test_patient_id]))
   \<and> isl (rls_exec 0 (authenticated test_patient_id)
            (Insert_into (In_patient_profiles (test_patient_profile 0)))
            (created [test_patient_id]))
   \<and> np_id (test_nurse_profile 0) \<notin> p_id ` set (profiles (created [test_patient_id]))
   \<and> step 0 (authenticated test_nurse_id, Insert_into (In_nurse_profiles (test_nurse_profile 0)))
        (created [test_patient_id]) = created [test_patient_id]
   \<and> rls_exec 0 (authenticated test_patient_id)
        (Insert_into (In_nurse_profiles example_patient_as_nurse))
        ((seeded 0)\<lparr>profiles := map (\<lambda>p. p\<lparr>p_role := ''nurse''\<rparr>) (profiles (seeded 0))\<rparr>)
       = Inr ((seeded 0)\<lparr>nurse_profiles := [test_nurse_profile 0, example_patient_as_nurse],
                profiles := map (\<lambda>p. p\<lparr>p_role := ''nurse''\<rparr>) (profiles (seeded 0))\<rparr>)"
proof -
  note t = profile_rows_reference_profiles [where n = 0 and xs = example_sign_up
      and users = "[test_patient_id, test_nurse_id]" and db = "seeded 0"
      and m = example_patient_as_nurse and s = "authenticated test_patient_id"
      and g = "\<lambda>p. ''nurse''", unfolded sign_up_history]
  note u = profile_rows_reference_profiles [where n = 0 and db = "created [test_patient_id]"
      and q = "test_patient_profile 0" and m = "test_nurse_profile 0"
      and s = "authenticated test_nurse_id"]
  note v = profile_rows_reference_profiles [where n = 0 and db = "created [test_patient_id]"
      and q = "test_patient_profile 0" and s = "authenticated test_patient_id"]
  have a: "patient_profiles (seeded 0) = [test_patient_profile 0]"
    "nurse_profiles (seeded 0) = [test_nurse_profile 0]"
    by (simp_all add: seeded_def)
  have b: "pp_id (test_patient_profile 0) \<notin> p_id ` set (profiles (created [test_patient_id]))"
    "np_id (test_nurse_profile 0) \<notin> p_id ` set (profiles (created [test_patient_id]))"
    by (simp_all add: created_def)
  have d: "test_patient_profile 0 \<in> set (patient_profiles (seeded 0))"
    "test_nurse_profile 0 \<in> set (nurse_profiles (seeded 0))"
    by (simp_all add: seeded_def)
  from t d have e: "pp_id (test_patient_profile 0) \<in> p_id ` set (profiles (seeded 0))"
    "np_id (test_nurse_profile 0) \<in> p_id ` set (profiles (seeded 0))"
    by blast+
  have f: "rls_exec 0 (authenticated test_patient_id)
        (Insert_into (In_nurse_profiles example_patient_as_nurse)) (seeded 0)
       = Inr ((seeded 0)\<lparr>nurse_profiles := [test_nurse_profile 0, example_patient_as_nurse]\<rparr>)"
    by (simp add: seeded_def insert_defs policy_nurse_profiles_insert test_ids_distinct row_defs)
  from t have "rls_exec 0 (authenticated test_patient_id)
        (Insert_into (In_nurse_profiles example_patient_as_nurse))
        ((seeded 0)\<lparr>profiles := map (\<lambda>p. p\<lparr>p_role := ''nurse''\<rparr>) (profiles (seeded 0))\<rparr>)
       = (case rls_exec 0 (authenticated test_patient_id)
                 (Insert_into (In_nurse_profiles example_patient_as_nurse)) (seeded 0) of
            Inl e \<Rightarrow> Inl e
          | Inr d \<Rightarrow> Inr (d\<lparr>profiles := map (\<lambda>p. p\<lparr>p_role := ''nurse''\<rparr>) (profiles d)\<rparr>))"
    by blast
  note k = this
  have h: "rls_exec 0 (authenticated test_patient_id)
        (Insert_into (In_nurse_profiles example_patient_as_nurse))
        ((seeded 0)\<lparr>profiles := map (\<lambda>p. p\<lparr>p_role := ''nurse''\<rparr>) (profiles (seeded 0))\<rparr>)
       = Inr ((seeded 0)\<lparr>nurse_profiles := [test_nurse_profile 0, example_patient_as_nurse],
                profiles := map (\<lambda>p. p\<lparr>p_role := ''nurse''\<rparr>) (profiles (seeded 0))\<rparr>)"
    by (simp add: k f del: rls_exec.simps)
  from u v a b e h show ?thesis by blast
qed

subsection \<open>Deleting a profile\<close>

lemma delete_profiles_bookings:
  assumes "b \<in> set (bookings (delete_profiles P db))"
  shows "\<not> refers (b_slot_id b)
           (map ns_id (filter (\<lambda>s. refers (ns_nurse_id s)
              (map np_id (filter (\<lambda>n. np_id n \<in> set (map p_id (filter P (profiles db))))
                 (nurse_profiles db)))) (nurse_slots db)))"
  using assms
  by (simp add: delete_profiles_def Let_def delete_nurse_profiles_fields
      delete_patient_profiles_fields del: filter_filter)

text \<open>
  C6. Deleting the \<open>profiles\<close> row with id \<open>u\<close> always succeeds and removes exactly the
  \<open>profiles\<close> rows with that id. In a database whose foreign keys hold, it leaves no
  \<open>patient_profiles\<close> or \<open>nurse_profiles\<close> row with id \<open>u\<close>, no \<open>nurse_service_areas\<close> or
  \<open>nurse_slots\<close> row of nurse \<open>u\<close>, and no \<open>bookings\<close> row whose patient or nurse is \<open>u\<close>
  or whose slot was a slot of nurse \<open>u\<close>; every foreign key still holds, so no row is
  left dangling.
\<close>

theorem profile_delete_cascades:
  "exec (Delete_from ''profiles'' u) db = Inr (delete_profiles (\<lambda>r. p_id r = u) db)
   \<and> profiles (delete_profiles (\<lambda>r. p_id r = u) db) = filter (\<lambda>r. p_id r \<noteq> u) (profiles db)
   \<and> (referential_integrity db \<longrightarrow>
        referential_integrity (delete_profiles (\<lambda>r. p_id r = u) db)
        \<and> u \<notin> pp_id ` set (patient_profiles (delete_profiles (\<lambda>r. p_id r = u) db))
        \<and> u \<notin> np_id ` set (nurse_profiles (delete_profiles (\<lambda>r. p_id r = u) db))
        \<and> (\<forall>a \<in> set (nurse_service_areas (delete_profiles (\<lambda>r. p_id r = u) db)).
              nsa_nurse_id a \<noteq> Some u)
        \<and> (\<forall>t \<in> set (nurse_slots (delete_profiles (\<lambda>r. p_id r = u) db)).
              ns_nurse_id t \<noteq> Some u)
        \<and> (\<forall>b \<in> set (bookings (delete_profiles (\<lambda>r. p_id r = u) db)).
              b_patient_id b \<noteq> Some u \<and> b_nurse_id b \<noteq> Some u
              \<and> (\<forall>t \<in> set (nurse_slots db).
                    ns_nurse_id t = Some u \<longrightarrow> b_slot_id b \<noteq> Some (ns_id t))))"
proof -
  let ?db' = "delete_profiles (\<lambda>r. p_id r = u) db"
  have ex: "exec (Delete_from ''profiles'' u) db = Inr ?db'"
    by (simp add: delete_row_def)
  have pr: "profiles ?db' = filter (\<lambda>r. p_id r \<noteq> u) (profiles db)"
    by (simp add: delete_profiles_fields)
  have rest: "referential_integrity ?db'
        \<and> u \<notin> pp_id ` set (patient_profiles ?db')
        \<and> u \<notin> np_id ` set (nurse_profiles ?db')
        \<and> (\<forall>a \<in> set (nurse_service_areas ?db'). nsa_nurse_id a \<noteq> Some u)
        \<and> (\<forall>t \<in> set (nurse_slots ?db'). ns_nurse_id t \<noteq> Some u)
        \<and> (\<forall>b \<in> set (bookings ?db').
              b_patient_id b \<noteq> Some u \<and> b_nurse_id b \<noteq> Some u
              \<and> (\<forall>t \<in> set (nurse_slots db).
                    ns_nurse_id t = Some u \<longrightarrow> b_slot_id b \<noteq> Some (ns_id t)))"
    if ri: "referential_integrity db"
  proof -
    from ri ex have ri': "referential_integrity ?db'" by (rule exec_ri [rotated])
    have nu: "u \<notin> p_id ` set (profiles ?db')" by (auto simp: pr)
    from ri' nu have pp: "u \<notin> pp_id ` set (patient_profiles ?db')"
      by (auto simp: referential_integrity_def patient_profiles_id_fkey_def)
    from ri' nu have np: "u \<notin> np_id ` set (nurse_profiles ?db')"
      by (auto simp: referential_integrity_def nurse_profiles_id_fkey_def)
    from ri' np have nsa: "\<forall>a \<in> set (nurse_service_areas ?db'). nsa_nurse_id a \<noteq> Some u"
      by (auto simp: referential_integrity_def nurse_service_areas_nurse_id_fkey_def
          references_def)
    from ri' np have ns: "\<forall>t \<in> set (nurse_slots ?db'). ns_nurse_id t \<noteq> Some u"
      by (auto simp: referential_integrity_def nurse_slots_nurse_id_fkey_def references_def)
    from ri' pp have bp: "\<forall>b \<in> set (bookings ?db'). b_patient_id b \<noteq> Some u"
      by (auto simp: referential_integrity_def bookings_patient_id_fkey_def references_def)
    from ri' np have bn: "\<forall>b \<in> set (bookings ?db'). b_nurse_id b \<noteq> Some u"
      by (auto simp: referential_integrity_def bookings_nurse_id_fkey_def references_def)
    have bs: "\<forall>b \<in> set (bookings ?db'). \<forall>t \<in> set (nurse_slots db).
                ns_nurse_id t = Some u \<longrightarrow> b_slot_id b \<noteq> Some (ns_id t)"
    proof (intro ballI impI)
      fix b t
      assume b: "b \<in> set (bookings ?db')" and t: "t \<in> set (nurse_slots db)"
        and n: "ns_nurse_id t = Some u"
      from ri t n have "u \<in> np_id ` set (nurse_profiles db)"
        by (auto simp: referential_integrity_def nurse_slots_nurse_id_fkey_def references_def)
      then obtain m where m: "m \<in> set (nurse_profiles db)" "np_id m = u" by auto
      with ri have "u \<in> p_id ` set (profiles db)"
        by (auto simp: referential_integrity_def nurse_profiles_id_fkey_def)
      with m have "refers (Some u)
           (map np_id (filter (\<lambda>n. np_id n \<in> set (map p_id (filter (\<lambda>r. p_id r = u) (profiles db))))
                 (nurse_profiles db)))"
        by (auto simp: refers_def)
      with t n have "refers (Some (ns_id t))
           (map ns_id (filter (\<lambda>s. refers (ns_nurse_id s)
              (map np_id (filter (\<lambda>n. np_id n \<in> set (map p_id (filter (\<lambda>r. p_id r = u) (profiles db))))
                 (nurse_profiles db)))) (nurse_slots db)))"
        by (auto simp: refers_def)
      with delete_profiles_bookings [OF b] show "b_slot_id b \<noteq> Some (ns_id t)" by auto
    qed
    from ri' pp np nsa ns bp bn bs show ?thesis by blast
  qed
  from ex pr rest show ?thesis by blast
qed

lemmas delete_defs = delete_auth_users_def delete_profiles_def delete_service_areas_def
  delete_patient_profiles_def delete_nurse_profiles_def delete_nurse_service_areas_def
  delete_nurse_slots_def delete_bookings_def refers_def Let_def

theorem profile_delete_cascades_witness:
  "referential_integrity example_booked
   \<and> example_coverage \<in> set (nurse_service_areas example_booked)
   \<and> example_slot \<in> set (nurse_slots example_booked)
   \<and> example_booking \<in> set (bookings example_booked)
   \<and> exec (Delete_from ''profiles'' test_nurse_id) example_booked
        = Inr (delete_profiles (\<lambda>r. p_id r = test_nurse_id) example_booked)
   \<and> delete_profiles (\<lambda>r. p_id r = test_nurse_id) example_booked
        = (seeded 0)\<lparr>profiles := [test_patient 0], nurse_profiles := []\<rparr>
   \<and> referential_integrity (delete_profiles (\<lambda>r. p_id r = test_nurse_id) example_booked)
   \<and> test_patient_id
        \<notin> pp_id ` set (patient_profiles
              (delete_profiles (\<lambda>r. p_id r = test_patient_id) example_booked))
   \<and> bookings (delete_profiles (\<lambda>r. p_id r = test_patient_id) example_booked) = []"
proof -
  have ri: "referential_integrity example_booked"
    by (simp add: referential_integrity_def fkey_defs references_def example_booked_def
        seeded_def row_defs)
  have m: "example_coverage \<in> set (nurse_service_areas example_booked)"
    "example_slot \<in> set (nurse_slots example_booked)"
    "example_booking \<in> set (bookings example_booked)"
    by (simp_all add: example_booked_def)
  have d: "delete_profiles (\<lambda>r. p_id r = test_nurse_id) example_booked
        = (seeded 0)\<lparr>profiles := [test_patient 0], nurse_profiles := []\<rparr>"
    by (simp add: delete_defs example_booked_def seeded_def test_ids_distinct row_defs)
  have e: "bookings (delete_profiles (\<lambda>r. p_id r = test_patient_id) example_booked) = []"
    by (simp add: delete_defs example_booked_def seeded_def test_ids_distinct row_defs)
  note t = profile_delete_cascades [where u = test_nurse_id and db = example_booked]
  note u = profile_delete_cascades [where u = test_patient_id and db = example_booked]
  from t u ri m d e show ?thesis by blast
qed

subsection \<open>Unique pairs\<close>

text \<open>
  The column \<open>nurse_id\<close> of \<open>nurse_service_areas\<close> may be \<^verbatim>\<open>NULL\<close>, and the unique
  constraint does not compare a \<^verbatim>\<open>NULL\<close>: a second row with no nurse and the same pincode
  is inserted.
\<close>

theorem unowned_coverage_counterexample:
  "nsa_nurse_id (example_unowned_coverage ''coverage-2'')
     = nsa_nurse_id (example_unowned_coverage ''coverage-3'')
   \<and> nsa_pincode (example_unowned_coverage ''coverage-2'')
     = nsa_pincode (example_unowned_coverage ''coverage-3'')
   \<and> exec (Insert_into (In_nurse_service_areas (example_unowned_coverage ''coverage-3'')))
        ((seeded 0)\<lparr>nurse_service_areas := [example_unowned_coverage ''coverage-2'']\<rparr>)
       = Inr ((seeded 0)\<lparr>nurse_service_areas :=
                [example_unowned_coverage ''coverage-2'',
                 example_unowned_coverage ''coverage-3'']\<rparr>)"
  by (simp add: insert_nurse_service_areas_def nurse_service_areas_conflict_def references_def
      example_unowned_coverage_def)

text \<open>
  C9, as the schema has it. In any database that any sequence of statements leaves from
  the empty tables, no two \<open>service_areas\<close> rows have the same pincode and service, and
  no two \<open>nurse_service_areas\<close> rows with a nurse have the same nurse and pincode. An
  insert that would repeat such a pair fails, and an insert or an update that would
  repeat it leaves the database as it was. Rows of \<open>nurse_service_areas\<close> without a
  nurse are not compared.
\<close>

theorem unique_pairs:
  "distinct (map (\<lambda>r. (sa_pincode r, sa_service_id r))
       (service_areas (history n xs (created users))))
   \<and> distinct (map (\<lambda>r. (nsa_nurse_id r, nsa_pincode r))
       (filter (\<lambda>r. nsa_nurse_id r \<noteq> None)
          (nurse_service_areas (history n xs (created users)))))
   \<and> ((\<exists>x \<in> set (service_areas db).
           sa_pincode x = sa_pincode r \<and> sa_service_id x = sa_service_id r)
        \<longrightarrow> isl (exec (Insert_into (In_service_areas r)) db)
            \<and> step n (s, Insert_into (In_service_areas r)) db = db)
   \<and> ((\<exists>x \<in> set (service_areas db). sa_id x \<noteq> k
           \<and> sa_pincode x = sa_pincode r \<and> sa_service_id x = sa_service_id r)
        \<longrightarrow> step n (s, Update_set k (In_service_areas r)) db = db)
   \<and> (nsa_nurse_id a \<noteq> None
        \<and> (\<exists>x \<in> set (nurse_service_areas db).
              nsa_nurse_id x = nsa_nurse_id a \<and> nsa_pincode x = nsa_pincode a)
        \<longrightarrow> isl (exec (Insert_into (In_nurse_service_areas a)) db)
            \<and> step n (s, Insert_into (In_nurse_service_areas a)) db = db)
   \<and> (nsa_nurse_id a \<noteq> None
        \<and> (\<exists>x \<in> set (nurse_service_areas db). nsa_id x \<noteq> k
              \<and> nsa_nurse_id x = nsa_nurse_id a \<and> nsa_pincode x = nsa_pincode a)
        \<longrightarrow> step n (s, Update_set k (In_nurse_service_areas a)) db = db)"
proof -
  let ?db = "history n xs (created users)"
  have "service_areas_pincode_service_id_key ?db"
  proof (rule history_invariant [where P = service_areas_pincode_service_id_key])
    show "service_areas_pincode_service_id_key (created users)"
      by (simp add: service_areas_pincode_service_id_key_def created_def)
  next
    fix st d d'
    assume "service_areas_pincode_service_id_key d" and "exec st d = Inr d'"
    then show "service_areas_pincode_service_id_key d'"
      by (rule exec_service_areas_key [rotated])
  qed
  then have 1: "distinct (map (\<lambda>r. (sa_pincode r, sa_service_id r)) (service_areas ?db))"
    by (simp add: service_areas_pincode_service_id_key_def)
  have "nurse_service_areas_nurse_id_pincode_key ?db"
  proof (rule history_invariant [where P = nurse_service_areas_nurse_id_pincode_key])
    show "nurse_service_areas_nurse_id_pincode_key (created users)"
      by (simp add: nurse_service_areas_nurse_id_pincode_key_def created_def)
  next
    fix st d d'
    assume "nurse_service_areas_nurse_id_pincode_key d" and "exec st d = Inr d'"
    then show "nurse_service_areas_nurse_id_pincode_key d'"
      by (rule exec_nurse_service_areas_key [rotated])
  qed
  then have 2: "distinct (map (\<lambda>r. (nsa_nurse_id r, nsa_pincode r))
       (filter (\<lambda>r. nsa_nurse_id r \<noteq> None) (nurse_service_areas ?db)))"
    by (simp add: nurse_service_areas_nurse_id_pincode_key_def)
  have 3: "isl (exec (Insert_into (In_service_areas r)) db)
            \<and> step n (s, Insert_into (In_service_areas r)) db = db"
    if "\<exists>x \<in> set (service_areas db).
           sa_pincode x = sa_pincode r \<and> sa_service_id x = sa_service_id r"
  proof -
    from that have "service_areas_conflict r (service_areas db)"
      by (simp add: service_areas_conflict_def)
    then have "isl (exec (Insert_into (In_service_areas r)) db)"
      by (simp add: insert_service_areas_def)
    then show ?thesis by (simp add: step_unchanged)
  qed
  have 4: "step n (s, Update_set k (In_service_areas r)) db = db"
    if "\<exists>x \<in> set (service_areas db). sa_id x \<noteq> k
           \<and> sa_pincode x = sa_pincode r \<and> sa_service_id x = sa_service_id r"
  proof (rule step_unchanged_if)
    fix db'
    assume "exec (Update_set k (In_service_areas r)) db = Inr db'"
    then have "update_service_areas k r db = Inr db'" by simp
    then show "db' = db"
      using that by (cases rule: update_service_areas_cases)
        (auto simp: service_areas_conflict_def)
  qed
  have 5: "isl (exec (Insert_into (In_nurse_service_areas a)) db)
            \<and> step n (s, Insert_into (In_nurse_service_areas a)) db = db"
    if "nsa_nurse_id a \<noteq> None
        \<and> (\<exists>x \<in> set (nurse_service_areas db).
              nsa_nurse_id x = nsa_nurse_id a \<and> nsa_pincode x = nsa_pincode a)"
  proof -
    from that have "nurse_service_areas_conflict a (nurse_service_areas db)"
      by (simp add: nurse_service_areas_conflict_def)
    then have "isl (exec (Insert_into (In_nurse_service_areas a)) db)"
      by (simp add: insert_nurse_service_areas_def)
    then show ?thesis by (simp add: step_unchanged)
  qed
  have 6: "step n (s, Update_set k (In_nurse_service_areas a)) db = db"
    if "nsa_nurse_id a \<noteq> None
        \<and> (\<exists>x \<in> set (nurse_service_areas db). nsa_id x \<noteq> k
              \<and> nsa_nurse_id x = nsa_nurse_id a \<and> nsa_pincode x = nsa_pincode a)"
  proof (rule step_unchanged_if)
    fix db'
    assume "exec (Update_set k (In_nurse_service_areas a)) db = Inr db'"
    then have "update_nurse_service_areas k a db = Inr db'" by simp
    then show "db' = db"
      using that by (cases rule: update_nurse_service_areas_cases)
        (auto simp: nurse_service_areas_conflict_def)
  qed
  from 1 2 3 4 5 6 show ?thesis by blast
qed

lemma history_append: "history n (xs @ ys) db = history n ys (history n xs db)"
  by (simp add: history_def)

lemma policy_nurse_service_areas_insert:
  "passes_check sub (authenticated u) ''nurse_service_areas'' FOR_INSERT r
     = (column_uuid r ''nurse_id'' = Some u)"
  by (simp add: policy_defs)

theorem unique_pairs_witness:
  "history 0
      (example_sign_up @
       [(service_role, Insert_into (In_service_areas example_service_area)),
        (authenticated test_nurse_id, Insert_into (In_nurse_service_areas example_coverage))])
      (created [test_patient_id, test_nurse_id])
     = (seeded 0)\<lparr>service_areas := [example_service_area],
                   nurse_service_areas := [example_coverage]\<rparr>
   \<and> distinct (map (\<lambda>r. (sa_pincode r, sa_service_id r))
        (service_areas ((seeded 0)\<lparr>service_areas := [example_service_area],
                   nurse_service_areas := [example_coverage]\<rparr>)))
   \<and> distinct (map (\<lambda>r. (nsa_nurse_id r, nsa_pincode r))
       (filter (\<lambda>r. nsa_nurse_id r \<noteq> None)
          (nurse_service_areas ((seeded 0)\<lparr>service_areas := [example_service_area],
                   nurse_service_areas := [example_coverage]\<rparr>))))
   \<and> (\<exists>x \<in> set (service_areas ((seeded 0)\<lparr>service_areas := [example_service_area],
                   nurse_service_areas := [example_coverage]\<rparr>)).
         sa_pincode x = sa_pincode (example_service_area\<lparr>sa_id := ''area-2''\<rparr>)
         \<and> sa_service_id x = sa_service_id (example_service_area\<lparr>sa_id := ''area-2''\<rparr>))
   \<and> isl (exec (Insert_into (In_service_areas (example_service_area\<lparr>sa_id := ''area-2''\<rparr>)))
           ((seeded 0)\<lparr>service_areas := [example_service_area],
                   nurse_service_areas := [example_coverage]\<rparr>))
   \<and> nsa_nurse_id (example_coverage\<lparr>nsa_id := ''coverage-4''\<rparr>) \<noteq> None
   \<and> (\<exists>x \<in> set (nurse_service_areas ((seeded 0)\<lparr>service_areas := [example_service_area],
                   nurse_service_areas := [example_coverage]\<rparr>)).
         nsa_nurse_id x = nsa_nurse_id (example_coverage\<lparr>nsa_id := ''coverage-4''\<rparr>)
         \<and> nsa_pincode x = nsa_pincode (example_coverage\<lparr>nsa_id := ''coverage-4''\<rparr>))
   \<and> step 0 (authenticated test_nurse_id,
          Insert_into (In_nurse_service_areas (example_coverage\<lparr>nsa_id := ''coverage-4''\<rparr>)))
        ((seeded 0)\<lparr>service_areas := [example_service_area],
                   nurse_service_areas := [example_coverage]\<rparr>)
       = (seeded 0)\<lparr>service_areas := [example_service_area],
                   nurse_service_areas := [example_coverage]\<rparr>"
proof -
  let ?D = "(seeded 0)\<lparr>service_areas := [example_service_area],
                   nurse_service_areas := [example_coverage]\<rparr>"
  let ?ys = "[(service_role, Insert_into (In_service_areas example_service_area)),
        (authenticated test_nurse_id, Insert_into (In_nurse_service_areas example_coverage))]"
  have "history 0 ?ys (seeded 0) = ?D"
    by (simp add: history_def step_def seeded_def insert_defs check_defs
        policy_nurse_service_areas_insert row_defs)
  then have h: "history 0 (example_sign_up @ ?ys) (created [test_patient_id, test_nurse_id]) = ?D"
    by (simp only: history_append sign_up_history)
  note t = unique_pairs [where n = 0 and xs = "example_sign_up @ ?ys"
      and users = "[test_patient_id, test_nurse_id]" and db = ?D
      and r = "example_service_area\<lparr>sa_id := ''area-2''\<rparr>"
      and a = "example_coverage\<lparr>nsa_id := ''coverage-4''\<rparr>"
      and s = "authenticated test_nurse_id", unfolded h]
  have a: "\<exists>x \<in> set (service_areas ?D).
         sa_pincode x = sa_pincode (example_service_area\<lparr>sa_id := ''area-2''\<rparr>)
         \<and> sa_service_id x = sa_service_id (example_service_area\<lparr>sa_id := ''area-2''\<rparr>)"
    by simp
  have b: "nsa_nurse_id (example_coverage\<lparr>nsa_id := ''coverage-4''\<rparr>) \<noteq> None"
    by (simp add: example_coverage_def)
  have c: "\<exists>x \<in> set (nurse_service_areas ?D).
         nsa_nurse_id x = nsa_nurse_id (example_coverage\<lparr>nsa_id := ''coverage-4''\<rparr>)
         \<and> nsa_pincode x = nsa_pincode (example_coverage\<lparr>nsa_id := ''coverage-4''\<rparr>)"
    by simp
  from t h a b c show ?thesis by blast
qed

section \<open>Properties of the migration\<close>

lemma drop_policy_fold_tables:
  "pg_tables (fold (\<lambda>p. drop_policy_if_exists (policyname (pol p)) (tablename (pol p))) ps c) = pg_tables c"
  by (induction ps arbitrary: c) (simp_all add: drop_policy_if_exists_def)

lemma drop_policy_fold_policies:
  "pg_policies (fold (\<lambda>p. drop_policy_if_exists (policyname (pol p)) (tablename (pol p))) ps c)
     = filter (\<lambda>q. \<not> (schemaname q = ''public'' \<and> (\<exists>p \<in> set ps. policyname (pol p) = policyname (pol q) \<and> tablename (pol p) = tablename (pol q)))) (pg_policies c)"
proof (induction ps arbitrary: c)
  case Nil
  then show ?case by simp
next
  case (Cons a ps)
  show ?case
    by (simp add: Cons.IH) (auto simp: drop_policy_if_exists_def intro: filter_cong)
qed

lemma drop_all_policies_eq:
  "drop_all_policies c = c\<lparr>pg_policies := filter (\<lambda>q. schemaname q \<noteq> ''public'') (pg_policies c)\<rparr>"
proof -
  have "pg_policies (drop_all_policies c) = filter (\<lambda>q. schemaname q \<noteq> ''public'') (pg_policies c)"
    unfolding drop_all_policies_def drop_policy_fold_policies
    by (rule filter_cong) auto
  moreover have "pg_tables (drop_all_policies c) = pg_tables c"
    unfolding drop_all_policies_def drop_policy_fold_tables by simp
  ultimately show ?thesis by simp
qed

lemma enable_fold:
  "pg_tables (fold enable_row_level_security ns c) =
     map (\<lambda>t. if table_schema t = ''public'' \<and> table_name t \<in> set ns
                   then t\<lparr>rowsecurity := True\<rparr> else t) (pg_tables c)"
proof (induction ns arbitrary: c)
  case Nil
  then show ?case by (simp add: map_idI)
next
  case (Cons a ns)
  show ?case
    by (simp add: Cons.IH) (auto simp: enable_row_level_security_def)
qed

lemma enable_fold_policies:
  "pg_policies (fold enable_row_level_security ns c) = pg_policies c"
  by (induction ns arbitrary: c) (simp_all add: enable_row_level_security_def)

lemma enable_rls_all_eq:
  "enable_rls_all c = c\<lparr>pg_tables := map (\<lambda>t. if table_schema t = ''public'' then t\<lparr>rowsecurity := True\<rparr> else t) (pg_tables c)\<rparr>"
proof -
  have "pg_tables (enable_rls_all c) = map (\<lambda>t. if table_schema t = ''public'' then t\<lparr>rowsecurity := True\<rparr> else t) (pg_tables c)"
    unfolding enable_rls_all_def enable_fold by auto
  moreover have "pg_policies (enable_rls_all c) = pg_policies c"
    unfolding enable_rls_all_def enable_fold_policies by simp
  ultimately show ?thesis by simp
qed

lemma drop_tables_Nil: "drop_tables [] c = c"
  by (simp add: drop_tables_def map_idI)

lemma fk_step:
  "set ns' = insert n (set ns) \<Longrightarrow>
   filter (\<lambda>k. \<not> (fst k = ''public'' \<and> snd k \<in> set ns)) (filter (\<lambda>k. k \<noteq> (''public'', n)) fks)
     = filter (\<lambda>k. \<not> (fst k = ''public'' \<and> snd k \<in> set ns')) fks"
  by (induction fks) auto

lemma tables_step:
  "set ns' = insert n (set ns) \<Longrightarrow>
   map (\<lambda>t. t\<lparr>foreign_keys := filter (\<lambda>k. \<not> (fst k = ''public'' \<and> snd k \<in> set ns)) (foreign_keys t)\<rparr>)
     (filter (\<lambda>t. \<not> (table_schema t = ''public'' \<and> table_name t \<in> set ns))
        (map (\<lambda>t. t\<lparr>foreign_keys := filter (\<lambda>k. k \<noteq> (''public'', n)) (foreign_keys t)\<rparr>)
           (filter (\<lambda>t. \<not> (table_schema t = ''public'' \<and> table_name t = n)) ts)))
   = map (\<lambda>t. t\<lparr>foreign_keys := filter (\<lambda>k. \<not> (fst k = ''public'' \<and> snd k \<in> set ns')) (foreign_keys t)\<rparr>)
       (filter (\<lambda>t. \<not> (table_schema t = ''public'' \<and> table_name t \<in> set ns')) ts)"
proof (induction ts)
  case Nil
  show ?case by simp
next
  case (Cons t ts)
  note fk = fk_step [OF Cons.prems, of "foreign_keys t"]
  show ?case
  proof (cases "table_schema t = ''public'' \<and> table_name t \<in> set ns'")
    case True
    with Cons show ?thesis by auto
  next
    case False
    with Cons.prems have "\<not> (table_schema t = ''public'' \<and> table_name t = n)"
      and "\<not> (table_schema t = ''public'' \<and> table_name t \<in> set ns)" by auto
    with False Cons.IH [OF Cons.prems] fk show ?thesis by (simp del: filter_filter)
  qed
qed

lemma policies_step:
  "set ns' = insert n (set ns) \<Longrightarrow>
   filter (\<lambda>p. \<not> (schemaname p = ''public'' \<and> tablename (pol p) \<in> set ns)
                    \<and> set (policy_tables (pol p)) \<inter> set ns = {})
     (filter (\<lambda>p. \<not> (schemaname p = ''public'' \<and> tablename (pol p) = n)
                    \<and> n \<notin> set (policy_tables (pol p))) ps)
   = filter (\<lambda>p. \<not> (schemaname p = ''public'' \<and> tablename (pol p) \<in> set ns')
                    \<and> set (policy_tables (pol p)) \<inter> set ns' = {}) ps"
  by (induction ps) auto

lemma drop_tables_step:
  "drop_tables ns (drop_table_if_exists_cascade n c) = drop_tables (ns @ [n]) c"
proof -
  have s: "set (ns @ [n]) = insert n (set ns)" by simp
  show ?thesis
    unfolding drop_tables_def drop_table_if_exists_cascade_def
    by (simp only: catalog.simps tables_step [OF s] policies_step [OF s])
qed

lemma run_drops:
  "run (map Drop_table_if_exists_cascade ns @ rest) c = run rest (drop_tables (rev ns) c)"
proof (induction ns arbitrary: c)
  case Nil
  show ?case by (simp add: drop_tables_Nil)
next
  case (Cons n ns)
  show ?case by (simp add: Cons.IH drop_tables_step)
qed

lemmas create_defs = create_profiles_def create_service_areas_def create_patient_profiles_def
  create_nurse_profiles_def create_nurse_service_areas_def create_nurse_slots_def
  create_bookings_def

lemma create_step:
  assumes "\<not> table_exists c (table_schema t, table_name t)"
    and "\<forall>k \<in> set (foreign_keys t). table_exists c k"
  shows "run (Create_table_if_not_exists t # rest) c
           = run rest (c\<lparr>pg_tables := pg_tables c @ [t]\<rparr>)"
proof -
  have "find (\<lambda>k. \<not> table_exists c k) (foreign_keys t) = None"
    using assms(2) by (simp add: find_None_iff)
  then show ?thesis using assms(1) by (simp add: create_table_if_not_exists_def)
qed

lemma table_exists_append:
  "table_exists (c\<lparr>pg_tables := pg_tables c @ us\<rparr>) k
     = (table_exists c k \<or> (\<exists>t \<in> set us. (table_schema t, table_name t) = k))"
  by (auto simp: table_exists_def)

lemma run_creates:
  assumes u: "table_exists d (''auth'', ''users'')"
    and n: "\<forall>n \<in> set dropped_names. \<not> table_exists d (''public'', n)"
  shows "run (map Create_table_if_not_exists created_tables @ rest) d
           = run rest (d\<lparr>pg_tables := pg_tables d @ created_tables\<rparr>)"
proof -
  from n have n': "\<not> table_exists d (''public'', ''profiles'')"
    "\<not> table_exists d (''public'', ''service_areas'')"
    "\<not> table_exists d (''public'', ''patient_profiles'')"
    "\<not> table_exists d (''public'', ''nurse_profiles'')"
    "\<not> table_exists d (''public'', ''nurse_service_areas'')"
    "\<not> table_exists d (''public'', ''nurse_slots'')"
    "\<not> table_exists d (''public'', ''bookings'')"
    by (simp_all add: dropped_names_def)
  have k: "table_schema create_profiles = ''public''" "table_name create_profiles = ''profiles''"
      "foreign_keys create_profiles = [(''auth'', ''users'')]"
      "table_schema create_service_areas = ''public''" "table_name create_service_areas = ''service_areas''"
      "foreign_keys create_service_areas = []"
      "table_schema create_patient_profiles = ''public''" "table_name create_patient_profiles = ''patient_profiles''"
      "foreign_keys create_patient_profiles = [(''public'', ''profiles'')]"
      "table_schema create_nurse_profiles = ''public''" "table_name create_nurse_profiles = ''nurse_profiles''"
      "foreign_keys create_nurse_profiles = [(''public'', ''profiles'')]"
      "table_schema create_nurse_service_areas = ''public''" "table_name create_nurse_service_areas = ''nurse_service_areas''"
      "foreign_keys create_nurse_service_areas = [(''public'', ''nurse_profiles'')]"
      "table_schema create_nurse_slots = ''public''" "table_name create_nurse_slots = ''nurse_slots''"
      "foreign_keys create_nurse_slots = [(''public'', ''nurse_profiles'')]"
      "table_schema create_bookings = ''public''" "table_name create_bookings = ''bookings''"
      "foreign_keys create_bookings = [(''public'', ''patient_profiles''), (''public'', ''nurse_profiles''), (''public'', ''nurse_slots'')]"
    by (simp_all add: create_defs)
  show ?thesis
    unfolding created_tables_def
    by (simp add: create_step table_exists_append n' u k del: run.simps)
qed

lemma run_policies:
  assumes "\<forall>p \<in> set ps. table_exists c (''public'', tablename p)
              \<and> (\<forall>t \<in> set (policy_tables p). table_exists c (''public'', t))"
    and "distinct (map (\<lambda>p. (tablename p, policyname p)) ps)"
    and "\<forall>q \<in> set (pg_policies c). schemaname q = ''public'' \<longrightarrow>
            (tablename (pol q), policyname (pol q)) \<notin> set (map (\<lambda>p. (tablename p, policyname p)) ps)"
  shows "run (map Create_policy ps) c
           = Inr (c\<lparr>pg_policies := pg_policies c @ map (\<lambda>p. \<lparr>schemaname = ''public'', pol = p\<rparr>) ps\<rparr>)"
  using assms
proof (induction ps arbitrary: c)
  case Nil
  show ?case by simp
next
  case (Cons p ps)
  have nf: "find (\<lambda>t. \<not> table_exists c (''public'', t)) (policy_tables p) = None"
    using Cons.prems(1) by (simp add: find_None_iff)
  have step: "create_policy p c = Inr (c\<lparr>pg_policies := pg_policies c @ [\<lparr>schemaname = ''public'', pol = p\<rparr>]\<rparr>)"
    using Cons.prems nf by (auto simp: create_policy_def)
  let ?c = "c\<lparr>pg_policies := pg_policies c @ [\<lparr>schemaname = ''public'', pol = p\<rparr>]\<rparr>"
  have "run (map Create_policy ps) ?c
           = Inr (?c\<lparr>pg_policies := pg_policies ?c @ map (\<lambda>p. \<lparr>schemaname = ''public'', pol = p\<rparr>) ps\<rparr>)"
  proof (rule Cons.IH)
    show "\<forall>p\<in>set ps. table_exists ?c (''public'', tablename p) \<and>
       (\<forall>t\<in>set (policy_tables p). table_exists ?c (''public'', t))"
      using Cons.prems(1) by (simp add: table_exists_def)
    show "distinct (map (\<lambda>p. (tablename p, policyname p)) ps)" using Cons.prems(2) by simp
    show "\<forall>q\<in>set (pg_policies ?c). schemaname q = ''public'' \<longrightarrow>
       (tablename (pol q), policyname (pol q)) \<notin> set (map (\<lambda>p. (tablename p, policyname p)) ps)"
      using Cons.prems(2,3) by auto
  qed
  then show ?case by (simp add: step)
qed

lemma schema_module_phases:
  "schema_module = Drop_all_policies # map Drop_table_if_exists_cascade dropped_names
      @ (map Create_table_if_not_exists created_tables
      @ (Enable_rls_all # map Create_policy policies))"
  by (simp add: schema_module_def dropped_names_def created_tables_def)

lemma drop_tables_rev: "drop_tables (rev ns) c = drop_tables ns c"
  by (simp add: drop_tables_def)

lemma table_exists_dropped:
  "table_exists (drop_tables ns c) k
     = (table_exists c k \<and> \<not> (fst k = ''public'' \<and> snd k \<in> set ns))"
  by (cases k) (auto simp: table_exists_def drop_tables_def)

lemma table_exists_drop_all_policies:
  "table_exists (drop_all_policies c) k = table_exists c k"
  by (simp add: drop_all_policies_eq table_exists_def)

lemma policies_tables_known:
  "\<forall>p \<in> set policies. tablename p \<in> set dropped_names
      \<and> (\<forall>t \<in> set (policy_tables p). t \<in> set dropped_names)"
  by (simp add: policies_def dropped_names_def policy_tables_def)

lemma policies_distinct: "distinct (map (\<lambda>p. (tablename p, policyname p)) policies)"
  by (simp add: policies_def)

lemma created_names: "map (\<lambda>t. (table_schema t, table_name t)) created_tables
   = map (\<lambda>n. (''public'', n)) [''profiles'', ''service_areas'', ''patient_profiles'', ''nurse_profiles'',
       ''nurse_service_areas'', ''nurse_slots'', ''bookings'']"
  by (simp add: created_tables_def create_defs)

lemma table_exists_map:
  assumes "\<And>t. table_schema (f t) = table_schema t \<and> table_name (f t) = table_name t"
  shows "table_exists (c\<lparr>pg_tables := map f ts\<rparr>) k = table_exists (c\<lparr>pg_tables := ts\<rparr>) k"
  by (induction ts) (simp_all add: table_exists_def assms)

lemma table_exists_enable_rls_all: "table_exists (enable_rls_all c) k = table_exists c k"
proof -
  have "table_exists (enable_rls_all c) k = table_exists (c\<lparr>pg_tables := pg_tables c\<rparr>) k"
    unfolding enable_rls_all_eq by (rule table_exists_map) simp
  then show ?thesis by simp
qed

lemma run_schema_module:
  "run schema_module c =
     (if table_exists c (''auth'', ''users'') then Inr (recreated c)
      else Inl (undefined_table ''users''))"
proof -
  let ?d = "drop_tables dropped_names (drop_all_policies c)"
  have start: "run schema_module c
      = run (map Create_table_if_not_exists created_tables
               @ (Enable_rls_all # map Create_policy policies)) ?d"
    by (simp add: schema_module_phases run_drops drop_tables_rev)
  have gone: "\<forall>n \<in> set dropped_names. \<not> table_exists ?d (''public'', n)"
    by (simp add: table_exists_dropped)
  have users: "table_exists ?d (''auth'', ''users'') = table_exists c (''auth'', ''users'')"
    by (simp add: table_exists_dropped table_exists_drop_all_policies)
  show ?thesis
  proof (cases "table_exists c (''auth'', ''users'')")
    case False
    then have "\<not> table_exists ?d (''auth'', ''users'')" by (simp add: users)
    then have "find (\<lambda>k. \<not> table_exists ?d k) (foreign_keys create_profiles)
                 = Some (''auth'', ''users'')"
      by (simp add: create_profiles_def)
    moreover have "\<not> table_exists ?d (table_schema create_profiles, table_name create_profiles)"
      using gone by (simp add: create_profiles_def dropped_names_def)
    ultimately have "create_table_if_not_exists create_profiles ?d = Inl (undefined_table ''users'')"
      by (simp add: create_table_if_not_exists_def)
    then show ?thesis using False
      by (simp add: start created_tables_def)
  next
    case True
    then have u: "table_exists ?d (''auth'', ''users'')" by (simp add: users)
    let ?e = "enable_rls_all (?d\<lparr>pg_tables := pg_tables ?d @ created_tables\<rparr>)"
    have mid: "run schema_module c = run (map Create_policy policies) ?e"
      by (simp add: start run_creates [OF u gone])
    have ex: "\<And>k. table_exists ?e k
                = (table_exists ?d k \<or> k \<in> set (map (\<lambda>t. (table_schema t, table_name t)) created_tables))"
      by (auto simp: table_exists_enable_rls_all table_exists_append)
    have known: "\<forall>n \<in> set dropped_names. table_exists ?e (''public'', n)"
      unfolding ex created_names by (simp add: dropped_names_def)
    have 1: "\<forall>p \<in> set policies. table_exists ?e (''public'', tablename p)
              \<and> (\<forall>t \<in> set (policy_tables p). table_exists ?e (''public'', t))"
      using policies_tables_known known by blast
    have pe: "pg_policies ?e = pg_policies ?d" by (simp add: enable_rls_all_eq)
    have 3: "\<forall>q \<in> set (pg_policies ?e). schemaname q = ''public'' \<longrightarrow>
            (tablename (pol q), policyname (pol q)) \<notin> set (map (\<lambda>p. (tablename p, policyname p)) policies)"
      unfolding pe by (simp add: drop_tables_def drop_all_policies_eq)
    have "run (map Create_policy policies) ?e
            = Inr (?e\<lparr>pg_policies := pg_policies ?e @ map (\<lambda>p. \<lparr>schemaname = ''public'', pol = p\<rparr>) policies\<rparr>)"
      by (rule run_policies [OF 1 policies_distinct 3])
    also have "?e\<lparr>pg_policies := pg_policies ?e @ map (\<lambda>p. \<lparr>schemaname = ''public'', pol = p\<rparr>) policies\<rparr>
                 = recreated c"
      by (simp add: recreated_def Let_def enable_rls_all_eq)
    finally show ?thesis using True by (simp add: mid)
  qed
qed

lemma table_exists_recreated:
  assumes "table_exists c (''auth'', ''users'')"
  shows "table_exists (recreated c) (''auth'', ''users'')"
proof -
  let ?d = "drop_tables dropped_names (drop_all_policies c)"
  have r: "recreated c = (enable_rls_all (?d\<lparr>pg_tables := pg_tables ?d @ created_tables\<rparr>))
              \<lparr>pg_policies := pg_policies ?d @ map (\<lambda>p. \<lparr>schemaname = ''public'', pol = p\<rparr>) policies\<rparr>"
    by (simp add: recreated_def Let_def enable_rls_all_eq)
  have "table_exists (recreated c) (''auth'', ''users'')
          = table_exists (enable_rls_all (?d\<lparr>pg_tables := pg_tables ?d @ created_tables\<rparr>)) (''auth'', ''users'')"
    unfolding r by (simp add: table_exists_def)
  then show ?thesis using assms
    by (simp add: table_exists_enable_rls_all table_exists_append table_exists_dropped
        table_exists_drop_all_policies)
qed

lemma kept_tables_idem:
  "map (\<lambda>t. if table_schema t = ''public'' then t\<lparr>rowsecurity := True\<rparr> else t)
     (map (\<lambda>t. t\<lparr>foreign_keys := filter (\<lambda>k. \<not> (fst k = ''public'' \<and> snd k \<in> set ns)) (foreign_keys t)\<rparr>)
       (filter (\<lambda>t. \<not> (table_schema t = ''public'' \<and> table_name t \<in> set ns))
         (map (\<lambda>t. if table_schema t = ''public'' then t\<lparr>rowsecurity := True\<rparr> else t)
           (map (\<lambda>t. t\<lparr>foreign_keys := filter (\<lambda>k. \<not> (fst k = ''public'' \<and> snd k \<in> set ns)) (foreign_keys t)\<rparr>)
             (filter (\<lambda>t. \<not> (table_schema t = ''public'' \<and> table_name t \<in> set ns)) ts)))))
   = map (\<lambda>t. if table_schema t = ''public'' then t\<lparr>rowsecurity := True\<rparr> else t)
       (map (\<lambda>t. t\<lparr>foreign_keys := filter (\<lambda>k. \<not> (fst k = ''public'' \<and> snd k \<in> set ns)) (foreign_keys t)\<rparr>)
         (filter (\<lambda>t. \<not> (table_schema t = ''public'' \<and> table_name t \<in> set ns)) ts))"
  by (induction ts) auto

lemma created_tables_dropped:
  "filter (\<lambda>t. \<not> (table_schema t = ''public'' \<and> table_name t \<in> set dropped_names))
     (map (\<lambda>t. if table_schema t = ''public'' then t\<lparr>rowsecurity := True\<rparr> else t) created_tables) = []"
  by (simp add: created_tables_def create_defs dropped_names_def)

lemma kept_policies_idem:
  "filter (\<lambda>p. \<not> (schemaname p = ''public'' \<and> tablename (pol p) \<in> set ns)
                    \<and> set (policy_tables (pol p)) \<inter> set ns = {})
     (filter (\<lambda>q. schemaname q \<noteq> ''public'')
        (filter (\<lambda>p. \<not> (schemaname p = ''public'' \<and> tablename (pol p) \<in> set ns)
                    \<and> set (policy_tables (pol p)) \<inter> set ns = {})
          (filter (\<lambda>q. schemaname q \<noteq> ''public'') ps)
         @ map (\<lambda>p. \<lparr>schemaname = ''public'', pol = p\<rparr>) qs))
   = filter (\<lambda>p. \<not> (schemaname p = ''public'' \<and> tablename (pol p) \<in> set ns)
                    \<and> set (policy_tables (pol p)) \<inter> set ns = {})
          (filter (\<lambda>q. schemaname q \<noteq> ''public'') ps)"
proof -
  have "filter (\<lambda>q. schemaname q \<noteq> ''public'') (map (\<lambda>p. \<lparr>schemaname = ''public'', pol = p\<rparr>) qs) = []"
    by (induction qs) simp_all
  then show ?thesis by (induction ps) auto
qed

lemma recreated_idem: "recreated (recreated c) = recreated c"
proof -
  have t: "pg_tables (recreated (recreated c)) = pg_tables (recreated c)"
    by (simp only: recreated_def Let_def drop_tables_def drop_all_policies_eq catalog.simps
          map_append filter_append created_tables_dropped kept_tables_idem append_Nil2)
  have q: "\<And>c. pg_policies (recreated c)
      = filter (\<lambda>p. \<not> (schemaname p = ''public'' \<and> tablename (pol p) \<in> set dropped_names)
                    \<and> set (policy_tables (pol p)) \<inter> set dropped_names = {})
          (filter (\<lambda>q. schemaname q \<noteq> ''public'') (pg_policies c))
        @ map (\<lambda>p. \<lparr>schemaname = ''public'', pol = p\<rparr>) policies"
    by (simp add: recreated_def Let_def drop_tables_def drop_all_policies_eq del: filter_filter)
  have p: "pg_policies (recreated (recreated c)) = pg_policies (recreated c)"
    by (simp only: q kept_policies_idem)
  from t p show ?thesis by simp
qed

text \<open>
  C5. Applying the schema module to the catalog it left gives the same catalog, whatever
  the catalog it started from: the same tables and the same policies. When a run goes
  through, a second run goes through as well and leaves what the first left.
\<close>

theorem schema_module_idempotent:
  "apply_schema_module (apply_schema_module c) = apply_schema_module c
   \<and> (run schema_module c = Inr c' \<longrightarrow> run schema_module c' = Inr c')"
proof -
  have "apply_schema_module (apply_schema_module c) = apply_schema_module c"
    by (simp add: apply_schema_module_def run_schema_module table_exists_recreated
        recreated_idem)
  moreover have "run schema_module c' = Inr c'" if "run schema_module c = Inr c'"
  proof -
    from that have u: "table_exists c (''auth'', ''users'')" and c': "c' = recreated c"
      by (auto simp: run_schema_module split: if_splits)
    then show ?thesis
      by (simp add: run_schema_module table_exists_recreated recreated_idem)
  qed
  ultimately show ?thesis by blast
qed

theorem schema_module_idempotent_witness:
  "run schema_module example_catalog = Inr (recreated example_catalog)
   \<and> map table_name (pg_tables (recreated example_catalog))
       = [''users'', ''reviews'', ''profiles'', ''service_areas'', ''patient_profiles'',
          ''nurse_profiles'', ''nurse_service_areas'', ''nurse_slots'', ''bookings'']
   \<and> map pol (pg_policies (recreated example_catalog)) = policies
   \<and> run schema_module (recreated example_catalog) = Inr (recreated example_catalog)
   \<and> apply_schema_module (apply_schema_module example_catalog)
       = apply_schema_module example_catalog"
proof -
  have u: "table_exists example_catalog (''auth'', ''users'')"
    by (simp add: table_exists_def example_catalog_def)
  then have r: "run schema_module example_catalog = Inr (recreated example_catalog)"
    by (simp add: run_schema_module)
  have t: "map table_name (pg_tables (recreated example_catalog))
       = [''users'', ''reviews'', ''profiles'', ''service_areas'', ''patient_profiles'',
          ''nurse_profiles'', ''nurse_service_areas'', ''nurse_slots'', ''bookings'']"
    by (simp add: recreated_def Let_def drop_tables_def drop_all_policies_eq
        example_catalog_def dropped_names_def created_tables_def create_defs)
  have p: "map pol (pg_policies (recreated example_catalog)) = policies"
    by (simp add: recreated_def Let_def drop_tables_def drop_all_policies_eq
        example_catalog_def dropped_names_def o_def)
  from schema_module_idempotent [where c = example_catalog
      and c' = "recreated example_catalog"] r t p
  show ?thesis by blast
qed

end
